(* ===== verification/Prelude.thy ===== *)
theory Prelude
  imports Main "HOL-Library.Word" "HOL-Library.List_Lexorder" "HOL-Library.Char_ord"
begin

text \<open>
  Shared vocabulary of the LiteGS preparation scripts (\<open>src/scripts/prepare_video.py\<close>
  and \<open>src/scripts/run_colmap.py\<close>): absolute paths as lists of names, the file
  system as an association list from paths to nodes, the exceptions the scripts can
  raise or let escape, the lines they print, and the world (file system plus an
  observable trace) that every operation threads through.  The collection
  \<open>py_simps\<close> gathers the equations that run the model on concrete inputs.
\<close>

named_theorems py_simps "equations that evaluate the model of the scripts"

section \<open>Paths and file-system nodes\<close>

text \<open>
  A resolved \<open>pathlib.Path\<close> is an absolute, normalised path: the list of its
  components below the root; \<open>[]\<close> is \<open>/\<close>.  \<open>p / name\<close> is \<open>p @ [name]\<close>.
  A node is a regular file (with its executable permission bit, which
  \<open>shutil.which\<close> consults) or a directory.
\<close>

type_synonym path = "string list"

datatype node = File bool | Dir

type_synonym fs = "(path \<times> node) list"

text \<open>\<open>str(p)\<close> of a resolved POSIX path.\<close>

definition path_str :: "path \<Rightarrow> string" where
  "path_str p = (if p = [] then ''/'' else concat (map (\<lambda>c. CHR ''/'' # c) p))"

section \<open>Exceptions, console lines and the observable trace\<close>

text \<open>
  The exceptions that reach a script's caller.  \<open>ToolNotFound\<close> is the
  \<open>FileNotFoundError\<close> raised by \<open>ensure_ffmpeg\<close> / \<open>ensure_colmap\<close> (it names
  the tool); \<open>FileNotFoundError\<close>, \<open>FileExistsError\<close> and \<open>NotADirectoryError\<close>
  are the \<open>OSError\<close>s of \<open>os.mkdir\<close> carrying the path passed to it;
  \<open>RuntimeError rc\<close> is \<open>run_cmd\<close>'s ``Command failed with exit code rc'';
  \<open>SpawnError\<close> is the \<open>OSError\<close> of \<open>subprocess.run\<close> when the program cannot
  be started; \<open>IndexError\<close> is \<open>Path.parents[1]\<close> on a path with fewer than two
  parents.
\<close>

datatype exc =
    ToolNotFound string
  | FileNotFoundError path
  | FileExistsError path
  | NotADirectoryError path
  | RuntimeError int
  | SpawnError string
  | IndexError

text \<open>
  The lines the scripts print, one constructor per \<open>print\<close> call (the scripts'
  own wording is replaced by the constructor; the data interpolated into the line
  is kept).  \<open>Text s\<close> is a captured output stream of a child process printed
  verbatim, \<open>Traceback e\<close> the interpreter's report of an uncaught exception,
  \<open>Usage_error e\<close> the usage line and error message of \<open>parser.error\<close>, and
  \<open>Help_text\<close> the help of \<open>-h\<close>.
\<close>

text \<open>
  The values \<open>argparse\<close> stores in a namespace (\<open>None\<close>, a string, an \<open>int\<close>,
  a \<open>bool\<close>), and the errors it reports through \<open>parser.error\<close>: each carries the
  option strings of the argument concerned and the offending text.
\<close>

datatype argval = V_none | V_str string | V_int int | V_bool bool

datatype arg_error =
    Ambiguous_option string "string list"
  | Expected_one_argument "string list"
  | Ignored_explicit "string list" string
  | Invalid_int "string list" string
  | Invalid_choice "string list" argval
  | Required_missing "string list list"
  | Unrecognized "string list"

datatype msg =
    Text string
  | Video_missing path
  | Frames_exist path
  | Extract_cmd "string list"
  | Extract_failed
  | No_frames
  | Frames_done nat path
  | Running "string list"
  | Images_missing path
  | Converter_failed exc
  | Done path
  | Traceback exc
  | Usage_error arg_error
  | Help_text

datatype stream = Stdout | Stderr

text \<open>
  The observable trace: printed lines and launched child processes (working
  directory and argument vector), in the order they happen.
\<close>

datatype event = Print stream msg | Exec "path option" "string list"

record world =
  files :: fs
  trace :: "event list"

text \<open>
  A script operation runs on the world and either returns a value or raises:
  \<open>Inl\<close> is the exception, \<open>Inr\<close> the value; the world is returned in both cases
  (effects before a raise persist).
\<close>

type_synonym 'a py = "world \<Rightarrow> (exc + 'a) \<times> world"

text \<open>The child processes launched, in order, read off a trace.\<close>

fun execs :: "event list \<Rightarrow> (path option \<times> string list) list" where
  "execs [] = []"
| "execs (Print s m # es) = execs es"
| "execs (Exec c cmd # es) = (c, cmd) # execs es"

definition emit :: "stream \<Rightarrow> msg \<Rightarrow> world \<Rightarrow> world" where
  "emit s m w = w\<lparr>trace := trace w @ [Print s m]\<rparr>"

text \<open>\<open>if text: print(text, file=s)\<close>: an empty captured stream prints nothing.\<close>

definition emit_nonempty :: "stream \<Rightarrow> string \<Rightarrow> world \<Rightarrow> world" where
  "emit_nonempty s t w = (if t = [] then w else emit s (Text t) w)"

text \<open>
  The external programs (ffmpeg, colmap) are opaque: \<open>subprocess.run(cmd, cwd=...)\<close>
  either fails to start the program or returns the completed process together
  with the file system the program left behind.
\<close>

record completed =
  returncode :: int
  out_text :: string
  err_text :: string

type_synonym runner = "path option \<Rightarrow> string list \<Rightarrow> fs \<Rightarrow> exc + (completed \<times> fs)"

text \<open>
  What the scripts read from their environment: \<open>Path(s).expanduser().resolve()\<close>,
  the directories of \<open>PATH\<close> (resolved), the program runner, and the resolved
  \<open>__file__\<close> of \<open>run_colmap.py\<close>.
\<close>

record env =
  resolve :: "string \<Rightarrow> path"
  exec_path :: "path list"
  run :: runner
  script_file :: path

text \<open>
  \<open>sys.exit(main())\<close> on POSIX: a returned integer becomes the exit status modulo
  256 (\<open>exit(n)\<close> keeps the low byte); an uncaught exception prints a traceback
  and exits with status 1.
\<close>

definition py_exit :: "(exc + int) \<times> world \<Rightarrow> 8 word \<times> world" where
  "py_exit r =
     (case r of
        (Inl x, w) \<Rightarrow> (1, emit Stderr (Traceback x) w)
      | (Inr n, w) \<Rightarrow> (word_of_int n, w))"

text \<open>
  \<open>sys.exit(main())\<close> when \<open>main\<close> can also be left by \<open>SystemExit(n)\<close> (\<open>Inl n\<close>):
  that exception is not caught, and the interpreter exits with status \<open>n\<close> without
  a traceback; \<open>main\<close>'s own outcome (\<open>Inr\<close>) goes through \<open>py_exit\<close>.
\<close>

definition sys_exit :: "(8 word + (exc + int)) \<times> world \<Rightarrow> 8 word \<times> world" where
  "sys_exit r =
     (case r of
        (Inl n, w) \<Rightarrow> (n, w)
      | (Inr r', w) \<Rightarrow> py_exit (r', w))"

section \<open>Generic lemmas\<close>

lemma sys_exit_Inl [simp]: "sys_exit (Inl n, w) = (n, w)"
  by (simp add: sys_exit_def)

lemma sys_exit_Inr [simp]: "sys_exit (apfst Inr r) = py_exit r"
  by (cases r) (simp add: sys_exit_def)

lemma emit_files [simp]: "files (emit s m w) = files w"
  by (simp add: emit_def)

lemma emit_trace [simp]: "trace (emit s m w) = trace w @ [Print s m]"
  by (simp add: emit_def)

lemma emit_nonempty_files [simp]: "files (emit_nonempty s t w) = files w"
  by (simp add: emit_nonempty_def)

lemma emit_nonempty_trace:
  "trace (emit_nonempty s t w) = trace w @ (if t = [] then [] else [Print s (Text t)])"
  by (simp add: emit_nonempty_def)

declare emit_nonempty_trace [py_simps]

lemma execs_append [simp]: "execs (xs @ ys) = execs xs @ execs ys"
  by (induction xs rule: execs.induct) simp_all

lemma sort_empty_iff [simp]: "sort xs = [] \<longleftrightarrow> xs = []"
  by (metis length_0_conv length_sort)

lemma word_of_int_small_nonzero:
  assumes "n \<noteq> 0" and "-255 \<le> n" and "n \<le> 255"
  shows "(word_of_int n :: 8 word) \<noteq> 0"
proof
  assume "(word_of_int n :: 8 word) = 0"
  then have "256 dvd n" by (simp add: word_of_int_eq_0_iff)
  then obtain k where "n = 256 * k" by (auto elim: dvdE)
  with assms show False by presburger
qed

lemma replicate_numeral [py_simps]: "replicate (numeral k) x = x # replicate (pred_numeral k) x"
  by (simp add: numeral_eq_Suc)

end
