(* ===== verification/Filesystem.thy ===== *)
theory Filesystem
  imports Prelude
begin

text \<open>
  The library calls the scripts make on the file system and on processes, modelled
  from their documented POSIX behaviour (no symbolic links): \<open>Path.exists\<close>,
  \<open>Path.is_dir\<close>, \<open>os.mkdir\<close>, \<open>Path.mkdir(parents, exist_ok)\<close>,
  \<open>shutil.which\<close> and \<open>subprocess.run\<close>.  The invariant \<open>wf_fs\<close> says the
  association list is a tree: keys are distinct, non-root, and every entry's parent
  is a directory.  \<open>Path.mkdir\<close> keeps it, creates what it promises, and is the
  identity on an existing directory when \<open>exist_ok\<close> holds.
\<close>

section \<open>Lookup\<close>

definition lookup :: "fs \<Rightarrow> path \<Rightarrow> node option" where
  "lookup fs p = (if p = [] then Some Dir else map_of fs p)"

definition exists :: "fs \<Rightarrow> path \<Rightarrow> bool" where
  "exists fs p \<longleftrightarrow> lookup fs p \<noteq> None"

definition is_dir :: "fs \<Rightarrow> path \<Rightarrow> bool" where
  "is_dir fs p \<longleftrightarrow> lookup fs p = Some Dir"

definition wf_fs :: "fs \<Rightarrow> bool" where
  "wf_fs fs \<longleftrightarrow> distinct (map fst fs) \<and> (\<forall>(p, k) \<in> set fs. p \<noteq> [] \<and> is_dir fs (butlast p))"

text \<open>The proper non-root ancestors of a path, from the root down.\<close>

definition ancestors :: "path \<Rightarrow> path list" where
  "ancestors p = map (\<lambda>i. take i p) [1..<length p]"

section \<open>os.mkdir and Path.mkdir\<close>

text \<open>
  Path resolution of \<open>os.mkdir(p)\<close>: the first ancestor that is missing gives
  \<open>ENOENT\<close>, the first that is a file \<open>ENOTDIR\<close>; the error carries \<open>p\<close>.
\<close>

fun walk_error :: "fs \<Rightarrow> path \<Rightarrow> path list \<Rightarrow> exc option" where
  "walk_error fs p [] = None"
| "walk_error fs p (q # qs) =
     (case lookup fs q of
        None \<Rightarrow> Some (FileNotFoundError p)
      | Some (File _) \<Rightarrow> Some (NotADirectoryError p)
      | Some Dir \<Rightarrow> walk_error fs p qs)"

definition os_mkdir :: "path \<Rightarrow> fs \<Rightarrow> exc + fs" where
  "os_mkdir p fs =
     (case walk_error fs p (ancestors p) of
        Some e \<Rightarrow> Inl e
      | None \<Rightarrow> if exists fs p then Inl (FileExistsError p) else Inr ((p, Dir) # fs))"

text \<open>
  \<open>Path.mkdir(parents=False, exist_ok)\<close>: a \<open>FileNotFoundError\<close> is re-raised;
  any other \<open>OSError\<close> is swallowed when \<open>exist_ok\<close> holds and the path is a
  directory.
\<close>

definition mkdir_flat :: "bool \<Rightarrow> path \<Rightarrow> fs \<Rightarrow> exc + fs" where
  "mkdir_flat exist_ok p fs =
     (case os_mkdir p fs of
        Inr fs' \<Rightarrow> Inr fs'
      | Inl (FileNotFoundError q) \<Rightarrow> Inl (FileNotFoundError q)
      | Inl e \<Rightarrow> if exist_ok \<and> is_dir fs p then Inr fs else Inl e)"

text \<open>
  \<open>Path.mkdir(parents=True, exist_ok)\<close>: on \<open>FileNotFoundError\<close> create the parent
  (with \<open>parents=True, exist_ok=True\<close>) and retry once without \<open>parents\<close>.
\<close>

function mkdir_parents :: "bool \<Rightarrow> path \<Rightarrow> fs \<Rightarrow> exc + fs" where
  "mkdir_parents exist_ok p fs =
     (case os_mkdir p fs of
        Inr fs' \<Rightarrow> Inr fs'
      | Inl (FileNotFoundError q) \<Rightarrow>
          (if p = [] then Inl (FileNotFoundError q)
           else (case mkdir_parents True (butlast p) fs of
                   Inl e \<Rightarrow> Inl e
                 | Inr fs' \<Rightarrow> mkdir_flat exist_ok p fs'))
      | Inl e \<Rightarrow> if exist_ok \<and> is_dir fs p then Inr fs else Inl e)"
  by pat_completeness auto
termination
  by (relation "measure (\<lambda>(ok, p, fs). length p)") auto

declare mkdir_parents.simps [simp del]

definition py_mkdir :: "bool \<Rightarrow> bool \<Rightarrow> path \<Rightarrow> fs \<Rightarrow> exc + fs" where
  "py_mkdir parents exist_ok p fs =
     (if parents then mkdir_parents exist_ok p fs else mkdir_flat exist_ok p fs)"

section \<open>shutil.which and subprocess.run\<close>

text \<open>
  \<open>shutil.which(name)\<close>: the first directory of \<open>PATH\<close> holding an executable
  regular file of that name, rendered with \<open>os.path.join\<close>.
\<close>

definition which :: "path list \<Rightarrow> string \<Rightarrow> fs \<Rightarrow> string option" where
  "which dirs name fs =
     map_option path_str (find (\<lambda>p. lookup fs p = Some (File True)) (map (\<lambda>d. d @ [name]) dirs))"

text \<open>
  \<open>subprocess.run(cmd, cwd=cwd, stdout=PIPE, stderr=PIPE, text=True)\<close>: blocks
  until the child ends.  A launched child is recorded in the trace and its effect
  on the file system is kept; a child that cannot be started raises.
\<close>

definition py_run :: "env \<Rightarrow> path option \<Rightarrow> string list \<Rightarrow> completed py" where
  "py_run e cwd cmd w =
     (case run e cwd cmd (files w) of
        Inl x \<Rightarrow> (Inl x, w)
      | Inr (c, fs') \<Rightarrow> (Inr c, w\<lparr>files := fs', trace := trace w @ [Exec cwd cmd]\<rparr>))"

text \<open>A child process creating a node where there is none (used by example runners).\<close>

definition put_node :: "path \<Rightarrow> node \<Rightarrow> fs \<Rightarrow> fs" where
  "put_node p k fs = (if map_of fs p = None then (p, k) # fs else fs)"

text \<open>Every entry of \<open>fs\<close> is still there, unchanged, in \<open>fs'\<close>.\<close>

definition grows :: "fs \<Rightarrow> fs \<Rightarrow> bool" where
  "grows fs fs' \<longleftrightarrow> (\<forall>q k. lookup fs q = Some k \<longrightarrow> lookup fs' q = Some k)"

section \<open>Lemmas on lookup and the invariant\<close>

lemma lookup_root [simp]: "lookup fs [] = Some Dir"
  by (simp add: lookup_def)

lemma lookup_cons_Dir:
  "p \<noteq> [] \<Longrightarrow> lookup ((p, k) # fs) q = (if q = p then Some k else lookup fs q)"
  by (auto simp: lookup_def)

lemma wf_fs_parent_dir:
  assumes "wf_fs fs" and "lookup fs p \<noteq> None"
  shows "is_dir fs (butlast p)"
proof (cases "p = []")
  case True
  then show ?thesis by (simp add: is_dir_def)
next
  case False
  with assms(2) obtain k where "map_of fs p = Some k"
    by (auto simp: lookup_def)
  then have "(p, k) \<in> set fs" by (rule map_of_SomeD)
  with assms(1) show ?thesis by (auto simp: wf_fs_def)
qed

lemma wf_fs_take_dir:
  assumes "wf_fs fs" and "lookup fs p \<noteq> None" and "i < length p"
  shows "is_dir fs (take i p)"
  using assms(2,3)
proof (induction p arbitrary: i rule: rev_induct)
  case Nil
  then show ?case by simp
next
  case (snoc x xs)
  have dir: "is_dir fs xs"
    using wf_fs_parent_dir [OF assms(1) snoc.prems(1)] by simp
  show ?case
  proof (cases "i < length xs")
    case True
    from dir have "lookup fs xs \<noteq> None" by (simp add: is_dir_def)
    with True snoc.IH have "is_dir fs (take i xs)" by blast
    with True show ?thesis by simp
  next
    case False
    with snoc.prems(2) have "i = length xs" by simp
    with dir show ?thesis by simp
  qed
qed

lemma walk_error_None_iff:
  "walk_error fs p qs = None \<longleftrightarrow> (\<forall>q \<in> set qs. is_dir fs q)"
  by (induction qs) (auto simp: is_dir_def split: option.splits node.splits)

lemma walk_error_cases:
  "walk_error fs p qs = Some e \<Longrightarrow> e = FileNotFoundError p \<or> e = NotADirectoryError p"
  by (induction qs) (auto split: option.splits node.splits)

lemma ancestors_dirs_of_wf:
  "wf_fs fs \<Longrightarrow> lookup fs p \<noteq> None \<Longrightarrow> walk_error fs p (ancestors p) = None"
  by (auto simp: walk_error_None_iff ancestors_def intro: wf_fs_take_dir)

lemma butlast_in_ancestors:
  "2 \<le> length p \<Longrightarrow> butlast p \<in> set (ancestors p)"
  by (auto simp: ancestors_def butlast_conv_take image_iff intro!: bexI [of _ "length p - 1"])

lemma walk_ok_parent_dir:
  assumes "walk_error fs p (ancestors p) = None" and "p \<noteq> []"
  shows "is_dir fs (butlast p)"
proof (cases "2 \<le> length p")
  case True
  with assms(1) show ?thesis
    by (auto simp: walk_error_None_iff dest: butlast_in_ancestors)
next
  case False
  then have "length p - 1 = 0" by simp
  then show ?thesis by (simp add: butlast_conv_take is_dir_def)
qed

section \<open>Path.mkdir keeps the invariant and creates the directory\<close>

lemma grows_refl [simp]: "grows fs fs"
  by (simp add: grows_def)

lemma grows_trans: "grows a b \<Longrightarrow> grows b c \<Longrightarrow> grows a c"
  by (simp add: grows_def)

lemma grows_cons_new:
  "map_of fs p = None \<Longrightarrow> p \<noteq> [] \<Longrightarrow> grows fs ((p, k) # fs)"
  by (auto simp: grows_def lookup_def)

lemma grows_is_dir: "grows fs fs' \<Longrightarrow> is_dir fs p \<Longrightarrow> is_dir fs' p"
  by (simp add: grows_def is_dir_def)

lemma put_node_grows: "p \<noteq> [] \<Longrightarrow> grows fs (put_node p k fs)"
  by (simp add: put_node_def grows_cons_new)

lemma py_run_Inr:
  "run e cwd cmd (files w) = Inr (proc, fs') \<Longrightarrow>
   py_run e cwd cmd w = (Inr proc, w\<lparr>files := fs', trace := trace w @ [Exec cwd cmd]\<rparr>)"
  by (simp add: py_run_def)

lemma py_run_Inl:
  "run e cwd cmd (files w) = Inl x \<Longrightarrow> py_run e cwd cmd w = (Inl x, w)"
  by (simp add: py_run_def)

lemma os_mkdir_Inr:
  assumes "wf_fs fs" and "os_mkdir p fs = Inr fs'"
  shows "wf_fs fs' \<and> is_dir fs' p \<and> grows fs fs'"
proof -
  from assms(2) have walk: "walk_error fs p (ancestors p) = None" and new: "\<not> exists fs p"
    and fs': "fs' = (p, Dir) # fs"
    by (auto simp: os_mkdir_def split: option.splits if_splits)
  from new have "p \<noteq> []" by (auto simp: exists_def)
  from new \<open>p \<noteq> []\<close> have "p \<notin> fst ` set fs"
    by (auto simp: exists_def lookup_def map_of_eq_None_iff)
  have par: "is_dir fs (butlast p)" using walk \<open>p \<noteq> []\<close> by (rule walk_ok_parent_dir)
  have gr: "grows fs fs'"
    using new \<open>p \<noteq> []\<close> by (auto simp: grows_def fs' lookup_cons_Dir exists_def)
  then have "is_dir fs' q" if "is_dir fs q" for q
    using that by (simp add: grows_def is_dir_def)
  with par assms(1) \<open>p \<notin> fst ` set fs\<close> \<open>p \<noteq> []\<close> have "wf_fs fs'"
    by (auto simp: wf_fs_def fs')
  moreover have "is_dir fs' p" using \<open>p \<noteq> []\<close> by (simp add: fs' is_dir_def lookup_cons_Dir)
  ultimately show ?thesis using gr by blast
qed

lemma os_mkdir_existing:
  "wf_fs fs \<Longrightarrow> exists fs p \<Longrightarrow> os_mkdir p fs = Inl (FileExistsError p)"
  by (simp add: os_mkdir_def ancestors_dirs_of_wf exists_def)

lemma mkdir_flat_Inr:
  assumes "wf_fs fs" and "mkdir_flat ok p fs = Inr fs'"
  shows "wf_fs fs' \<and> is_dir fs' p \<and> grows fs fs'"
  using assms os_mkdir_Inr [OF assms(1)]
  by (auto simp: mkdir_flat_def split: sum.splits exc.splits if_splits)

lemma mkdir_parents_Inr:
  "wf_fs fs \<Longrightarrow> mkdir_parents ok p fs = Inr fs' \<Longrightarrow> wf_fs fs' \<and> is_dir fs' p \<and> grows fs fs'"
proof (induction ok p fs arbitrary: fs' rule: mkdir_parents.induct)
  case (1 ok p fs)
  show ?case
  proof (cases "os_mkdir p fs")
    case (Inr fs1)
    with "1.prems" show ?thesis
      by (auto simp: mkdir_parents.simps [of ok p fs] dest: os_mkdir_Inr)
  next
    case (Inl e)
    show ?thesis
    proof (cases "\<exists>q. e = FileNotFoundError q")
      case True
      then obtain q where e: "e = FileNotFoundError q" by blast
      with Inl "1.prems"(2) have "p \<noteq> []"
        by (auto simp: mkdir_parents.simps [of ok p fs])
      with Inl e "1.prems"(2) obtain fs1 where
        par: "mkdir_parents True (butlast p) fs = Inr fs1" and
        fl: "mkdir_flat ok p fs1 = Inr fs'"
        by (auto simp: mkdir_parents.simps [of ok p fs] split: sum.splits)
      from "1.IH" [OF Inl e \<open>p \<noteq> []\<close> "1.prems"(1) par]
      have "wf_fs fs1" and "grows fs fs1" by auto
      with mkdir_flat_Inr [OF \<open>wf_fs fs1\<close> fl] show ?thesis
        by (blast intro: grows_trans)
    next
      case False
      with Inl "1.prems" show ?thesis
        by (auto simp: mkdir_parents.simps [of ok p fs] split: exc.splits if_splits)
    qed
  qed
qed

lemma mkdir_parents_existing_dir:
  "wf_fs fs \<Longrightarrow> is_dir fs p \<Longrightarrow> mkdir_parents True p fs = Inr fs"
  by (simp add: mkdir_parents.simps [of True p fs] os_mkdir_existing exists_def is_dir_def)

lemma mkdir_parents_file:
  "wf_fs fs \<Longrightarrow> lookup fs p = Some (File b) \<Longrightarrow> mkdir_parents ok p fs = Inl (FileExistsError p)"
  by (simp add: mkdir_parents.simps [of ok p fs] os_mkdir_existing exists_def is_dir_def)

lemma exists_grows: "grows fs fs' \<Longrightarrow> exists fs p \<Longrightarrow> exists fs' p"
  by (auto simp: grows_def exists_def)

lemma which_grows: "grows fs fs' \<Longrightarrow> which ds n fs \<noteq> None \<Longrightarrow> which ds n fs' \<noteq> None"
  by (auto simp: which_def grows_def find_None_iff)

lemma mkdir_flat_existing_dir:
  "wf_fs fs \<Longrightarrow> is_dir fs p \<Longrightarrow> mkdir_flat True p fs = Inr fs"
  by (simp add: mkdir_flat_def os_mkdir_existing exists_def is_dir_def)

lemma mkdir_flat_entries:
  "mkdir_flat ok p fs = Inr fs' \<Longrightarrow> set fs' \<subseteq> insert (p, Dir) (set fs)"
  by (auto simp: mkdir_flat_def os_mkdir_def split: sum.splits exc.splits if_splits option.splits)

text \<open>\<open>Path.mkdir\<close> adds nothing but directories on the path it creates.\<close>

lemma mkdir_parents_entries:
  "mkdir_parents ok p fs = Inr fs' \<Longrightarrow> set fs' \<subseteq> set fs \<union> {(take i p, Dir) | i. True}"
proof (induction ok p fs arbitrary: fs' rule: mkdir_parents.induct)
  case (1 ok p fs)
  have pin: "(p, Dir) \<in> {(take i p, Dir) | i. True}"
    by (intro CollectI exI [of _ "length p"]) simp
  show ?case
  proof (cases "os_mkdir p fs")
    case (Inr fs1)
    with "1.prems" have "fs' = (p, Dir) # fs"
      by (auto simp: mkdir_parents.simps [of ok p fs] os_mkdir_def split: option.splits if_splits)
    with pin show ?thesis by auto
  next
    case (Inl e)
    show ?thesis
    proof (cases "\<exists>q. e = FileNotFoundError q \<and> p \<noteq> []")
      case True
      then obtain q where e: "e = FileNotFoundError q" and "p \<noteq> []" by blast
      with Inl "1.prems" obtain fs1 where
        par: "mkdir_parents True (butlast p) fs = Inr fs1" and
        fl: "mkdir_flat ok p fs1 = Inr fs'"
        by (auto simp: mkdir_parents.simps [of ok p fs] split: sum.splits)
      have "set fs1 \<subseteq> set fs \<union> {(take i (butlast p), Dir) | i. True}"
        using "1.IH" [OF Inl e \<open>p \<noteq> []\<close> par] .
      moreover have "take i (butlast p) = take (min i (length p - 1)) p" for i
        by (simp add: butlast_conv_take)
      ultimately have "set fs1 \<subseteq> set fs \<union> {(take i p, Dir) | i. True}" by blast
      with mkdir_flat_entries [OF fl] pin show ?thesis by blast
    next
      case False
      with Inl "1.prems" have "fs' = fs"
        by (auto simp: mkdir_parents.simps [of ok p fs] split: exc.splits if_splits)
      then show ?thesis by simp
    qed
  qed
qed

lemma exists_put_node [simp]: "exists (put_node p k fs) p"
  by (simp add: put_node_def exists_def lookup_def)

lemma put_node_wf:
  assumes "wf_fs fs" and "p \<noteq> []" and "is_dir fs (butlast p)"
  shows "wf_fs (put_node p k fs)"
proof (cases "map_of fs p = None")
  case True
  have g: "grows fs ((p, k) # fs)" by (rule grows_cons_new [OF True assms(2)])
  from True have "p \<notin> fst ` set fs" by (simp add: map_of_eq_None_iff)
  with assms show ?thesis
    by (auto simp: wf_fs_def put_node_def True intro: grows_is_dir [OF g])
next
  case False
  then show ?thesis using assms(1) by (simp only: put_node_def if_False)
qed

end
