(* ===== verification/Glob.thy ===== *)
theory Glob
  imports Filesystem
begin

text \<open>
  \<open>Path.glob(pattern)\<close> for a one-component pattern: the entries directly below a
  directory whose name matches the pattern in the sense of \<open>fnmatch\<close>, where
  \<open>*\<close> matches any string and \<open>?\<close> any one character.  Bracket classes are
  not modelled: the scripts' only pattern, \<open>frame_*.png\<close>, has none.
\<close>

fun glob_match :: "string \<Rightarrow> string \<Rightarrow> bool" where
  "glob_match [] s \<longleftrightarrow> s = []"
| "glob_match (p # ps) [] \<longleftrightarrow> p = CHR ''*'' \<and> glob_match ps []"
| "glob_match (p # ps) (c # cs) \<longleftrightarrow>
     (if p = CHR ''*'' then glob_match ps (c # cs) \<or> glob_match (p # ps) cs
      else (p = CHR ''?'' \<or> p = c) \<and> glob_match ps cs)"

definition children :: "fs \<Rightarrow> path \<Rightarrow> string list" where
  "children fs d = map (\<lambda>e. last (fst e)) (filter (\<lambda>e. fst e \<noteq> [] \<and> butlast (fst e) = d) fs)"

definition glob :: "fs \<Rightarrow> path \<Rightarrow> string \<Rightarrow> path list" where
  "glob fs d pat = map (\<lambda>n. d @ [n]) (filter (glob_match pat) (children fs d))"

definition wildcard_free :: "string \<Rightarrow> bool" where
  "wildcard_free s \<longleftrightarrow> (\<forall>c \<in> set s. c \<noteq> CHR ''*'' \<and> c \<noteq> CHR ''?'')"

section \<open>The matcher on literal and star patterns\<close>

lemma glob_match_literal:
  "wildcard_free l \<Longrightarrow> glob_match l s \<longleftrightarrow> s = l"
proof (induction l arbitrary: s)
  case Nil
  then show ?case by simp
next
  case (Cons a l)
  then show ?case by (cases s) (auto simp: wildcard_free_def)
qed

lemma glob_match_literal_prefix:
  "wildcard_free l \<Longrightarrow> glob_match (l @ ps) s \<longleftrightarrow> (\<exists>s'. s = l @ s' \<and> glob_match ps s')"
proof (induction l arbitrary: s)
  case Nil
  then show ?case by simp
next
  case (Cons a l)
  then show ?case by (cases s) (auto simp: wildcard_free_def)
qed

lemma glob_match_star_suffix:
  "wildcard_free l \<Longrightarrow> glob_match (CHR ''*'' # l) s \<longleftrightarrow> (\<exists>m. s = m @ l)"
proof (induction s)
  case Nil
  then show ?case by (auto simp add: glob_match_literal)
next
  case (Cons c cs)
  have "glob_match (CHR ''*'' # l) (c # cs) \<longleftrightarrow> c # cs = l \<or> (\<exists>m. cs = m @ l)"
    using Cons by (simp add: glob_match_literal)
  also have "\<dots> \<longleftrightarrow> (\<exists>m. c # cs = m @ l)"
  proof
    assume "c # cs = l \<or> (\<exists>m. cs = m @ l)"
    then show "\<exists>m. c # cs = m @ l"
    proof
      assume "c # cs = l"
      then show ?thesis by (intro exI [of _ "[]"]) simp
    next
      assume "\<exists>m. cs = m @ l"
      then obtain m where "cs = m @ l" by blast
      then show ?thesis by (intro exI [of _ "c # m"]) simp
    qed
  next
    assume "\<exists>m. c # cs = m @ l"
    then obtain m where m: "c # cs = m @ l" by blast
    then show "c # cs = l \<or> (\<exists>m. cs = m @ l)"
      by (cases m) auto
  qed
  finally show ?case .
qed

lemma glob_match_prefix_star_suffix:
  assumes "wildcard_free a" and "wildcard_free b"
  shows "glob_match (a @ CHR ''*'' # b) s \<longleftrightarrow> (\<exists>m. s = a @ m @ b)"
  using assms by (auto simp: glob_match_literal_prefix glob_match_star_suffix)

section \<open>Directory listing\<close>

lemma set_glob:
  "set (glob fs d pat) =
     {d @ [n] | n. glob_match pat n \<and> (\<exists>k. (d @ [n], k) \<in> set fs)}"
proof -
  have "\<And>n. n \<in> set (children fs d) \<longleftrightarrow> (\<exists>k. (d @ [n], k) \<in> set fs)"
  proof
    fix n assume "n \<in> set (children fs d)"
    then obtain p k where "(p, k) \<in> set fs" "p \<noteq> []" "butlast p = d" "n = last p"
      by (auto simp: children_def)
    then show "\<exists>k. (d @ [n], k) \<in> set fs"
      by (metis append_butlast_last_id)
  next
    fix n assume "\<exists>k. (d @ [n], k) \<in> set fs"
    then show "n \<in> set (children fs d)"
      by (force simp: children_def image_iff)
  qed
  then show ?thesis by (auto simp: glob_def)
qed

lemma glob_grows:
  "grows fs fs' \<Longrightarrow> wf_fs fs \<Longrightarrow> set (glob fs d pat) \<subseteq> set (glob fs' d pat)"
proof
  fix x assume g: "grows fs fs'" and wf: "wf_fs fs" and x: "x \<in> set (glob fs d pat)"
  from x obtain n k where xn: "x = d @ [n]" and m: "glob_match pat n"
    and e: "(d @ [n], k) \<in> set fs"
    by (auto simp: set_glob)
  from wf e have "lookup fs (d @ [n]) = Some k"
    by (simp add: wf_fs_def lookup_def)
  with g have "lookup fs' (d @ [n]) = Some k"
    unfolding grows_def by blast
  then have "map_of fs' (d @ [n]) = Some k"
    by (simp add: lookup_def)
  then have "(d @ [n], k) \<in> set fs'" by (rule map_of_SomeD)
  with xn m show "x \<in> set (glob fs' d pat)"
    by (auto simp: set_glob)
qed

lemma glob_nonempty_dir:
  "wf_fs fs \<Longrightarrow> glob fs d pat \<noteq> [] \<Longrightarrow> is_dir fs d"
proof -
  assume wf: "wf_fs fs" and ne: "glob fs d pat \<noteq> []"
  then obtain x where "x \<in> set (glob fs d pat)" by (cases "glob fs d pat") auto
  then obtain n k where e: "(d @ [n], k) \<in> set fs" by (auto simp: set_glob)
  with wf show "is_dir fs d" by (force simp: wf_fs_def)
qed

lemma distinct_children:
  assumes "wf_fs fs"
  shows "distinct (children fs d)"
proof -
  let ?xs = "map fst (filter (\<lambda>e. fst e \<noteq> [] \<and> butlast (fst e) = d) fs)"
  have dx: "distinct ?xs"
    using assms by (simp add: wf_fs_def distinct_map_filter)
  have il: "inj_on last (set ?xs)"
  proof (rule inj_onI)
    fix x y assume "x \<in> set ?xs" "y \<in> set ?xs" "last x = last y"
    then show "x = y" by (auto, metis append_butlast_last_id)
  qed
  have dl: "distinct (map last ?xs)"
    by (rule iffD2 [OF distinct_map conjI [OF dx il]])
  have eq: "children fs d = map last ?xs" by (simp add: children_def)
  show ?thesis unfolding eq by (rule dl)
qed

lemma distinct_glob: "wf_fs fs \<Longrightarrow> distinct (glob fs d pat)"
  by (simp add: glob_def distinct_map distinct_children inj_on_def)

lemma length_glob_mono:
  assumes "wf_fs fs" and "grows fs fs'"
  shows "length (glob fs d pat) \<le> length (glob fs' d pat)"
proof -
  have "length (glob fs d pat) = card (set (glob fs d pat))"
    using distinct_glob [OF assms(1)] by (simp add: distinct_card)
  also have "\<dots> \<le> card (set (glob fs' d pat))"
    using glob_grows [OF assms(2,1)] by (simp add: card_mono)
  also have "\<dots> \<le> length (glob fs' d pat)"
    by (rule card_length)
  finally show ?thesis .
qed

lemma glob_no_new_children:
  "set fs' \<subseteq> set fs \<union> {(take i p, Dir) | i. True} \<Longrightarrow> set (glob fs' p pat) \<subseteq> set (glob fs p pat)"
  by (fastforce simp: set_glob dest: arg_cong [where f = length])

lemma set_glob_put_node:
  assumes "glob_match pat n"
  shows "set (glob (put_node (d @ [n]) k fs) d pat) = insert (d @ [n]) (set (glob fs d pat))"
proof (cases "map_of fs (d @ [n])")
  case None
  with assms show ?thesis by (auto simp: put_node_def set_glob)
next
  case (Some k')
  then have "(d @ [n], k') \<in> set fs" by (rule map_of_SomeD)
  with Some assms show ?thesis by (auto simp: put_node_def set_glob)
qed

end
