(* ===== verification/Decimal.thy ===== *)
theory Decimal
  imports Prelude
begin

text \<open>
  Decimal rendering of integers as Python's \<open>str(n)\<close> and f-strings print them,
  C's \<open>%0Nd\<close> zero padding for non-negative numbers, and the reading back of a
  non-negative rendering (\<open>parse_nat\<close>), and Python's \<open>int(s)\<close> (\<open>py_int\<close>),
  which reads every \<open>str\<close> rendering back to its number.
\<close>

fun digits10 :: "nat \<Rightarrow> nat list" where
  "digits10 n = (if n < 10 then [n] else digits10 (n div 10) @ [n mod 10])"

declare digits10.simps [simp del]

definition digit_char :: "nat \<Rightarrow> char" where
  "digit_char d = ''0123456789'' ! d"

definition nat_str :: "nat \<Rightarrow> string" where
  "nat_str n = map digit_char (digits10 n)"

definition int_str :: "int \<Rightarrow> string" where
  "int_str i = (if i < 0 then CHR ''-'' # nat_str (nat (- i)) else nat_str (nat i))"

definition zero_pad :: "nat \<Rightarrow> string \<Rightarrow> string" where
  "zero_pad w s = replicate (w - length s) CHR ''0'' @ s"

definition is_digit :: "char \<Rightarrow> bool" where
  "is_digit c \<longleftrightarrow> CHR ''0'' \<le> c \<and> c \<le> CHR ''9''"

definition digit_val :: "char \<Rightarrow> nat" where
  "digit_val c = of_char c - 48"

definition digits_value :: "string \<Rightarrow> nat" where
  "digits_value s = foldl (\<lambda>a c. 10 * a + digit_val c) 0 s"

definition parse_nat :: "string \<Rightarrow> nat option" where
  "parse_nat s = (if s \<noteq> [] \<and> (\<forall>c \<in> set s. is_digit c) then Some (digits_value s) else None)"

text \<open>
  Python's \<open>int(s)\<close> on a string: surrounding whitespace is stripped, then an
  optional sign and decimal digits, where single underscores may separate digits.
  The ASCII whitespace of \<open>str.isspace\<close> is modelled; non-ASCII digits and
  spaces are not.
\<close>

definition py_space :: "char \<Rightarrow> bool" where
  "py_space c \<longleftrightarrow> (let n = (of_char c :: nat) in (9 \<le> n \<and> n \<le> 13) \<or> (28 \<le> n \<and> n \<le> 32))"

definition py_strip :: "string \<Rightarrow> string" where
  "py_strip s = rev (dropWhile py_space (rev (dropWhile py_space s)))"

fun no_double_underscore :: "string \<Rightarrow> bool" where
  "no_double_underscore (a # b # r) \<longleftrightarrow>
     \<not> (a = CHR ''_'' \<and> b = CHR ''_'') \<and> no_double_underscore (b # r)"
| "no_double_underscore _ \<longleftrightarrow> True"

definition py_digits :: "string \<Rightarrow> nat option" where
  "py_digits s =
     (if s \<noteq> [] \<and> is_digit (hd s) \<and> is_digit (last s) \<and> no_double_underscore s
         \<and> (\<forall>c \<in> set s. is_digit c \<or> c = CHR ''_'')
      then Some (digits_value (filter (\<lambda>c. c \<noteq> CHR ''_'') s)) else None)"

definition py_int :: "string \<Rightarrow> int option" where
  "py_int s =
     (case py_strip s of
        c # r \<Rightarrow> if c = CHR ''-'' then map_option (\<lambda>n. - int n) (py_digits r)
                else if c = CHR ''+'' then map_option int (py_digits r)
                else map_option int (py_digits (c # r))
      | [] \<Rightarrow> None)"

section \<open>Digits\<close>

lemma digits10_less: "d \<in> set (digits10 n) \<Longrightarrow> d < 10"
proof (induction n rule: digits10.induct)
  case (1 n)
  then show ?case
    by (cases "n < 10") (auto simp: digits10.simps [of n])
qed

lemma digits10_nonempty [simp]: "digits10 n \<noteq> []"
  by (simp add: digits10.simps [of n])

lemma less_10_cases: "d < (10::nat) \<Longrightarrow> d \<in> {0, 1, 2, 3, 4, 5, 6, 7, 8, 9}"
  by auto

lemma digit_val_char [simp]: "d < 10 \<Longrightarrow> digit_val (digit_char d) = d"
  by (drule less_10_cases) (auto simp: digit_val_def digit_char_def)

lemma is_digit_char [simp]: "d < 10 \<Longrightarrow> is_digit (digit_char d)"
  by (drule less_10_cases) (auto simp: is_digit_def digit_char_def)

lemma foldl_digits10: "foldl (\<lambda>a d. 10 * a + d) 0 (digits10 n) = n"
proof (induction n rule: digits10.induct)
  case (1 n)
  then show ?case
    by (cases "n < 10") (simp_all add: digits10.simps [of n])
qed

lemma foldl_digit_chars:
  "\<forall>d \<in> set ds. d < 10 \<Longrightarrow>
   foldl (\<lambda>a c. 10 * a + digit_val c) a (map digit_char ds) = foldl (\<lambda>a d. 10 * a + d) a ds"
  by (induction ds arbitrary: a) simp_all

lemma digits_value_nat_str [simp]: "digits_value (nat_str n) = n"
  using foldl_digit_chars [of "digits10 n" 0] digits10_less [of _ n]
  by (simp add: digits_value_def nat_str_def foldl_digits10)

lemma nat_str_digits: "c \<in> set (nat_str n) \<Longrightarrow> is_digit c"
  by (auto simp: nat_str_def dest: digits10_less)

lemma nat_str_nonempty [simp]: "nat_str n \<noteq> []"
  by (simp add: nat_str_def)

lemma parse_nat_nat_str [simp]: "parse_nat (nat_str n) = Some n"
  by (simp add: parse_nat_def nat_str_digits)

lemma minus_not_digit [simp]: "\<not> is_digit CHR ''-''"
  by (simp add: is_digit_def)

lemma digits_value_zeros [simp]: "digits_value (replicate k CHR ''0'' @ s) = digits_value s"
proof -
  have "foldl (\<lambda>a c. 10 * a + digit_val c) 0 (replicate k CHR ''0'') = 0"
    by (induction k) (simp_all add: digit_val_def)
  then show ?thesis by (simp add: digits_value_def)
qed

lemma parse_nat_zero_pad: "parse_nat s = Some n \<Longrightarrow> parse_nat (zero_pad w s) = Some n"
  by (auto simp: parse_nat_def zero_pad_def is_digit_def split: if_splits)

lemma length_digits10: "n < 10 ^ k \<Longrightarrow> 0 < k \<Longrightarrow> length (digits10 n) \<le> k"
proof (induction n arbitrary: k rule: digits10.induct)
  case (1 n)
  show ?case
  proof (cases "n < 10")
    case True
    with "1.prems" show ?thesis by (simp add: digits10.simps [of n])
  next
    case False
    obtain j where k: "k = Suc j"
      using "1.prems"(2) by (cases k) auto
    have "0 < j"
    proof (rule ccontr)
      assume "\<not> 0 < j"
      with k "1.prems"(1) False show False by simp
    qed
    moreover have "n div 10 < 10 ^ j"
      using "1.prems"(1) k by (simp add: less_mult_imp_div_less mult.commute)
    ultimately have "length (digits10 (n div 10)) \<le> j"
      using "1.IH" False by blast
    with False k show ?thesis by (simp add: digits10.simps [of n])
  qed
qed

lemma length_zero_pad: "length s \<le> w \<Longrightarrow> length (zero_pad w s) = w"
  by (simp add: zero_pad_def)

lemma length_nat_str_le: "n < 10 ^ k \<Longrightarrow> 0 < k \<Longrightarrow> length (nat_str n) \<le> k"
  by (simp add: nat_str_def length_digits10)

lemma py_space_digit: "is_digit c \<Longrightarrow> \<not> py_space c"
  by (auto simp: is_digit_def py_space_def less_eq_char_def)

lemma py_space_minus [simp]: "\<not> py_space CHR ''-''"
  by (simp add: py_space_def)

lemma py_strip_nat_str [simp]: "py_strip (nat_str n) = nat_str n"
proof -
  have nd: "\<not> py_space c" if "c \<in> set (nat_str n)" for c
    using that nat_str_digits py_space_digit by blast
  then have "dropWhile py_space (nat_str n) = nat_str n"
    by (cases "nat_str n") auto
  moreover have "dropWhile py_space (rev (nat_str n)) = rev (nat_str n)"
    using nd by (cases "rev (nat_str n)") (auto dest: arg_cong [where f = set])
  ultimately show ?thesis by (simp add: py_strip_def)
qed

lemma no_double_underscore_digits: "list_all is_digit s \<Longrightarrow> no_double_underscore s"
  by (induction s rule: no_double_underscore.induct) (auto simp: is_digit_def)

lemma py_digits_nat_str [simp]: "py_digits (nat_str n) = Some n"
proof -
  have d: "list_all is_digit (nat_str n)" using nat_str_digits by (simp add: list_all_iff)
  have "filter (\<lambda>c. c \<noteq> CHR ''_'') (nat_str n) = nat_str n"
    using d by (intro filter_True) (auto simp: list_all_iff is_digit_def less_eq_char_def)
  with d show ?thesis
    by (auto simp: py_digits_def list_all_iff no_double_underscore_digits [OF d])
qed

lemma py_int_int_str: "py_int (int_str i) = Some i"
proof (cases "i < 0")
  case True
  have "py_strip (CHR ''-'' # nat_str (nat (- i))) = CHR ''-'' # nat_str (nat (- i))"
  proof -
    have "rev (CHR ''-'' # nat_str (nat (- i))) = rev (nat_str (nat (- i))) @ [CHR ''-'']" by simp
    moreover have "\<not> py_space c" if "c \<in> set (nat_str (nat (- i)))" for c
      using that nat_str_digits py_space_digit by blast
    ultimately show ?thesis
      by (cases "rev (nat_str (nat (- i)))") (auto simp: py_strip_def dest: arg_cong [where f = set])
  qed
  with True show ?thesis by (simp add: py_int_def int_str_def)
next
  case False
  obtain c r where cr: "nat_str (nat i) = c # r" by (cases "nat_str (nat i)") auto
  then have "is_digit c" using nat_str_digits [of c "nat i"] by simp
  then have "c \<noteq> CHR ''-''" "c \<noteq> CHR ''+''" by (auto simp: is_digit_def)
  with False cr py_digits_nat_str [of "nat i"] py_strip_nat_str [of "nat i"] show ?thesis
    by (simp add: py_int_def int_str_def)
qed

end
