(* ===== verification/Frame_Names.thy ===== *)
theory Frame_Names
  imports Glob Decimal
begin

text \<open>
  The frame files of \<open>prepare_video.py\<close>: the output pattern handed to ffmpeg
  (\<open>frame_%05d.png\<close>, line 59) and the glob that finds frames afterwards
  (\<open>frame_*.png\<close>, lines 54 and 85).  \<open>frame_filename\<close> is ffmpeg's expansion of
  an image-sequence pattern for frame number \<open>n\<close> (\<open>av_get_frame_filename2\<close>:
  \<open>%%\<close> is a percent sign, \<open>%Nd\<close> / \<open>%0Nd\<close> the zero-padded number, exactly one
  number directive allowed).  The lemmas show the two literals agree (every name the
  pattern produces is found by the glob, and names of distinct frames differ) and
  count what an extraction of \<open>k\<close> frames leaves for the glob to find.
\<close>

definition frame_glob :: string where
  "frame_glob = ''frame_*.png''"

definition frame_pattern :: string where
  "frame_pattern = ''frame_%05d.png''"

function frame_filename :: "bool \<Rightarrow> string \<Rightarrow> nat \<Rightarrow> string option" where
  "frame_filename found [] n = (if found then Some [] else None)"
| "frame_filename found (c # r) n =
     (if c \<noteq> CHR ''%'' then map_option (Cons c) (frame_filename found r n)
      else (case dropWhile is_digit r of
              [] \<Rightarrow> None
            | d # r' \<Rightarrow>
                if d = CHR ''%'' then map_option (Cons CHR ''%'') (frame_filename found r' n)
                else if d = CHR ''d'' \<and> \<not> found then
                  map_option (\<lambda>s. zero_pad (digits_value (takeWhile is_digit r)) (nat_str n) @ s)
                    (frame_filename True r' n)
                else None))"
  by pat_completeness auto
termination
proof (relation "measure (\<lambda>(f, s, n). length s)")
  fix found c r n d r'
  assume "dropWhile is_digit r = d # r'"
  then have "length (d # r') \<le> length r" by (metis length_dropWhile_le)
  then show "((found, r', n), found, c # r, n) \<in> measure (\<lambda>(f, s, n). length s)"
    and "((True, r', n), found, c # r, n) \<in> measure (\<lambda>(f, s, n). length s)"
    by simp_all
qed auto

definition frame_name :: "nat \<Rightarrow> string" where
  "frame_name n = ''frame_'' @ zero_pad 5 (nat_str n) @ ''.png''"

text \<open>
  What ffmpeg leaves in \<open>d\<close> after extracting \<open>k\<close> frames: the files named by the
  pattern for frames \<open>1..k\<close>, created where absent (an existing file of that
  name is overwritten in place, so its entry stays).
\<close>

definition frames_written :: "path \<Rightarrow> nat \<Rightarrow> fs \<Rightarrow> fs" where
  "frames_written d k fs = foldl (\<lambda>fs i. put_node (d @ [frame_name i]) (File False) fs) fs [1..<Suc k]"

section \<open>The pattern and the glob agree\<close>

lemma frame_filename_frame_pattern:
  "frame_filename False frame_pattern n = Some (frame_name n)"
  by (simp add: frame_pattern_def frame_name_def is_digit_def digits_value_def digit_val_def)

lemma wildcard_free_frame_affixes:
  "wildcard_free ''frame_''" "wildcard_free ''.png''"
  by (simp_all add: wildcard_free_def)

lemma frame_glob_split: "frame_glob = ''frame_'' @ CHR ''*'' # ''.png''"
  by (simp add: frame_glob_def)

lemma frame_name_matches: "glob_match frame_glob (frame_name n)"
  unfolding frame_glob_split frame_name_def
  by (subst glob_match_prefix_star_suffix [OF wildcard_free_frame_affixes]) blast

lemma zero_pad_nat_str_inj:
  assumes "zero_pad w (nat_str m) = zero_pad w (nat_str n)"
  shows "m = n"
proof -
  have "parse_nat (zero_pad w (nat_str m)) = Some m"
    by (rule parse_nat_zero_pad) simp
  moreover have "parse_nat (zero_pad w (nat_str n)) = Some n"
    by (rule parse_nat_zero_pad) simp
  ultimately show ?thesis using assms by (metis option.inject)
qed

lemma frame_name_inj:
  assumes "frame_name m = frame_name n"
  shows "m = n"
proof -
  from assms have "zero_pad 5 (nat_str m) = zero_pad 5 (nat_str n)"
    by (simp add: frame_name_def)
  then show ?thesis by (rule zero_pad_nat_str_inj)
qed

section \<open>The frames an extraction writes\<close>

lemma frames_written_0 [simp]: "frames_written d 0 fs = fs"
  by (simp add: frames_written_def)

lemma frames_written_Suc:
  "frames_written d (Suc k) fs = put_node (d @ [frame_name (Suc k)]) (File False) (frames_written d k fs)"
  by (simp add: frames_written_def)

lemma frames_written_grows: "grows fs (frames_written d k fs)"
  by (induction k) (auto simp: frames_written_Suc intro: grows_trans put_node_grows)

lemma frames_written_wf:
  "wf_fs fs \<Longrightarrow> is_dir fs d \<Longrightarrow> wf_fs (frames_written d k fs)"
proof (induction k)
  case 0
  then show ?case by simp
next
  case (Suc k)
  have "is_dir (frames_written d k fs) d"
    using grows_is_dir [OF frames_written_grows Suc.prems(2)] .
  with Suc show ?case by (simp add: frames_written_Suc put_node_wf)
qed

lemma set_glob_frames_written:
  "set (glob (frames_written d k fs) d frame_glob) =
     set (glob fs d frame_glob) \<union> {d @ [frame_name i] | i. 1 \<le> i \<and> i \<le> k}"
proof (induction k)
  case 0
  then show ?case by simp
next
  case (Suc k)
  then show ?case
    by (auto simp: frames_written_Suc set_glob_put_node frame_name_matches le_Suc_eq)
qed

lemma length_glob_frames_written:
  assumes "wf_fs fs" and "is_dir fs d" and "glob fs d frame_glob = []"
  shows "length (glob (frames_written d k fs) d frame_glob) = k"
proof -
  have "length (glob (frames_written d k fs) d frame_glob) = card (set (glob (frames_written d k fs) d frame_glob))"
    using distinct_glob [OF frames_written_wf [OF assms(1,2)]] by (simp add: distinct_card)
  also have "set (glob (frames_written d k fs) d frame_glob) = (\<lambda>i. d @ [frame_name i]) ` {1..k}"
    using assms(3) by (auto simp: set_glob_frames_written)
  also have "card \<dots> = k"
    by (subst card_image) (auto simp: inj_on_def dest: frame_name_inj)
  finally show ?thesis .
qed

section \<open>Properties of the two literals\<close>

text \<open>
  C7. Every file name ffmpeg produces from the output pattern of line 59 is matched
  by the glob of lines 54 and 85, so the overwrite guard and the final count see
  every frame the extraction writes.
\<close>

theorem frame_pattern_names_found_by_glob:
  "\<exists>s. frame_filename False frame_pattern n = Some s \<and> glob_match frame_glob s"
  using frame_filename_frame_pattern frame_name_matches by blast

end
