(* ===== verification/Prepare_Video.thy ===== *)
theory Prepare_Video
  imports Frame_Names Decimal
begin

text \<open>
  The frame extractor, \<open>src/scripts/prepare_video.py\<close>.  Its arguments are the
  record \<open>pv_args\<close> (\<open>--video\<close>, \<open>--out\<close>, \<open>--fps\<close>, \<open>--overwrite\<close>);
  \<open>main\<close> is split at its natural seams: finding ffmpeg (\<open>ensure_ffmpeg\<close>), the
  checks and the guard (\<open>pv_main\<close>), building and running the command
  (\<open>pv_extract\<close>) and counting the frames (\<open>pv_verify\<close>); \<open>pv_entry\<close> is
  \<open>sys.exit(main())\<close> once the arguments are parsed (the command line is in
  \<open>Prepare_Video_CLI\<close>).  The lemmas give the result of \<open>main\<close> on every branch
  and what it leaves on disk and in the trace.
\<close>

record pv_args =
  pv_video :: string
  pv_out :: string
  pv_fps :: int
  pv_overwrite :: bool

definition ensure_ffmpeg :: "env \<Rightarrow> string py" where
  "ensure_ffmpeg e w =
     (case which (exec_path e) ''ffmpeg'' (files w) of
        None \<Rightarrow> (Inl (ToolNotFound ''ffmpeg''), w)
      | Some p \<Rightarrow> (Inr p, w))"

definition extract_cmd :: "string \<Rightarrow> path \<Rightarrow> int \<Rightarrow> bool \<Rightarrow> path \<Rightarrow> string list" where
  "extract_cmd ffmpeg video_path fps overwrite images_dir =
     [ffmpeg,
      if overwrite then ''-y'' else ''-n'',
      ''-i'',
      path_str video_path,
      ''-vf'',
      ''fps='' @ int_str fps,
      ''-pix_fmt'',
      ''rgb24'',
      path_str (images_dir @ [frame_pattern]),
      ''-hide_banner'',
      ''-loglevel'',
      ''error'']"

definition report_ffmpeg_failure :: "completed \<Rightarrow> world \<Rightarrow> world" where
  "report_ffmpeg_failure proc w =
     emit_nonempty Stderr (err_text proc)
       (emit_nonempty Stderr (out_text proc) (emit Stderr Extract_failed w))"

definition pv_verify :: "path \<Rightarrow> int py" where
  "pv_verify images_dir w =
     (let frames = sort (glob (files w) images_dir frame_glob) in
      if frames = [] then (Inr 1, emit Stderr No_frames w)
      else (Inr 0, emit Stdout (Frames_done (length frames) images_dir) w))"

definition pv_extract :: "env \<Rightarrow> pv_args \<Rightarrow> string \<Rightarrow> path \<Rightarrow> path \<Rightarrow> int py" where
  "pv_extract e args ffmpeg video_path images_dir w =
     (let cmd = extract_cmd ffmpeg video_path (pv_fps args) (pv_overwrite args) images_dir in
      case py_run e None cmd (emit Stdout (Extract_cmd cmd) w) of
        (Inl x, w') \<Rightarrow> (Inl x, w')
      | (Inr proc, w') \<Rightarrow>
          if returncode proc \<noteq> 0 then (Inr (returncode proc), report_ffmpeg_failure proc w')
          else pv_verify images_dir w')"

definition pv_main :: "env \<Rightarrow> pv_args \<Rightarrow> int py" where
  "pv_main e args w0 =
     (case ensure_ffmpeg e w0 of
        (Inl x, w) \<Rightarrow> (Inl x, w)
      | (Inr ffmpeg, w) \<Rightarrow>
          (let video_path = resolve e (pv_video args) in
           if \<not> exists (files w) video_path then (Inr 1, emit Stderr (Video_missing video_path) w)
           else
             (let images_dir = resolve e (pv_out args) @ [''images''] in
              case py_mkdir True True images_dir (files w) of
                Inl x \<Rightarrow> (Inl x, w)
              | Inr fs1 \<Rightarrow>
                  (let w1 = w\<lparr>files := fs1\<rparr> in
                   if \<not> pv_overwrite args \<and> glob fs1 images_dir frame_glob \<noteq> []
                   then (Inr 1, emit Stderr (Frames_exist images_dir) w1)
                   else pv_extract e args ffmpeg video_path images_dir w1))))"

definition pv_entry :: "env \<Rightarrow> pv_args \<Rightarrow> world \<Rightarrow> 8 word \<times> world" where
  "pv_entry e args w = py_exit (pv_main e args w)"

abbreviation pv_images_dir :: "env \<Rightarrow> pv_args \<Rightarrow> path" where
  "pv_images_dir e args \<equiv> resolve e (pv_out args) @ [''images'']"

subsection \<open>An example configuration\<close>

text \<open>
  A small machine for the witnesses: ffmpeg in \<open>/usr/bin\<close>, a video \<open>/v.mp4\<close>,
  and a job directory \<open>/job/images\<close> that already holds three frames from an
  earlier run.  \<open>ex_writes_frames k\<close> is an ffmpeg that succeeds after writing
  frames \<open>1..k\<close> (keeping every file that was there).
\<close>

definition ex_fs :: fs where
  "ex_fs =
     [([''usr''], Dir), ([''usr'', ''bin''], Dir), ([''usr'', ''bin'', ''ffmpeg''], File True),
      ([''usr'', ''bin'', ''colmap''], File True), ([''v.mp4''], File False), ([''job''], Dir), ([''job'', ''images''], Dir),
      ([''job'', ''images'', ''frame_00001.png''], File False),
      ([''job'', ''images'', ''frame_00002.png''], File False),
      ([''job'', ''images'', ''frame_00003.png''], File False)]"

definition ex_writes_frames :: "nat \<Rightarrow> runner" where
  "ex_writes_frames k cwd cmd fs =
     Inr (\<lparr>returncode = 0, out_text = [], err_text = []\<rparr>,
          frames_written [''job'', ''images''] k fs)"

definition ex_fails :: "int \<Rightarrow> runner" where
  "ex_fails rc cwd cmd fs = Inr (\<lparr>returncode = rc, out_text = [], err_text = ''boom''\<rparr>, fs)"

definition ex_env :: "runner \<Rightarrow> env" where
  "ex_env r =
     \<lparr>resolve = (\<lambda>s. [s]), exec_path = [[''usr'', ''bin'']], run = r,
      script_file = [''opt'', ''litegs'', ''scripts'', ''run_colmap.py'']\<rparr>"

definition ex_args :: "bool \<Rightarrow> pv_args" where
  "ex_args ow = \<lparr>pv_video = ''v.mp4'', pv_out = ''job'', pv_fps = 10, pv_overwrite = ow\<rparr>"

definition ex_world :: world where
  "ex_world = \<lparr>files = ex_fs, trace = []\<rparr>"

definition ex_cmd :: "string list" where
  "ex_cmd =
     [''/usr/bin/ffmpeg'', ''-y'', ''-i'', ''/v.mp4'', ''-vf'', ''fps=10'', ''-pix_fmt'', ''rgb24'',
      ''/job/images/frame_%05d.png'', ''-hide_banner'', ''-loglevel'', ''error'']"

definition ex_unstartable :: runner where
  "ex_unstartable cwd cmd fs = Inl (SpawnError ''Permission denied'')"

section \<open>Branches of the operations\<close>

lemma pv_verify_cases:
  "pv_verify d w = (r, w') \<Longrightarrow>
     (glob (files w) d frame_glob \<noteq> [] \<and> r = Inr 0 \<and>
        w' = emit Stdout (Frames_done (length (glob (files w) d frame_glob)) d) w) \<or>
     (glob (files w) d frame_glob = [] \<and> r = Inr 1 \<and> w' = emit Stderr No_frames w)"
  by (auto simp: pv_verify_def Let_def split: if_splits)

lemma pv_extract_Inr0:
  assumes "pv_extract e args ffmpeg v d w = (Inr 0, w')"
  shows "\<exists>proc fs'. run e None (extract_cmd ffmpeg v (pv_fps args) (pv_overwrite args) d) (files w) = Inr (proc, fs')
     \<and> returncode proc = 0
     \<and> pv_verify d (w\<lparr>files := fs', trace := trace w @
           [Print Stdout (Extract_cmd (extract_cmd ffmpeg v (pv_fps args) (pv_overwrite args) d)),
            Exec None (extract_cmd ffmpeg v (pv_fps args) (pv_overwrite args) d)]\<rparr>) = (Inr 0, w')"
  using assms
  by (auto simp: pv_extract_def py_run_def emit_def Let_def split: sum.splits prod.splits if_splits)

lemma pv_extract_Inr:
  assumes "pv_extract e args ffmpeg v d w = (Inr n, w')"
  shows "n = 0 \<or> n = 1 \<or>
    (\<exists>proc fs'. run e None (extract_cmd ffmpeg v (pv_fps args) (pv_overwrite args) d) (files w) = Inr (proc, fs')
       \<and> returncode proc = n \<and> n \<noteq> 0)"
  using assms
  by (auto simp: pv_extract_def pv_verify_def py_run_def Let_def split: sum.splits prod.splits if_splits)

lemma pv_main_Inr:
  assumes "pv_main e args w = (Inr n, w')"
  shows "n = 1 \<or> (\<exists>ffmpeg fs1. which (exec_path e) ''ffmpeg'' (files w) = Some ffmpeg
     \<and> exists (files w) (resolve e (pv_video args))
     \<and> py_mkdir True True (pv_images_dir e args) (files w) = Inr fs1
     \<and> (pv_overwrite args \<or> glob fs1 (pv_images_dir e args) frame_glob = [])
     \<and> pv_extract e args ffmpeg (resolve e (pv_video args)) (pv_images_dir e args) (w\<lparr>files := fs1\<rparr>) = (Inr n, w'))"
  using assms
  by (auto simp: pv_main_def ensure_ffmpeg_def Let_def split: option.splits sum.splits if_splits)

lemma pv_main_Inr0:
  assumes "pv_main e args w = (Inr 0, w')"
  shows "\<exists>ffmpeg fs1. which (exec_path e) ''ffmpeg'' (files w) = Some ffmpeg
     \<and> exists (files w) (resolve e (pv_video args))
     \<and> py_mkdir True True (pv_images_dir e args) (files w) = Inr fs1
     \<and> (pv_overwrite args \<or> glob fs1 (pv_images_dir e args) frame_glob = [])
     \<and> pv_extract e args ffmpeg (resolve e (pv_video args)) (pv_images_dir e args) (w\<lparr>files := fs1\<rparr>) = (Inr 0, w')"
  using pv_main_Inr [OF assms] by simp

lemma ex_writes_frames_grows:
  "\<forall>cwd cmd fs proc fs'. ex_writes_frames k cwd cmd fs = Inr (proc, fs') \<longrightarrow> grows fs fs'"
  by (simp add: ex_writes_frames_def frames_written_grows)

lemma wf_ex_fs: "wf_fs ex_fs"
  by (simp add: wf_fs_def ex_fs_def is_dir_def lookup_def)

lemma ex_stale_run:
  "pv_main (ex_env (ex_writes_frames 1)) (ex_args True) ex_world =
     (Inr 0, \<lparr>files = ex_fs,
              trace = [Print Stdout (Extract_cmd ex_cmd), Exec None ex_cmd,
                       Print Stdout (Frames_done 3 [''job'', ''images''])]\<rparr>)"
  unfolding ex_world_def ex_cmd_def by code_simp

lemma pv_extract_files:
  "files (snd (pv_extract e args f v d w)) = files w
   \<or> (\<exists>proc. run e None (extract_cmd f v (pv_fps args) (pv_overwrite args) d) (files w)
              = Inr (proc, files (snd (pv_extract e args f v d w))))"
  by (auto simp: pv_extract_def pv_verify_def report_ffmpeg_failure_def py_run_def Let_def
           split: sum.splits prod.splits)

lemma pv_main_mkdir_guard:
  assumes "which (exec_path e) ''ffmpeg'' (files w) = Some ffmpeg"
    and "exists (files w) (resolve e (pv_video args))"
    and "py_mkdir True True (pv_images_dir e args) (files w) = Inr fs1"
    and "pv_overwrite args \<or> glob fs1 (pv_images_dir e args) frame_glob = []"
  shows "pv_main e args w =
           pv_extract e args ffmpeg (resolve e (pv_video args)) (pv_images_dir e args) (w\<lparr>files := fs1\<rparr>)"
  using assms by (auto simp: pv_main_def ensure_ffmpeg_def Let_def)

section \<open>Properties of the frame extractor\<close>

text \<open>
  C4. The overwrite guard (\<open>prepare_video.py\<close> lines 53-57): when frames already
  exist and \<open>--overwrite\<close> is absent, \<open>main\<close> returns 1 after one line on stderr,
  launches nothing and leaves the file system exactly as it was (the \<open>mkdir\<close> of
  an existing directory changes nothing).
\<close>

theorem pv_main_guard_blocks:
  assumes wf: "wf_fs (files w)"
    and found: "which (exec_path e) ''ffmpeg'' (files w) \<noteq> None"
    and video: "exists (files w) (resolve e (pv_video args))"
    and keep: "\<not> pv_overwrite args"
    and frames: "glob (files w) (pv_images_dir e args) frame_glob \<noteq> []"
  shows "pv_main e args w = (Inr 1, emit Stderr (Frames_exist (pv_images_dir e args)) w)"
proof -
  have "is_dir (files w) (pv_images_dir e args)"
    using glob_nonempty_dir [OF wf frames] .
  then have "py_mkdir True True (pv_images_dir e args) (files w) = Inr (files w)"
    by (simp add: py_mkdir_def mkdir_parents_existing_dir [OF wf])
  with found video keep frames show ?thesis
    by (auto simp: pv_main_def ensure_ffmpeg_def Let_def)
qed

theorem pv_main_guard_blocks_witness:
  "wf_fs (files ex_world) \<and> which (exec_path (ex_env (ex_writes_frames 1))) ''ffmpeg'' (files ex_world) \<noteq> None
   \<and> exists (files ex_world) (resolve (ex_env (ex_writes_frames 1)) (pv_video (ex_args False)))
   \<and> \<not> pv_overwrite (ex_args False)
   \<and> glob (files ex_world) (pv_images_dir (ex_env (ex_writes_frames 1)) (ex_args False)) frame_glob \<noteq> []
   \<and> pv_main (ex_env (ex_writes_frames 1)) (ex_args False) ex_world =
       (Inr 1, emit Stderr (Frames_exist [''job'', ''images'']) ex_world)"
proof -
  have h1: "wf_fs (files ex_world)" by (simp add: ex_world_def wf_ex_fs)
  have h2: "which (exec_path (ex_env (ex_writes_frames 1))) ''ffmpeg'' (files ex_world) \<noteq> None"
    by (simp add: which_def ex_env_def ex_world_def ex_fs_def lookup_def)
  have h3: "exists (files ex_world) (resolve (ex_env (ex_writes_frames 1)) (pv_video (ex_args False)))"
    by (simp add: exists_def ex_env_def ex_args_def ex_world_def ex_fs_def lookup_def)
  have h4: "\<not> pv_overwrite (ex_args False)" by (simp add: ex_args_def)
  have h5: "glob (files ex_world) (pv_images_dir (ex_env (ex_writes_frames 1)) (ex_args False)) frame_glob \<noteq> []"
    by (simp add: glob_def children_def frame_glob_def ex_env_def ex_args_def ex_world_def ex_fs_def)
  have "pv_images_dir (ex_env (ex_writes_frames 1)) (ex_args False) = [''job'', ''images'']"
    by (simp add: ex_env_def ex_args_def)
  with pv_main_guard_blocks [OF h1 h2 h3 h4 h5] h1 h2 h3 h4 h5 show ?thesis by simp
qed

text \<open>
  C5. A successful run (return value 0) found ffmpeg, launched exactly one child,
  the extraction command built from the arguments, and ended by reporting the
  number of \<open>frame_*.png\<close> files in the output directory, of which there is at
  least one.
\<close>

theorem pv_main_success:
  assumes "pv_main e args w = (Inr 0, w')"
  shows "\<exists>ffmpeg. which (exec_path e) ''ffmpeg'' (files w) = Some ffmpeg
    \<and> execs (trace w') = execs (trace w) @
        [(None, extract_cmd ffmpeg (resolve e (pv_video args)) (pv_fps args) (pv_overwrite args)
                  (pv_images_dir e args))]
    \<and> glob (files w') (pv_images_dir e args) frame_glob \<noteq> []
    \<and> last (trace w') = Print Stdout (Frames_done (length (glob (files w') (pv_images_dir e args) frame_glob))
                                                (pv_images_dir e args))"
proof -
  let ?v = "resolve e (pv_video args)" and ?d = "pv_images_dir e args"
  from pv_main_Inr0 [OF assms] obtain ffmpeg fs1 where
    found: "which (exec_path e) ''ffmpeg'' (files w) = Some ffmpeg" and
    ext: "pv_extract e args ffmpeg ?v ?d (w\<lparr>files := fs1\<rparr>) = (Inr 0, w')"
    by blast
  from pv_extract_Inr0 [OF ext] obtain proc fs' where
    ver: "pv_verify ?d (w\<lparr>files := fs', trace := trace w @
            [Print Stdout (Extract_cmd (extract_cmd ffmpeg ?v (pv_fps args) (pv_overwrite args) ?d)),
             Exec None (extract_cmd ffmpeg ?v (pv_fps args) (pv_overwrite args) ?d)]\<rparr>) = (Inr 0, w')"
    by auto
  from pv_verify_cases [OF ver] found show ?thesis by auto
qed

theorem pv_main_success_witness:
  "pv_main (ex_env (ex_writes_frames 1)) (ex_args True) ex_world =
     (Inr 0, \<lparr>files = ex_fs, trace = [Print Stdout (Extract_cmd ex_cmd), Exec None ex_cmd,
                                      Print Stdout (Frames_done 3 [''job'', ''images''])]\<rparr>)
   \<and> (\<exists>ffmpeg. which (exec_path (ex_env (ex_writes_frames 1))) ''ffmpeg'' (files ex_world) = Some ffmpeg
    \<and> execs [Print Stdout (Extract_cmd ex_cmd), Exec None ex_cmd, Print Stdout (Frames_done 3 [''job'', ''images''])]
        = execs (trace ex_world) @
          [(None, extract_cmd ffmpeg (resolve (ex_env (ex_writes_frames 1)) (pv_video (ex_args True)))
                    (pv_fps (ex_args True)) (pv_overwrite (ex_args True))
                    (pv_images_dir (ex_env (ex_writes_frames 1)) (ex_args True)))]
    \<and> glob ex_fs (pv_images_dir (ex_env (ex_writes_frames 1)) (ex_args True)) frame_glob \<noteq> []
    \<and> Print Stdout (Frames_done 3 [''job'', ''images'']) =
        Print Stdout (Frames_done (length (glob ex_fs (pv_images_dir (ex_env (ex_writes_frames 1)) (ex_args True)) frame_glob))
                                  (pv_images_dir (ex_env (ex_writes_frames 1)) (ex_args True))))"
  using ex_stale_run pv_main_success [OF ex_stale_run] by simp

text \<open>
  C6. The reported frame count includes frames left over from an earlier run.  With
  \<open>--overwrite\<close>, ffmpeg replaces the frames it writes but deletes none, and
  \<open>main\<close> counts every \<open>frame_*.png\<close> it finds afterwards: the number it reports
  is at least the number of frames present before the run, however few the new run
  wrote.  (The specification says the count reflects only the new run.)
\<close>

theorem pv_report_counts_preexisting_frames:
  assumes wf: "wf_fs (files w)"
    and keeps: "\<forall>cwd cmd fs proc fs'. run e cwd cmd fs = Inr (proc, fs') \<longrightarrow> grows fs fs'"
    and res: "pv_main e args w = (Inr 0, w')"
  shows "\<exists>k. last (trace w') = Print Stdout (Frames_done k (pv_images_dir e args))
           \<and> length (glob (files w) (pv_images_dir e args) frame_glob) \<le> k"
proof -
  let ?v = "resolve e (pv_video args)" and ?d = "pv_images_dir e args"
  from pv_main_Inr0 [OF res] obtain ffmpeg fs1 where
    mk: "py_mkdir True True ?d (files w) = Inr fs1" and
    ext: "pv_extract e args ffmpeg ?v ?d (w\<lparr>files := fs1\<rparr>) = (Inr 0, w')"
    by blast
  from mkdir_parents_Inr [OF wf] mk have wf1: "wf_fs fs1" and g1: "grows (files w) fs1"
    by (auto simp: py_mkdir_def)
  from pv_extract_Inr0 [OF ext] obtain proc fs' where
    ran: "run e None (extract_cmd ffmpeg ?v (pv_fps args) (pv_overwrite args) ?d) fs1 = Inr (proc, fs')" and
    ver: "pv_verify ?d (w\<lparr>files := fs', trace := trace w @
            [Print Stdout (Extract_cmd (extract_cmd ffmpeg ?v (pv_fps args) (pv_overwrite args) ?d)),
             Exec None (extract_cmd ffmpeg ?v (pv_fps args) (pv_overwrite args) ?d)]\<rparr>) = (Inr 0, w')"
    by auto
  from keeps ran have g2: "grows fs1 fs'" by blast
  have "length (glob (files w) ?d frame_glob) \<le> length (glob fs1 ?d frame_glob)"
    using length_glob_mono [OF wf g1] .
  also have "\<dots> \<le> length (glob fs' ?d frame_glob)"
    using length_glob_mono [OF wf1 g2] .
  finally have le: "length (glob (files w) ?d frame_glob) \<le> length (glob fs' ?d frame_glob)" .
  from pv_verify_cases [OF ver] le show ?thesis by auto
qed

text \<open>
  The witness is the divergence itself: three frames from an earlier run, an ffmpeg
  that writes one frame, and \<open>main\<close> reports three.
\<close>

theorem pv_report_counts_preexisting_frames_witness:
  "wf_fs (files ex_world)
   \<and> length (glob (files ex_world) [''job'', ''images''] frame_glob) = 3
   \<and> last (trace (snd (pv_main (ex_env (ex_writes_frames 1)) (ex_args True) ex_world)))
       = Print Stdout (Frames_done 3 [''job'', ''images''])
   \<and> (\<exists>k. last (trace (snd (pv_main (ex_env (ex_writes_frames 1)) (ex_args True) ex_world)))
             = Print Stdout (Frames_done k (pv_images_dir (ex_env (ex_writes_frames 1)) (ex_args True)))
           \<and> length (glob (files ex_world) (pv_images_dir (ex_env (ex_writes_frames 1)) (ex_args True)) frame_glob) \<le> k)"
proof -
  have wf: "wf_fs (files ex_world)" by (simp add: ex_world_def wf_ex_fs)
  have keeps: "\<forall>cwd cmd fs proc fs'. run (ex_env (ex_writes_frames 1)) cwd cmd fs = Inr (proc, fs') \<longrightarrow> grows fs fs'"
    using ex_writes_frames_grows [of 1] by (simp add: ex_env_def)
  have len: "length (glob (files ex_world) [''job'', ''images''] frame_glob) = 3"
    by (simp add: glob_def children_def frame_glob_def ex_world_def ex_fs_def)
  show ?thesis
    using pv_report_counts_preexisting_frames [OF wf keeps ex_stale_run] ex_stale_run wf len by simp
qed

text \<open>
  C12. When ffmpeg runs and fails, the script's exit status is ffmpeg's return
  code reduced to 8 bits, and it is non-zero for every code POSIX can report
  (\<open>-255..255\<close>: a code, or minus a signal number).
\<close>

theorem pv_entry_ffmpeg_failure:
  assumes wf: "wf_fs (files w)"
    and found: "which (exec_path e) ''ffmpeg'' (files w) = Some ffmpeg"
    and video: "exists (files w) (resolve e (pv_video args))"
    and dir: "is_dir (files w) (pv_images_dir e args)"
    and guard: "pv_overwrite args \<or> glob (files w) (pv_images_dir e args) frame_glob = []"
    and ran: "run e None (extract_cmd ffmpeg (resolve e (pv_video args)) (pv_fps args) (pv_overwrite args)
                (pv_images_dir e args)) (files w) = Inr (proc, fs')"
    and rc: "returncode proc \<noteq> 0" and range: "-255 \<le> returncode proc \<and> returncode proc \<le> 255"
  shows "fst (pv_entry e args w) = word_of_int (returncode proc) \<and> fst (pv_entry e args w) \<noteq> 0"
proof -
  have mk: "py_mkdir True True (pv_images_dir e args) (files w) = Inr (files w)"
    by (simp add: py_mkdir_def mkdir_parents_existing_dir [OF wf dir])
  have "fst (pv_main e args w) = Inr (returncode proc)"
    using found video guard mk ran rc
    by (auto simp: pv_main_def ensure_ffmpeg_def pv_extract_def py_run_def Let_def)
  then have "fst (pv_entry e args w) = word_of_int (returncode proc)"
    by (auto simp: pv_entry_def py_exit_def split: prod.splits sum.splits)
  with word_of_int_small_nonzero [OF rc] range show ?thesis by simp
qed

text \<open>
  Its witness is an ffmpeg killed by signal 9: the status is 247, not the tool's
  own code.
\<close>

theorem pv_entry_ffmpeg_failure_witness:
  "fst (pv_entry (ex_env (ex_fails (-9))) (ex_args True) ex_world) = word_of_int (-9)
   \<and> fst (pv_entry (ex_env (ex_fails (-9))) (ex_args True) ex_world) \<noteq> 0
   \<and> fst (pv_entry (ex_env (ex_fails (-9))) (ex_args True) ex_world) = 247"
proof -
  let ?e = "ex_env (ex_fails (-9))"
  have h1: "wf_fs (files ex_world)" by (simp add: ex_world_def wf_ex_fs)
  have h2: "which (exec_path ?e) ''ffmpeg'' (files ex_world) = Some ''/usr/bin/ffmpeg''"
    by (simp add: which_def ex_env_def ex_world_def ex_fs_def lookup_def path_str_def)
  have h3: "exists (files ex_world) (resolve ?e (pv_video (ex_args True)))"
    by (simp add: exists_def ex_env_def ex_args_def ex_world_def ex_fs_def lookup_def)
  have h4: "is_dir (files ex_world) (pv_images_dir ?e (ex_args True))"
    by (simp add: is_dir_def ex_env_def ex_args_def ex_world_def ex_fs_def lookup_def)
  have h5: "pv_overwrite (ex_args True) \<or> glob (files ex_world) (pv_images_dir ?e (ex_args True)) frame_glob = []"
    by (simp add: ex_args_def)
  have h6: "run ?e None (extract_cmd ''/usr/bin/ffmpeg'' (resolve ?e (pv_video (ex_args True))) (pv_fps (ex_args True))
              (pv_overwrite (ex_args True)) (pv_images_dir ?e (ex_args True))) (files ex_world)
            = Inr (\<lparr>returncode = -9, out_text = [], err_text = ''boom''\<rparr>, files ex_world)"
    by (simp add: ex_env_def ex_fails_def)
  have h7: "returncode \<lparr>returncode = -9, out_text = [], err_text = ''boom''\<rparr> \<noteq> 0" by simp
  have h8: "-255 \<le> returncode \<lparr>returncode = -9, out_text = [], err_text = ''boom''\<rparr>
            \<and> returncode \<lparr>returncode = -9, out_text = [], err_text = ''boom''\<rparr> \<le> 255" by simp
  from pv_entry_ffmpeg_failure [OF h1 h2 h3 h4 h5 h6 h7 h8] show ?thesis by simp
qed

text \<open>
  C13. Without ffmpeg on \<open>PATH\<close> the script stops with the uncaught
  \<open>FileNotFoundError\<close> (status 1) before touching anything.
\<close>

theorem pv_entry_tool_missing:
  "which (exec_path e) ''ffmpeg'' (files w) = None \<Longrightarrow>
   pv_entry e args w = (1, emit Stderr (Traceback (ToolNotFound ''ffmpeg'')) w)"
  by (simp add: pv_entry_def pv_main_def ensure_ffmpeg_def py_exit_def)

theorem pv_entry_tool_missing_witness:
  "pv_entry (ex_env (ex_writes_frames 1)) (ex_args True) \<lparr>files = [], trace = []\<rparr>
   = (1, emit Stderr (Traceback (ToolNotFound ''ffmpeg'')) \<lparr>files = [], trace = []\<rparr>)"
proof -
  have "which (exec_path (ex_env (ex_writes_frames 1))) ''ffmpeg'' (files \<lparr>files = [], trace = []\<rparr>) = None"
    by (simp add: which_def ex_env_def lookup_def)
  then show ?thesis by (rule pv_entry_tool_missing)
qed

text \<open>
  C14. A missing input video: \<open>main\<close> returns 1 after one line on stderr, creates
  no directory and launches nothing.
\<close>

theorem pv_main_video_missing:
  "which (exec_path e) ''ffmpeg'' (files w) \<noteq> None \<Longrightarrow> \<not> exists (files w) (resolve e (pv_video args)) \<Longrightarrow>
   pv_main e args w = (Inr 1, emit Stderr (Video_missing (resolve e (pv_video args))) w)"
  by (auto simp: pv_main_def ensure_ffmpeg_def)

theorem pv_main_video_missing_witness:
  "pv_main (ex_env (ex_writes_frames 1)) ((ex_args True)\<lparr>pv_video := ''gone.mp4''\<rparr>) ex_world
   = (Inr 1, emit Stderr (Video_missing [''gone.mp4'']) ex_world)"
proof -
  let ?e = "ex_env (ex_writes_frames 1)" and ?a = "(ex_args True)\<lparr>pv_video := ''gone.mp4''\<rparr>"
  have h1: "which (exec_path ?e) ''ffmpeg'' (files ex_world) \<noteq> None"
    by (simp add: which_def ex_env_def ex_world_def ex_fs_def lookup_def)
  have h2: "\<not> exists (files ex_world) (resolve ?e (pv_video ?a))"
    by (simp add: exists_def ex_env_def ex_world_def ex_fs_def lookup_def)
  from pv_main_video_missing [OF h1 h2] show ?thesis by (simp add: ex_env_def)
qed

text \<open>
  C18. An extraction into a directory without frames reports exactly the frames
  ffmpeg wrote: when ffmpeg writes frames \<open>1..k\<close> (\<open>k > 0\<close>) and exits with 0,
  \<open>main\<close> returns 0, reports \<open>k\<close> frames, and the frames in the directory are
  exactly \<open>frame_00001.png\<close> to frame \<open>k\<close>, numbered contiguously from 1.
\<close>

theorem pv_main_fresh_extraction:
  assumes wf: "wf_fs (files w)"
    and found: "which (exec_path e) ''ffmpeg'' (files w) \<noteq> None"
    and video: "exists (files w) (resolve e (pv_video args))"
    and mk: "py_mkdir True True (pv_images_dir e args) (files w) = Inr fs1"
    and fresh: "glob (files w) (pv_images_dir e args) frame_glob = []"
    and ffmpeg: "\<And>cwd cmd fs. run e cwd cmd fs = Inr (proc, frames_written (pv_images_dir e args) k fs)"
    and ok: "returncode proc = 0" and k: "0 < k"
  shows "fst (pv_main e args w) = Inr 0
    \<and> last (trace (snd (pv_main e args w))) = Print Stdout (Frames_done k (pv_images_dir e args))
    \<and> set (glob (files (snd (pv_main e args w))) (pv_images_dir e args) frame_glob)
        = {pv_images_dir e args @ [frame_name i] | i. 1 \<le> i \<and> i \<le> k}"
proof -
  let ?d = "pv_images_dir e args"
  from found obtain ffmpeg where f: "which (exec_path e) ''ffmpeg'' (files w) = Some ffmpeg" by blast
  from mkdir_parents_Inr [OF wf] mk have wf1: "wf_fs fs1" and dir1: "is_dir fs1 ?d"
    by (auto simp: py_mkdir_def)
  from mk have "set (glob fs1 ?d frame_glob) \<subseteq> set (glob (files w) ?d frame_glob)"
    by (auto simp: py_mkdir_def intro!: glob_no_new_children mkdir_parents_entries)
  with fresh have fresh1: "glob fs1 ?d frame_glob = []" by simp
  have len: "length (glob (frames_written ?d k fs1) ?d frame_glob) = k"
    by (rule length_glob_frames_written [OF wf1 dir1 fresh1])
  with k have ne: "glob (frames_written ?d k fs1) ?d frame_glob \<noteq> []" by auto
  have run: "pv_main e args w = pv_verify ?d (w\<lparr>files := frames_written ?d k fs1,
               trace := trace w @ [Print Stdout (Extract_cmd (extract_cmd ffmpeg (resolve e (pv_video args))
                  (pv_fps args) (pv_overwrite args) ?d)), Exec None (extract_cmd ffmpeg (resolve e (pv_video args))
                  (pv_fps args) (pv_overwrite args) ?d)]\<rparr>)"
    using pv_main_mkdir_guard [OF f video mk] fresh1 ffmpeg ok
    by (simp add: pv_extract_def py_run_def emit_def Let_def)
  show ?thesis
    using ne len fresh1
    by (simp add: run pv_verify_def Let_def set_glob_frames_written)
qed

text \<open>
  The witness is the example of the specification: a 30-second video at 10 fps,
  for which ffmpeg writes 300 frames into a new job directory.
\<close>

theorem pv_main_fresh_extraction_witness:
  "fst (pv_main (ex_env (ex_writes_frames 300)) (ex_args False) (ex_world\<lparr>files := take 7 ex_fs\<rparr>)) = Inr 0
   \<and> last (trace (snd (pv_main (ex_env (ex_writes_frames 300)) (ex_args False) (ex_world\<lparr>files := take 7 ex_fs\<rparr>))))
       = Print Stdout (Frames_done 300 [''job'', ''images''])
   \<and> set (glob (files (snd (pv_main (ex_env (ex_writes_frames 300)) (ex_args False) (ex_world\<lparr>files := take 7 ex_fs\<rparr>))))
            [''job'', ''images''] frame_glob)
       = {[''job'', ''images'', frame_name i] | i. 1 \<le> i \<and> i \<le> 300}"
proof -
  let ?e = "ex_env (ex_writes_frames 300)" and ?w = "ex_world\<lparr>files := take 7 ex_fs\<rparr>"
  have d: "pv_images_dir ?e (ex_args False) = [''job'', ''images'']" by (simp add: ex_env_def ex_args_def)
  have h1: "wf_fs (files ?w)" by (simp add: wf_fs_def ex_fs_def is_dir_def lookup_def)
  have h2: "which (exec_path ?e) ''ffmpeg'' (files ?w) \<noteq> None"
    by (simp add: which_def ex_env_def ex_fs_def lookup_def)
  have h3: "exists (files ?w) (resolve ?e (pv_video (ex_args False)))"
    by (simp add: exists_def ex_env_def ex_args_def ex_fs_def lookup_def)
  have h4: "py_mkdir True True (pv_images_dir ?e (ex_args False)) (files ?w) = Inr (files ?w)"
    using h1 by (simp add: d py_mkdir_def mkdir_parents_existing_dir is_dir_def ex_fs_def lookup_def)
  have h5: "glob (files ?w) (pv_images_dir ?e (ex_args False)) frame_glob = []"
    by (simp add: d glob_def children_def ex_fs_def)
  have h6: "\<And>cwd cmd fs. run ?e cwd cmd fs
              = Inr (\<lparr>returncode = 0, out_text = [], err_text = []\<rparr>,
                     frames_written (pv_images_dir ?e (ex_args False)) 300 fs)"
    by (simp add: d) (simp add: ex_env_def ex_writes_frames_def)
  from pv_main_fresh_extraction [OF h1 h2 h3 h4 h5 h6] show ?thesis by (simp add: d)
qed

text \<open>
  C19. When a regular file sits where the images directory should be,
  \<open>Path.mkdir(parents=True, exist_ok=True)\<close> raises \<open>FileExistsError\<close>, which
  escapes \<open>main\<close>: the script exits with status 1 after a traceback, and nothing
  else happens.
\<close>

theorem pv_entry_images_path_is_file:
  assumes "wf_fs (files w)"
    and "which (exec_path e) ''ffmpeg'' (files w) \<noteq> None"
    and "exists (files w) (resolve e (pv_video args))"
    and "lookup (files w) (pv_images_dir e args) = Some (File b)"
  shows "pv_entry e args w = (1, emit Stderr (Traceback (FileExistsError (pv_images_dir e args))) w)"
  using assms
  by (auto simp: pv_entry_def py_exit_def pv_main_def ensure_ffmpeg_def py_mkdir_def mkdir_parents_file)

theorem pv_entry_images_path_is_file_witness:
  "pv_entry (ex_env (ex_writes_frames 1)) (ex_args True)
      (ex_world\<lparr>files := take 6 ex_fs @ [([''job'', ''images''], File False)]\<rparr>)
   = (1, emit Stderr (Traceback (FileExistsError [''job'', ''images'']))
           (ex_world\<lparr>files := take 6 ex_fs @ [([''job'', ''images''], File False)]\<rparr>))"
proof -
  let ?e = "ex_env (ex_writes_frames 1)" and ?w = "ex_world\<lparr>files := take 6 ex_fs @ [([''job'', ''images''], File False)]\<rparr>"
  have h1: "wf_fs (files ?w)" by (simp add: wf_fs_def ex_fs_def is_dir_def lookup_def)
  have h2: "which (exec_path ?e) ''ffmpeg'' (files ?w) \<noteq> None"
    by (simp add: which_def ex_env_def ex_fs_def lookup_def)
  have h3: "exists (files ?w) (resolve ?e (pv_video (ex_args True)))"
    by (simp add: exists_def ex_env_def ex_args_def ex_fs_def lookup_def)
  have h4: "lookup (files ?w) (pv_images_dir ?e (ex_args True)) = Some (File False)"
    by (simp add: ex_env_def ex_args_def ex_fs_def lookup_def)
  from pv_entry_images_path_is_file [OF h1 h2 h3 h4] show ?thesis by (simp add: ex_env_def ex_args_def)
qed

text \<open>
  C31. When ffmpeg is found but cannot be started (\<open>subprocess.run\<close> raises
  \<open>OSError\<close>, e.g. a permission error), the script has printed the command, the
  exception escapes \<open>main\<close> as a traceback, the status is 1, and nothing was
  launched and nothing on disk changed.
\<close>

theorem pv_entry_spawn_failure:
  assumes wf: "wf_fs (files w)"
    and found: "which (exec_path e) ''ffmpeg'' (files w) = Some ffmpeg"
    and video: "exists (files w) (resolve e (pv_video args))"
    and dir: "is_dir (files w) (pv_images_dir e args)"
    and guard: "pv_overwrite args \<or> glob (files w) (pv_images_dir e args) frame_glob = []"
    and spawn: "run e None (extract_cmd ffmpeg (resolve e (pv_video args)) (pv_fps args) (pv_overwrite args)
                (pv_images_dir e args)) (files w) = Inl x"
  shows "pv_entry e args w =
           (1, emit Stderr (Traceback x)
                 (emit Stdout (Extract_cmd (extract_cmd ffmpeg (resolve e (pv_video args)) (pv_fps args)
                                              (pv_overwrite args) (pv_images_dir e args))) w))"
proof -
  have mk: "py_mkdir True True (pv_images_dir e args) (files w) = Inr (files w)"
    by (simp add: py_mkdir_def mkdir_parents_existing_dir [OF wf dir])
  show ?thesis
    using found video guard mk spawn
    by (auto simp: pv_entry_def py_exit_def pv_main_def ensure_ffmpeg_def pv_extract_def py_run_def Let_def)
qed


theorem pv_entry_spawn_failure_witness:
  "pv_entry (ex_env ex_unstartable) (ex_args True) ex_world
     = (1, emit Stderr (Traceback (SpawnError ''Permission denied''))
             (emit Stdout (Extract_cmd ex_cmd) ex_world))"
proof -
  let ?e = "ex_env ex_unstartable"
  have h1: "wf_fs (files ex_world)" by (simp add: ex_world_def wf_ex_fs)
  have h2: "which (exec_path ?e) ''ffmpeg'' (files ex_world) = Some ''/usr/bin/ffmpeg''"
    by (simp add: which_def ex_env_def ex_world_def ex_fs_def lookup_def path_str_def)
  have h3: "exists (files ex_world) (resolve ?e (pv_video (ex_args True)))"
    by (simp add: exists_def ex_env_def ex_args_def ex_world_def ex_fs_def lookup_def)
  have h4: "is_dir (files ex_world) (pv_images_dir ?e (ex_args True))"
    by (simp add: is_dir_def ex_env_def ex_args_def ex_world_def ex_fs_def lookup_def)
  have h5: "pv_overwrite (ex_args True) \<or> glob (files ex_world) (pv_images_dir ?e (ex_args True)) frame_glob = []"
    by (simp add: ex_args_def)
  have h6: "run ?e None (extract_cmd ''/usr/bin/ffmpeg'' (resolve ?e (pv_video (ex_args True))) (pv_fps (ex_args True))
              (pv_overwrite (ex_args True)) (pv_images_dir ?e (ex_args True))) (files ex_world)
            = Inl (SpawnError ''Permission denied'')"
    by (simp add: ex_env_def ex_unstartable_def)
  have cmd: "extract_cmd ''/usr/bin/ffmpeg'' (resolve ?e (pv_video (ex_args True))) (pv_fps (ex_args True))
               (pv_overwrite (ex_args True)) (pv_images_dir ?e (ex_args True)) = ex_cmd"
    unfolding extract_cmd_def ex_env_def ex_args_def ex_cmd_def by code_simp
  from pv_entry_spawn_failure [OF h1 h2 h3 h4 h5 h6] cmd show ?thesis by simp
qed

end
