(* ===== verification/Argparse.thy ===== *)
theory Argparse
  imports Decimal
begin

text \<open>
  The part of Python's \<open>argparse\<close> (CPython 3.12, \<open>Lib/argparse.py\<close>) the two
  scripts use: optional arguments given by long option strings, each with action
  \<open>store\<close> (one value, converted by \<open>type\<close> and checked against \<open>choices\<close>) or
  \<open>store_true\<close>, \<open>required\<close> and \<open>default\<close>, the automatic \<open>-h\<close>/\<open>--help\<close>,
  and \<open>allow_abbrev\<close>.  \<open>parse_args\<close> first classifies every argument string
  (\<open>_parse_optional\<close>: an option string, an \<open>--opt=value\<close>, a unique prefix of a
  long option, an unknown option, or a plain argument; everything after \<open>--\<close>
  is a plain argument), then consumes them from left to right
  (\<open>consume_optional\<close>), then checks the required arguments and the
  unrecognised ones.  The parsers here have no positional arguments, so every
  plain argument is unrecognised.  Combined short flags are modelled for \<open>-h\<close>,
  the only short option string of the two parsers.
\<close>

datatype arg_action = Store | Store_true | Help

datatype arg_type = T_str | T_int

record arg_spec =
  a_flags :: "string list"
  a_dest :: string
  a_action :: arg_action
  a_type :: arg_type
  a_choices :: "argval list option"
  a_required :: bool
  a_default :: argval

text \<open>\<open>add_help=True\<close>: the help argument every parser gets first.\<close>

definition help_spec :: arg_spec where
  "help_spec =
     \<lparr>a_flags = [''-h'', ''--help''], a_dest = ''help'', a_action = Help, a_type = T_str,
      a_choices = None, a_required = False, a_default = V_none\<rparr>"

text \<open>How \<open>_parse_optional\<close> reads one argument string.\<close>

datatype token = Tok_opt arg_spec string "string option" | Tok_unknown | Tok_arg | Tok_dashdash

text \<open>\<open>_option_string_actions\<close>, in insertion order.\<close>

definition flag_table :: "arg_spec list \<Rightarrow> (string \<times> arg_spec) list" where
  "flag_table specs = concat (map (\<lambda>sp. map (\<lambda>f. (f, sp)) (a_flags sp)) specs)"

definition starts_with :: "string \<Rightarrow> string \<Rightarrow> bool" where
  "starts_with f p \<longleftrightarrow> take (length p) f = p"

text \<open>\<open>_get_option_tuples\<close>: the option strings an abbreviation can stand for.\<close>

definition option_tuples :: "arg_spec list \<Rightarrow> string \<Rightarrow> (arg_spec \<times> string \<times> string option) list" where
  "option_tuples specs s =
     (if take 2 s = ''--'' then
        (let pre = takeWhile (\<lambda>c. c \<noteq> CHR ''='') s;
             ex = (if CHR ''='' \<in> set s then Some (tl (dropWhile (\<lambda>c. c \<noteq> CHR ''='') s)) else None) in
         map (\<lambda>(f, sp). (sp, f, ex)) (filter (\<lambda>(f, sp). starts_with f pre) (flag_table specs)))
      else
        map (\<lambda>(f, sp). (sp, f, if f = take 2 s then Some (drop 2 s) else None))
          (filter (\<lambda>(f, sp). f = take 2 s \<or> starts_with f s) (flag_table specs)))"

text \<open>\<open>_negative_number_matcher\<close>: \<open>^-\<bsub>\<close>\<open>\d+$|^-\d*\.\d+$\<close>.\<close>

definition is_negative_number :: "string \<Rightarrow> bool" where
  "is_negative_number s \<longleftrightarrow>
     (case s of
        c # r \<Rightarrow> c = CHR ''-'' \<and>
          ((r \<noteq> [] \<and> list_all is_digit r)
           \<or> (let b = dropWhile is_digit r in
              b \<noteq> [] \<and> hd b = CHR ''.'' \<and> tl b \<noteq> [] \<and> list_all is_digit (tl b)))
      | [] \<Rightarrow> False)"

definition classify :: "arg_spec list \<Rightarrow> string \<Rightarrow> arg_error + token" where
  "classify specs s =
     (if s = [] \<or> hd s \<noteq> CHR ''-'' then Inr Tok_arg
      else case map_of (flag_table specs) s of
        Some sp \<Rightarrow> Inr (Tok_opt sp s None)
      | None \<Rightarrow>
          if length s = 1 then Inr Tok_arg
          else
            (let f = takeWhile (\<lambda>c. c \<noteq> CHR ''='') s in
             case (if CHR ''='' \<in> set s then map_of (flag_table specs) f else None) of
               Some sp \<Rightarrow> Inr (Tok_opt sp f (Some (tl (dropWhile (\<lambda>c. c \<noteq> CHR ''='') s))))
             | None \<Rightarrow>
                 (case option_tuples specs s of
                    [] \<Rightarrow> if is_negative_number s \<or> CHR '' '' \<in> set s then Inr Tok_arg else Inr Tok_unknown
                  | [(sp, f, ex)] \<Rightarrow> Inr (Tok_opt sp f ex)
                  | ts \<Rightarrow> Inl (Ambiguous_option s (map (\<lambda>(sp, f, ex). f) ts)))))"

fun classify_all :: "arg_spec list \<Rightarrow> string list \<Rightarrow> arg_error + (string \<times> token) list" where
  "classify_all specs [] = Inr []"
| "classify_all specs (s # r) =
     (if s = ''--'' then Inr ((s, Tok_dashdash) # map (\<lambda>a. (a, Tok_arg)) r)
      else case classify specs s of
        Inl e \<Rightarrow> Inl e
      | Inr t \<Rightarrow> (case classify_all specs r of Inl e \<Rightarrow> Inl e | Inr ts \<Rightarrow> Inr ((s, t) # ts)))"

text \<open>\<open>_get_values\<close> for one string: \<open>type\<close>, then \<open>_check_value\<close> against \<open>choices\<close>.\<close>

definition convert :: "arg_spec \<Rightarrow> string \<Rightarrow> arg_error + argval" where
  "convert sp v =
     (case (case a_type sp of
              T_str \<Rightarrow> Inr (V_str v)
            | T_int \<Rightarrow> (case py_int v of None \<Rightarrow> Inl (Invalid_int (a_flags sp) v) | Some i \<Rightarrow> Inr (V_int i))) of
        Inl e \<Rightarrow> Inl e
      | Inr x \<Rightarrow>
          (case a_choices sp of
             None \<Rightarrow> Inr x
           | Some cs \<Rightarrow> if x \<in> set cs then Inr x else Inl (Invalid_choice (a_flags sp) x)))"

datatype outcome = Arg_error arg_error | Help_exit | Parsed "string \<Rightarrow> argval"

text \<open>The end of \<open>_parse_known_args\<close> and of \<open>parse_args\<close>.\<close>

definition finish :: "arg_spec list \<Rightarrow> (string \<Rightarrow> argval) \<Rightarrow> string list \<Rightarrow> string list \<Rightarrow> outcome" where
  "finish specs ns seen extras =
     (let missing = filter (\<lambda>sp. a_required sp \<and> a_dest sp \<notin> set seen) specs in
      if missing \<noteq> [] then Arg_error (Required_missing (map a_flags missing))
      else if extras \<noteq> [] then Arg_error (Unrecognized extras)
      else Parsed ns)"

text \<open>
  The consuming loop: an option takes its explicit value or the next plain
  argument; everything else is kept as an extra.
\<close>

fun consume :: "arg_spec list \<Rightarrow> (string \<times> token) list \<Rightarrow> (string \<Rightarrow> argval) \<Rightarrow> string list \<Rightarrow> string list \<Rightarrow> outcome" where
  "consume specs [] ns seen extras = finish specs ns seen extras"
| "consume specs ((s, Tok_opt sp f ex) # r) ns seen extras =
     (case a_action sp of
        Help \<Rightarrow>
          (case ex of
             None \<Rightarrow> Help_exit
           | Some v \<Rightarrow>
               if take 2 f \<noteq> ''--'' \<and> v \<noteq> [] then
                 (if list_all (\<lambda>c. c = CHR ''h'') v then Help_exit
                  else Arg_error (Ignored_explicit (a_flags sp) (dropWhile (\<lambda>c. c = CHR ''h'') v)))
               else Arg_error (Ignored_explicit (a_flags sp) v))
      | Store_true \<Rightarrow>
          (case ex of
             None \<Rightarrow> consume specs r (ns(a_dest sp := V_bool True)) (seen @ [a_dest sp]) extras
           | Some v \<Rightarrow> Arg_error (Ignored_explicit (a_flags sp) v))
      | Store \<Rightarrow>
          (case ex of
             Some v \<Rightarrow>
               (case convert sp v of
                  Inl e \<Rightarrow> Arg_error e
                | Inr x \<Rightarrow> consume specs r (ns(a_dest sp := x)) (seen @ [a_dest sp]) extras)
           | None \<Rightarrow>
               (case r of
                  (v, Tok_arg) # r' \<Rightarrow>
                    (case convert sp v of
                       Inl e \<Rightarrow> Arg_error e
                     | Inr x \<Rightarrow> consume specs r' (ns(a_dest sp := x)) (seen @ [a_dest sp]) extras)
                | _ \<Rightarrow> Arg_error (Expected_one_argument (a_flags sp)))))"
| "consume specs ((s, Tok_unknown) # r) ns seen extras = consume specs r ns seen (extras @ [s])"
| "consume specs ((s, Tok_arg) # r) ns seen extras = consume specs r ns seen (extras @ [s])"
| "consume specs ((s, Tok_dashdash) # r) ns seen extras = consume specs r ns seen (extras @ [s])"

definition initial_ns :: "arg_spec list \<Rightarrow> string \<Rightarrow> argval" where
  "initial_ns specs = foldl (\<lambda>ns sp. if a_action sp = Help then ns else ns(a_dest sp := a_default sp)) (\<lambda>d. V_none) specs"

definition parse_args :: "arg_spec list \<Rightarrow> string list \<Rightarrow> outcome" where
  "parse_args specs argv =
     (case classify_all specs argv of
        Inl e \<Rightarrow> Arg_error e
      | Inr ts \<Rightarrow> consume specs ts (initial_ns specs) [] [])"

fun str_val :: "argval \<Rightarrow> string" where
  "str_val (V_str s) = s"
| "str_val _ = []"

fun int_val :: "argval \<Rightarrow> int" where
  "int_val (V_int i) = i"
| "int_val _ = 0"

fun bool_val :: "argval \<Rightarrow> bool" where
  "bool_val (V_bool b) = b"
| "bool_val _ = False"

section \<open>Plain arguments\<close>

lemma classify_plain:
  "take 1 s \<noteq> ''-'' \<Longrightarrow> classify specs s = Inr Tok_arg"
  by (cases s) (auto simp: classify_def)

lemma plain_not_dashdash: "take 1 s \<noteq> ''-'' \<Longrightarrow> s \<noteq> ''--''"
  by auto

lemma int_str_not_dashdash: "int_str i \<noteq> ''--''"
proof -
  have a: "nat_str n \<noteq> ''-'' \<and> nat_str n \<noteq> ''--''" for n
  proof -
    have "CHR ''-'' \<notin> set (nat_str n)" using nat_str_digits [of "CHR ''-''" n] by auto
    then show ?thesis by auto
  qed
  then show ?thesis by (simp add: int_str_def)
qed

lemma classify_exact:
  "map_of (flag_table specs) s = Some sp \<Longrightarrow> take 1 s = ''-'' \<Longrightarrow> classify specs s = Inr (Tok_opt sp s None)"
  by (cases s) (auto simp: classify_def)

lemma classify_all_plain:
  "list_all (\<lambda>s. take 1 s \<noteq> ''-'') argv \<Longrightarrow> classify_all specs argv = Inr (map (\<lambda>s. (s, Tok_arg)) argv)"
  by (induction argv) (auto simp: classify_plain)

lemma consume_plain:
  "consume specs (map (\<lambda>s. (s, Tok_arg)) argv) ns seen extras = finish specs ns seen (extras @ argv)"
  by (induction argv arbitrary: extras) simp_all

lemma starts_with_take: "starts_with f s \<Longrightarrow> n \<le> length s \<Longrightarrow> take n f = take n s"
  unfolding starts_with_def by (metis min.absorb1 take_take)

text \<open>
  A number as \<open>str\<close> renders it is a plain argument, also when negative, as long
  as no option string has a digit in second place.
\<close>

lemma classify_int_str:
  assumes "\<forall>(f, sp) \<in> set (flag_table specs). 2 \<le> length f \<and> \<not> is_digit (f ! 1)"
  shows "classify specs (int_str i) = Inr Tok_arg"
proof (cases "i < 0")
  case False
  obtain c r where cr: "nat_str (nat i) = c # r" by (cases "nat_str (nat i)") auto
  then have "is_digit c" using nat_str_digits [of c "nat i"] by simp
  then have "c \<noteq> CHR ''-''" by (auto simp: is_digit_def)
  with False cr show ?thesis by (simp add: int_str_def classify_plain)
next
  case True
  let ?s = "CHR ''-'' # nat_str (nat (- i))"
  obtain c r where cr: "nat_str (nat (- i)) = c # r" by (cases "nat_str (nat (- i))") auto
  have dig: "list_all is_digit (c # r)"
    using nat_str_digits [of _ "nat (- i)"] cr by (simp add: list_all_iff)
  then have c: "is_digit c" by simp
  have noflag: "\<not> (take 2 f = [CHR ''-'', c])" if "(f, sp) \<in> set (flag_table specs)" for f sp
  proof
    assume "take 2 f = [CHR ''-'', c]"
    then have "take 2 f ! 1 = c" by simp
    then have "f ! 1 = c" by simp
    with assms that c show False by auto
  qed
  have "map_of (flag_table specs) ?s = None"
  proof (rule ccontr)
    assume "map_of (flag_table specs) ?s \<noteq> None"
    then obtain sp where "(?s, sp) \<in> set (flag_table specs)" by (auto dest: map_of_SomeD)
    with noflag [of ?s sp] cr show False by simp
  qed
  moreover have "CHR ''='' \<notin> set ?s"
    using dig cr by (auto simp: list_all_iff is_digit_def)
  moreover have "option_tuples specs ?s = []"
  proof -
    have "\<not> (f = take 2 ?s \<or> starts_with f ?s)" if "(f, sp) \<in> set (flag_table specs)" for f sp
      using noflag [OF that] starts_with_take [of f ?s 2] cr by auto
    moreover have "take 2 ?s \<noteq> ''--''" using c cr by (auto simp: is_digit_def)
    ultimately show ?thesis by (auto simp: option_tuples_def filter_empty_conv)
  qed
  moreover have "is_negative_number ?s" using dig cr by (simp add: is_negative_number_def)
  ultimately show ?thesis using True cr by (simp add: int_str_def classify_def)
qed

section \<open>Choices\<close>

lemma flag_table_spec: "(f, sp) \<in> set (flag_table specs) \<Longrightarrow> sp \<in> set specs"
  by (auto simp: flag_table_def)

lemma option_tuples_spec: "(sp, f, ex) \<in> set (option_tuples specs s) \<Longrightarrow> sp \<in> set specs"
  by (auto simp: option_tuples_def Let_def split: if_splits dest: flag_table_spec)

lemma classify_spec:
  assumes "classify specs s = Inr (Tok_opt sp f ex)"
  shows "sp \<in> set specs"
proof -
  have "sp' \<in> set specs" if "map_of (flag_table specs) g = Some sp'" for g sp'
    using that by (auto dest: map_of_SomeD flag_table_spec)
  moreover have "sp' \<in> set specs" if "option_tuples specs s = [(sp', g, ex')]" for sp' g ex'
    using that option_tuples_spec [of sp' g ex' specs s] by simp
  ultimately show ?thesis
    using assms
    by (auto simp: classify_def Let_def split: if_splits option.splits list.splits)
qed

lemma classify_all_spec:
  "classify_all specs argv = Inr ts \<Longrightarrow> (s, Tok_opt sp f ex) \<in> set ts \<Longrightarrow> sp \<in> set specs"
  by (induction specs argv arbitrary: ts rule: classify_all.induct)
     (auto split: if_splits sum.splits dest: classify_spec)

lemma convert_choice: "convert sp v = Inr x \<Longrightarrow> a_choices sp = Some cs \<Longrightarrow> x \<in> set cs"
  by (auto simp: convert_def split: arg_type.splits option.splits sum.splits if_splits)

text \<open>
  A destination that only choice-checked \<open>store\<close> actions write keeps a value among
  the choices through the whole loop.
\<close>

lemma consume_choice:
  "\<forall>sp \<in> set specs. a_dest sp = d \<longrightarrow> a_action sp = Store \<and> a_choices sp = Some cs \<Longrightarrow>
   consume specs ts ns seen extras = Parsed ns' \<Longrightarrow>
   (\<forall>s sp f ex. (s, Tok_opt sp f ex) \<in> set ts \<longrightarrow> sp \<in> set specs) \<Longrightarrow>
   ns d \<in> set cs \<Longrightarrow> ns' d \<in> set cs"
proof (induction specs ts ns seen extras rule: consume.induct)
  case (1 specs ns seen extras)
  then show ?case by (simp add: finish_def Let_def split: if_splits)
next
  case (2 specs s sp f ex r ns seen extras)
  note only = "2.prems"(1) and res = "2.prems"(2)
  have sp: "sp \<in> set specs" using "2.prems"(3) by auto
  have toks: "\<forall>s sp f ex. (s, Tok_opt sp f ex) \<in> set r \<longrightarrow> sp \<in> set specs" using "2.prems"(3) by auto
  have keep: "(ns(a_dest sp := x)) d \<in> set cs" if "a_action sp = Store" "convert sp v = Inr x" for v x
  proof (cases "a_dest sp = d")
    case True
    with only sp that(1) have "a_choices sp = Some cs" by auto
    with True convert_choice [OF that(2)] show ?thesis by simp
  qed (use "2.prems"(4) in simp)
  show ?case
  proof (cases "a_action sp")
    case Help
    with res show ?thesis by (simp split: option.splits if_splits)
  next
    case Store_true
    with res have ex: "ex = None"
      and c: "consume specs r (ns(a_dest sp := V_bool True)) (seen @ [a_dest sp]) extras = Parsed ns'"
      by (simp_all split: option.splits)
    have "a_dest sp \<noteq> d" using Store_true sp only by force
    then show ?thesis using "2.IH"(3) [OF Store_true ex only c toks] "2.prems"(4) by simp
  next
    case Store
    show ?thesis
    proof (cases ex)
      case (Some v)
      with Store res obtain x where cv: "convert sp v = Inr x"
        and c: "consume specs r (ns(a_dest sp := x)) (seen @ [a_dest sp]) extras = Parsed ns'"
        by (simp split: sum.splits)
      show ?thesis by (rule "2.IH"(2) [OF Store Some cv only c toks keep [OF Store cv]])
    next
      case None
      with Store res obtain v r' where r: "r = (v, Tok_arg) # r'"
        by (simp split: list.splits prod.splits token.splits)
      with Store None res obtain x where cv: "convert sp v = Inr x"
        and c: "consume specs r' (ns(a_dest sp := x)) (seen @ [a_dest sp]) extras = Parsed ns'"
        by (simp split: sum.splits)
      have toks': "\<forall>s sp f ex. (s, Tok_opt sp f ex) \<in> set r' \<longrightarrow> sp \<in> set specs" using toks r by auto
      show ?thesis by (rule "2.IH"(1) [OF Store None r refl refl cv only c toks' keep [OF Store cv]])
    qed
  qed
qed simp_all

end
