(* ===== verification/Prepare_Video_CLI.thy ===== *)
theory Prepare_Video_CLI
  imports Prepare_Video Argparse
begin

text \<open>
  The command line of \<open>src/scripts/prepare_video.py\<close>: \<open>parse_args\<close> as the
  argument specifications \<open>pv_parser\<close> run through the \<open>argparse\<close> model,
  \<open>main\<close>'s first statement (\<open>pv_main_argv\<close>), and the script run from its
  command line (\<open>pv_cli\<close>).  The lemmas give its defaults, its errors (exit
  status 2) and the round trip from a record of arguments to the command line
  spelling it out and back.
\<close>

text \<open>
  \<open>parse_args\<close> (lines 31-37): the four \<open>add_argument\<close> calls as argument
  specifications, after the automatic \<open>-h\<close>/\<open>--help\<close>, and the namespace read
  back as the record of parsed arguments.
\<close>

definition pv_parser :: "arg_spec list" where
  "pv_parser =
     [help_spec,
      \<lparr>a_flags = [''--video''], a_dest = ''video'', a_action = Store, a_type = T_str, a_choices = None,
       a_required = True, a_default = V_none\<rparr>,
      \<lparr>a_flags = [''--out''], a_dest = ''out'', a_action = Store, a_type = T_str, a_choices = None,
       a_required = True, a_default = V_none\<rparr>,
      \<lparr>a_flags = [''--fps''], a_dest = ''fps'', a_action = Store, a_type = T_int, a_choices = None,
       a_required = False, a_default = V_int 10\<rparr>,
      \<lparr>a_flags = [''--overwrite''], a_dest = ''overwrite'', a_action = Store_true, a_type = T_str,
       a_choices = None, a_required = False, a_default = V_bool False\<rparr>]"

definition pv_parse_args :: "string list \<Rightarrow> outcome" where
  "pv_parse_args argv = parse_args pv_parser argv"

definition pv_args_of :: "(string \<Rightarrow> argval) \<Rightarrow> pv_args" where
  "pv_args_of ns =
     \<lparr>pv_video = str_val (ns ''video''), pv_out = str_val (ns ''out''), pv_fps = int_val (ns ''fps''),
      pv_overwrite = bool_val (ns ''overwrite'')\<rparr>"

text \<open>
  \<open>main\<close>'s first statement, \<open>args = parse_args()\<close> (lines 40-41).  On a
  usage error \<open>parser.error\<close> prints the usage and the message on stderr and raises
  \<open>SystemExit(2)\<close>; \<open>-h\<close> prints the help and raises \<open>SystemExit(0)\<close>.  Neither is
  caught, so \<open>main\<close> is left at once (\<open>Inl\<close>, the status the exception carries);
  otherwise the rest of \<open>main\<close> runs on the parsed arguments (\<open>Inr\<close>, its outcome).
\<close>

definition pv_main_argv :: "env \<Rightarrow> string list \<Rightarrow> world \<Rightarrow> (8 word + (exc + int)) \<times> world" where
  "pv_main_argv e argv w =
     (case pv_parse_args argv of
        Arg_error err \<Rightarrow> (Inl 2, emit Stderr (Usage_error err) w)
      | Help_exit \<Rightarrow> (Inl 0, emit Stdout Help_text w)
      | Parsed ns \<Rightarrow> apfst Inr (pv_main e (pv_args_of ns) w))"

text \<open>\<open>sys.exit(main())\<close> from the command line (lines 94-95).\<close>

definition pv_cli :: "env \<Rightarrow> string list \<Rightarrow> world \<Rightarrow> 8 word \<times> world" where
  "pv_cli e argv w = sys_exit (pv_main_argv e argv w)"

text \<open>The command line that spells out a record of arguments.\<close>

definition pv_render :: "pv_args \<Rightarrow> string list" where
  "pv_render a =
     [''--video'', pv_video a, ''--out'', pv_out a, ''--fps'', int_str (pv_fps a)]
     @ (if pv_overwrite a then [''--overwrite''] else [])"

section \<open>The command line\<close>

text \<open>The script from its command line, by the outcome of \<open>parse_args\<close>.\<close>

lemma pv_cli_cases:
  "pv_cli e argv w =
     (case pv_parse_args argv of
        Arg_error err \<Rightarrow> (2, emit Stderr (Usage_error err) w)
      | Help_exit \<Rightarrow> (0, emit Stdout Help_text w)
      | Parsed ns \<Rightarrow> pv_entry e (pv_args_of ns) w)"
  by (simp add: pv_cli_def pv_main_argv_def pv_entry_def split: outcome.split)

lemma pv_parser_flags:
  "\<forall>(f, sp) \<in> set (flag_table pv_parser). 2 \<le> length f \<and> \<not> is_digit (f ! 1)"
  by (simp add: pv_parser_def help_spec_def flag_table_def is_digit_def)

lemma pv_parser_classify:
  "classify pv_parser ''--video'' = Inr (Tok_opt (pv_parser ! 1) ''--video'' None)"
  "classify pv_parser ''--out'' = Inr (Tok_opt (pv_parser ! 2) ''--out'' None)"
  "classify pv_parser ''--fps'' = Inr (Tok_opt (pv_parser ! 3) ''--fps'' None)"
  "classify pv_parser ''--overwrite'' = Inr (Tok_opt (pv_parser ! 4) ''--overwrite'' None)"
  "classify pv_parser ''--o'' = Inl (Ambiguous_option ''--o'' [''--out'', ''--overwrite''])"
  by (simp_all add: classify_exact) (simp_all add: pv_parser_def help_spec_def flag_table_def classify_def
                                                   option_tuples_def starts_with_def)

text \<open>
  C22. The defaults of \<open>parse_args\<close>: with only \<open>--video\<close> and \<open>--out\<close> given,
  the frame rate is 10 and \<open>--overwrite\<close> is off.
\<close>

theorem pv_parse_args_defaults:
  assumes "take 1 v \<noteq> ''-''" and "take 1 ro \<noteq> ''-''"
  shows "\<exists>ns. pv_parse_args [''--video'', v, ''--out'', ro] = Parsed ns
           \<and> pv_args_of ns = \<lparr>pv_video = v, pv_out = ro, pv_fps = 10, pv_overwrite = False\<rparr>"
  using assms
  by (simp add: pv_parse_args_def parse_args_def classify_plain pv_parser_classify plain_not_dashdash)
     (simp add: pv_parser_def help_spec_def convert_def finish_def initial_ns_def pv_args_of_def)

theorem pv_parse_args_defaults_witness:
  "take 1 ''clip.mp4'' \<noteq> ''-'' \<and> take 1 ''job'' \<noteq> ''-''
   \<and> (\<exists>ns. pv_parse_args [''--video'', ''clip.mp4'', ''--out'', ''job''] = Parsed ns
       \<and> pv_args_of ns = \<lparr>pv_video = ''clip.mp4'', pv_out = ''job'', pv_fps = 10, pv_overwrite = False\<rparr>)"
  using pv_parse_args_defaults [of "''clip.mp4''" "''job''"] by simp

text \<open>
  C23. Without \<open>--video\<close> and \<open>--out\<close> (no option at all, only plain
  arguments) the script exits with status 2 after the usage error naming both
  required options, and does nothing else: exit status 2 is not among the
  statuses the specification lists.
\<close>

theorem pv_cli_required_missing:
  "list_all (\<lambda>s. take 1 s \<noteq> ''-'') argv \<Longrightarrow>
   pv_cli e argv w = (2, emit Stderr (Usage_error (Required_missing [[''--video''], [''--out'']])) w)"
  by (simp add: pv_cli_cases pv_parse_args_def parse_args_def classify_all_plain consume_plain finish_def)
     (simp add: pv_parser_def help_spec_def)

theorem pv_cli_required_missing_witness:
  "list_all (\<lambda>s. take 1 s \<noteq> ''-'') [''clip.mp4'']
   \<and> pv_cli (ex_env (ex_writes_frames 1)) [''clip.mp4''] ex_world
       = (2, emit Stderr (Usage_error (Required_missing [[''--video''], [''--out'']])) ex_world)"
  using pv_cli_required_missing [of "[''clip.mp4'']"] by simp

text \<open>
  C24. Abbreviations are resolved before anything runs: \<open>--o\<close> could be
  \<open>--out\<close> or \<open>--overwrite\<close>, so a command line containing it ends with status 2
  and the ambiguity error, whatever follows it (even \<open>-h\<close>).
\<close>

theorem pv_cli_ambiguous_abbreviation:
  "take 1 v \<noteq> ''-'' \<Longrightarrow>
   pv_cli e (''--video'' # v # ''--o'' # rest) w
     = (2, emit Stderr (Usage_error (Ambiguous_option ''--o'' [''--out'', ''--overwrite''])) w)"
  by (simp add: pv_cli_cases pv_parse_args_def parse_args_def classify_plain pv_parser_classify
                plain_not_dashdash)

theorem pv_cli_ambiguous_abbreviation_witness:
  "take 1 ''clip.mp4'' \<noteq> ''-''
   \<and> pv_cli (ex_env (ex_writes_frames 1)) [''--video'', ''clip.mp4'', ''--o'', ''job'', ''-h''] ex_world
     = (2, emit Stderr (Usage_error (Ambiguous_option ''--o'' [''--out'', ''--overwrite''])) ex_world)"
  using pv_cli_ambiguous_abbreviation [of "''clip.mp4''" _ "[''job'', ''-h'']"] by simp

text \<open>
  C25. Round trip: every record of arguments whose paths are not option-like is
  what \<open>parse_args\<close> returns for the command line that spells it out, the frame
  rate written by \<open>str\<close> and read back by \<open>int\<close>.
\<close>

theorem pv_parse_args_render:
  assumes "take 1 (pv_video a) \<noteq> ''-''" and "take 1 (pv_out a) \<noteq> ''-''"
  shows "\<exists>ns. pv_parse_args (pv_render a) = Parsed ns \<and> pv_args_of ns = a"
proof -
  have i: "classify pv_parser (int_str (pv_fps a)) = Inr Tok_arg"
    by (rule classify_int_str [OF pv_parser_flags])
  show ?thesis
    using assms i
    by (simp add: pv_parse_args_def parse_args_def pv_render_def classify_plain pv_parser_classify
                  plain_not_dashdash int_str_not_dashdash)
       (simp add: pv_parser_def help_spec_def convert_def finish_def initial_ns_def pv_args_of_def
                  py_int_int_str)
qed

theorem pv_parse_args_render_witness:
  "take 1 ''clip.mp4'' \<noteq> ''-'' \<and> take 1 ''job'' \<noteq> ''-''
   \<and> pv_render \<lparr>pv_video = ''clip.mp4'', pv_out = ''job'', pv_fps = -3, pv_overwrite = True\<rparr>
       = [''--video'', ''clip.mp4'', ''--out'', ''job'', ''--fps'', ''-3'', ''--overwrite'']
   \<and> (\<exists>ns. pv_parse_args [''--video'', ''clip.mp4'', ''--out'', ''job'', ''--fps'', ''-3'', ''--overwrite''] = Parsed ns
       \<and> pv_args_of ns = \<lparr>pv_video = ''clip.mp4'', pv_out = ''job'', pv_fps = -3, pv_overwrite = True\<rparr>)"
proof -
  have r: "pv_render \<lparr>pv_video = ''clip.mp4'', pv_out = ''job'', pv_fps = -3, pv_overwrite = True\<rparr>
       = [''--video'', ''clip.mp4'', ''--out'', ''job'', ''--fps'', ''-3'', ''--overwrite'']"
    by (simp add: pv_render_def int_str_def nat_str_def digits10.simps digit_char_def)
  from pv_parse_args_render [of "\<lparr>pv_video = ''clip.mp4'', pv_out = ''job'', pv_fps = -3, pv_overwrite = True\<rparr>"] r
  show ?thesis by simp
qed

end
