(* ===== verification/Run_Colmap.thy ===== *)
theory Run_Colmap
  imports Filesystem Decimal
begin

text \<open>
  The reconstruction runner, \<open>src/scripts/run_colmap.py\<close>.  \<open>rc_args\<close> are the
  parsed arguments (\<open>--images\<close>, \<open>--out\<close>, \<open>--matcher\<close>, \<open>--single_camera\<close>,
  \<open>--threads\<close>).  \<open>ensure_colmap\<close> resolves the executable (three bundled
  candidates below \<open>Path(__file__).parents[1]/tools/colmap\<close>, then \<open>PATH\<close>);
  \<open>run_cmd\<close> is the one primitive every stage uses (log, run, raise on a non-zero
  code); \<open>rc_stages\<close> runs feature extraction, matching and mapping as fatal
  stages and the model conversion as a best-effort one (\<open>convert_stage\<close>);
  \<open>rc_main\<close> adds resolution, input validation and directory creation, and
  \<open>rc_entry\<close> is \<open>sys.exit(main())\<close> once the arguments are parsed (the command
  line is in \<open>Run_Colmap_CLI\<close>).
\<close>

record rc_args =
  rc_images :: string
  rc_out :: string
  rc_matcher :: string
  rc_single_camera :: bool
  rc_threads :: int

text \<open>\<open>Path.parents[1]\<close>: the grandparent, or \<open>IndexError\<close> for a path too short.\<close>

definition parents1 :: "path \<Rightarrow> exc + path" where
  "parents1 p = (if 2 \<le> length p then Inr (take (length p - 2) p) else Inl IndexError)"

definition colmap_candidates :: "path \<Rightarrow> path list" where
  "colmap_candidates here =
     (let bundled = here @ [''tools'', ''colmap''] in
      [bundled @ [''COLMAP.bat''], bundled @ [''bin'', ''colmap.exe''], bundled @ [''bin'', ''colmap'']])"

definition ensure_colmap :: "env \<Rightarrow> string py" where
  "ensure_colmap e w =
     (case parents1 (script_file e) of
        Inl x \<Rightarrow> (Inl x, w)
      | Inr here \<Rightarrow>
          (case find (exists (files w)) (colmap_candidates here) of
             Some c \<Rightarrow> (Inr (path_str c), w)
           | None \<Rightarrow>
               (case which (exec_path e) ''colmap'' (files w) of
                  None \<Rightarrow> (Inl (ToolNotFound ''colmap''), w)
                | Some p \<Rightarrow> (Inr p, w))))"

definition run_cmd :: "env \<Rightarrow> string list \<Rightarrow> path option \<Rightarrow> unit py" where
  "run_cmd e cmd cwd w =
     (case py_run e cwd cmd (emit Stdout (Running cmd) w) of
        (Inl x, w') \<Rightarrow> (Inl x, w')
      | (Inr proc, w') \<Rightarrow>
          if returncode proc \<noteq> 0 then
            (Inl (RuntimeError (returncode proc)),
             emit_nonempty Stderr (err_text proc) (emit_nonempty Stdout (out_text proc) w'))
          else (Inr (), w'))"

definition feat_cmd :: "string \<Rightarrow> path \<Rightarrow> path \<Rightarrow> bool \<Rightarrow> string list" where
  "feat_cmd colmap db images single =
     [colmap, ''feature_extractor'', ''--database_path'', path_str db, ''--image_path'', path_str images]
     @ (if single then [''--ImageReader.single_camera'', ''1''] else [])"

definition match_cmd :: "string \<Rightarrow> path \<Rightarrow> string \<Rightarrow> string list" where
  "match_cmd colmap db matcher =
     (if matcher = ''sequential'' then [colmap, ''sequential_matcher'', ''--database_path'', path_str db]
      else [colmap, ''exhaustive_matcher'', ''--database_path'', path_str db])"

definition mapper_cmd :: "string \<Rightarrow> path \<Rightarrow> path \<Rightarrow> path \<Rightarrow> int \<Rightarrow> string list" where
  "mapper_cmd colmap db images sparse_dir threads =
     [colmap, ''mapper'', ''--database_path'', path_str db, ''--image_path'', path_str images,
      ''--output_path'', path_str sparse_dir, ''--Mapper.num_threads'', int_str threads]"

definition converter_cmd :: "string \<Rightarrow> path \<Rightarrow> string list" where
  "converter_cmd colmap model_dir =
     [colmap, ''model_converter'', ''--input_path'', path_str model_dir,
      ''--output_path'', path_str model_dir, ''--output_type'', ''TXT'']"

text \<open>The best-effort stage: every exception of \<open>run_cmd\<close> is caught and reported.\<close>

definition convert_stage :: "env \<Rightarrow> string \<Rightarrow> path \<Rightarrow> world \<Rightarrow> world" where
  "convert_stage e colmap model_dir w =
     (if exists (files w) model_dir then
        (case run_cmd e (converter_cmd colmap model_dir) None w of
           (Inl x, w') \<Rightarrow> emit Stderr (Converter_failed x) w'
         | (Inr u, w') \<Rightarrow> w')
      else w)"

definition rc_stages :: "env \<Rightarrow> rc_args \<Rightarrow> string \<Rightarrow> path \<Rightarrow> path \<Rightarrow> int py" where
  "rc_stages e args colmap images out_root w0 =
     (let db = out_root @ [''database.db'']; sparse_dir = out_root @ [''sparse''] in
      (case run_cmd e (feat_cmd colmap db images (rc_single_camera args)) None w0 of
         (Inl x, w) \<Rightarrow> (Inl x, w)
       | (Inr u1, w1) \<Rightarrow>
          (case run_cmd e (match_cmd colmap db (rc_matcher args)) None w1 of
             (Inl x, w) \<Rightarrow> (Inl x, w)
           | (Inr u2, w2) \<Rightarrow>
              (case run_cmd e (mapper_cmd colmap db images sparse_dir (rc_threads args)) None w2 of
                 (Inl x, w) \<Rightarrow> (Inl x, w)
               | (Inr u3, w3) \<Rightarrow>
                   (let model_dir = sparse_dir @ [''0''] in
                    (Inr 0, emit Stdout (Done model_dir) (convert_stage e colmap model_dir w3)))))))"

definition rc_main :: "env \<Rightarrow> rc_args \<Rightarrow> int py" where
  "rc_main e args w0 =
     (case ensure_colmap e w0 of
        (Inl x, w) \<Rightarrow> (Inl x, w)
      | (Inr colmap, w) \<Rightarrow>
          (let images = resolve e (rc_images args); out_root = resolve e (rc_out args) in
           if \<not> exists (files w) images then (Inr 1, emit Stderr (Images_missing images) w)
           else
             (case py_mkdir True True out_root (files w) of
                Inl x \<Rightarrow> (Inl x, w)
              | Inr fs1 \<Rightarrow>
                  (case py_mkdir False True (out_root @ [''sparse'']) fs1 of
                     Inl x \<Rightarrow> (Inl x, w\<lparr>files := fs1\<rparr>)
                   | Inr fs2 \<Rightarrow> rc_stages e args colmap images out_root (w\<lparr>files := fs2\<rparr>)))))"

definition rc_entry :: "env \<Rightarrow> rc_args \<Rightarrow> world \<Rightarrow> 8 word \<times> world" where
  "rc_entry e args w = py_exit (rc_main e args w)"

text \<open>The four stage commands in pipeline order, as \<open>main\<close> builds them.\<close>

definition stage_cmds :: "string \<Rightarrow> rc_args \<Rightarrow> path \<Rightarrow> path \<Rightarrow> string list list" where
  "stage_cmds colmap args images out_root =
     [feat_cmd colmap (out_root @ [''database.db'']) images (rc_single_camera args),
      match_cmd colmap (out_root @ [''database.db'']) (rc_matcher args),
      mapper_cmd colmap (out_root @ [''database.db'']) images (out_root @ [''sparse'']) (rc_threads args),
      converter_cmd colmap (out_root @ [''sparse'', ''0''])]"



text \<open>Every launched child is immediately preceded by its \<open>Running:\<close> line.\<close>

definition logged_execs :: "event list \<Rightarrow> bool" where
  "logged_execs t \<longleftrightarrow>
     (\<forall>i < length t. \<forall>cwd cmd. t ! i = Exec cwd cmd \<longrightarrow> 0 < i \<and> t ! (i - 1) = Print Stdout (Running cmd))"

subsection \<open>An example installation\<close>

text \<open>
  LiteGS installed under \<open>/opt/litegs\<close> with a bundled POSIX colmap binary, a job
  directory \<open>/job\<close> with one frame, and a colmap that fails exactly the stage whose
  subcommand is \<open>bad\<close> (feature extraction creates the database, mapping the
  model directory \<open>sparse/0\<close>).  The arguments are the specification's example
  \<open>--matcher sequential --single_camera --threads 4\<close>.
\<close>

definition ex_rc_fs :: fs where
  "ex_rc_fs =
     [([''opt''], Dir), ([''opt'', ''litegs''], Dir), ([''opt'', ''litegs'', ''tools''], Dir),
      ([''opt'', ''litegs'', ''tools'', ''colmap''], Dir),
      ([''opt'', ''litegs'', ''tools'', ''colmap'', ''bin''], Dir),
      ([''opt'', ''litegs'', ''tools'', ''colmap'', ''bin'', ''colmap''], File True),
      ([''job''], Dir), ([''job'', ''images''], Dir), ([''job'', ''images'', ''frame_00001.png''], File False)]"

definition ex_colmap :: "string \<Rightarrow> runner" where
  "ex_colmap bad cwd cmd fs =
     (if cmd ! 1 = bad then Inr (\<lparr>returncode = 1, out_text = [], err_text = ''error''\<rparr>, fs)
      else Inr (\<lparr>returncode = 0, out_text = [], err_text = []\<rparr>,
                if cmd ! 1 = ''feature_extractor'' then put_node [''job'', ''database.db''] (File False) fs
                else if cmd ! 1 = ''mapper'' then put_node [''job'', ''sparse'', ''0''] Dir fs
                else fs))"

definition ex_rc_env :: "runner \<Rightarrow> env" where
  "ex_rc_env r =
     \<lparr>resolve = (\<lambda>s. if s = ''images'' then [''job'', ''images''] else [''job'']),
      exec_path = [[''usr'', ''bin'']], run = r,
      script_file = [''opt'', ''litegs'', ''scripts'', ''run_colmap.py'']\<rparr>"

definition ex_rc_args :: rc_args where
  "ex_rc_args =
     \<lparr>rc_images = ''images'', rc_out = ''job'', rc_matcher = ''sequential'', rc_single_camera = True,
      rc_threads = 4\<rparr>"

definition ex_rc_world :: world where
  "ex_rc_world = \<lparr>files = ex_rc_fs, trace = []\<rparr>"

definition ex_colmap_exe :: string where
  "ex_colmap_exe = ''/opt/litegs/tools/colmap/bin/colmap''"

section \<open>run_cmd\<close>

lemma run_cmd_cases:
  assumes "run_cmd e cmd cwd w = (r, w')"
  shows "(\<exists>x. run e cwd cmd (files w) = Inl x \<and> r = Inl x \<and> w' = emit Stdout (Running cmd) w)
    \<or> (\<exists>proc fs'. run e cwd cmd (files w) = Inr (proc, fs') \<and> returncode proc \<noteq> 0
         \<and> r = Inl (RuntimeError (returncode proc))
         \<and> w' = emit_nonempty Stderr (err_text proc) (emit_nonempty Stdout (out_text proc)
                 (w\<lparr>files := fs', trace := trace w @ [Print Stdout (Running cmd), Exec cwd cmd]\<rparr>)))
    \<or> (\<exists>proc fs'. run e cwd cmd (files w) = Inr (proc, fs') \<and> returncode proc = 0 \<and> r = Inr ()
         \<and> w' = w\<lparr>files := fs', trace := trace w @ [Print Stdout (Running cmd), Exec cwd cmd]\<rparr>)"
  using assms
  by (auto simp: run_cmd_def py_run_def emit_def split: sum.splits prod.splits if_splits)

lemma run_cmd_execs:
  "run_cmd e cmd cwd w = (r, w') \<Longrightarrow>
   execs (trace w') = execs (trace w) @ (if \<exists>x. run e cwd cmd (files w) = Inl x then [] else [(cwd, cmd)])"
  by (drule run_cmd_cases) (auto simp: emit_nonempty_trace)

lemma run_cmd_Inr_execs:
  "run_cmd e cmd cwd w = (Inr u, w') \<Longrightarrow> execs (trace w') = execs (trace w) @ [(cwd, cmd)]"
  by (drule run_cmd_cases) auto

lemma convert_stage_execs:
  "execs (trace (convert_stage e c m w)) = execs (trace w)
   \<or> execs (trace (convert_stage e c m w)) = execs (trace w) @ [(None, converter_cmd c m)]"
  by (auto simp: convert_stage_def dest!: run_cmd_execs split: prod.splits sum.splits if_splits)

section \<open>The order of the stages\<close>

lemma stage_ok_execs:
  assumes "execs (trace w1) = xs @ map (Pair None) (take i cs)" and "i < length cs"
    and "run_cmd e (cs ! i) None w1 = (Inr u, w2)"
  shows "execs (trace w2) = xs @ map (Pair None) (take (Suc i) cs)"
  using assms run_cmd_Inr_execs [OF assms(3)] by (simp add: take_Suc_conv_app_nth)

lemma stage_fail_execs:
  assumes "execs (trace w1) = xs @ map (Pair None) (take i cs)" and "i < length cs"
    and "run_cmd e (cs ! i) None w1 = (Inl x, w2)"
  shows "\<exists>k \<le> Suc i. execs (trace w2) = xs @ map (Pair None) (take k cs)"
proof -
  from run_cmd_execs [OF assms(3)] assms(1,2)
  have "execs (trace w2) = xs @ map (Pair None) (take i cs)
        \<or> execs (trace w2) = xs @ map (Pair None) (take (Suc i) cs)"
    by (auto simp: take_Suc_conv_app_nth split: if_splits)
  then show ?thesis by (metis le_SucI order_refl)
qed

lemma stage_fail_outcome:
  assumes "execs (trace w1) = xs @ map (Pair None) (take i cs)" and "i < 3" and "length cs = 4"
    and "run_cmd e (cs ! i) None w1 = (Inl x, w2)"
  shows "\<exists>k. execs (trace w2) = xs @ map (Pair None) (take k cs) \<and> k \<le> 4
           \<and> ((Inl x :: exc + int) = Inr 0 \<longrightarrow> 3 \<le> k) \<and> (k = 4 \<longrightarrow> (Inl x :: exc + int) = Inr 0)
           \<and> (Inl x :: exc + int) \<noteq> Inr 1"
proof -
  from stage_fail_execs [OF assms(1) _ assms(4)] assms(2,3)
  obtain k where "k \<le> Suc i" "execs (trace w2) = xs @ map (Pair None) (take k cs)" by auto
  with assms(2) show ?thesis by (intro exI [of _ k]) simp
qed

lemma conversion_outcome:
  assumes "execs (trace w3) = xs @ map (Pair None) (take 3 cs)" and "length cs = 4"
    and "cs ! 3 = converter_cmd c m"
  shows "\<exists>k. execs (trace (emit Stdout (Done m) (convert_stage e c m w3))) = xs @ map (Pair None) (take k cs)
           \<and> 3 \<le> k \<and> k \<le> 4"
proof -
  have "take 4 cs = take 3 cs @ [converter_cmd c m]"
    using assms(2,3) take_Suc_conv_app_nth [of 3 cs] by (simp add: numeral_eq_Suc)
  from convert_stage_execs [of e c m w3] show ?thesis
  proof
    assume "execs (trace (convert_stage e c m w3)) = execs (trace w3)"
    with assms(1) show ?thesis by (intro exI [of _ 3]) simp
  next
    assume "execs (trace (convert_stage e c m w3)) = execs (trace w3) @ [(None, converter_cmd c m)]"
    with assms(1) \<open>take 4 cs = take 3 cs @ [converter_cmd c m]\<close> show ?thesis
      by (intro exI [of _ 4]) simp
  qed
qed

lemma rc_stages_execs:
  assumes res: "rc_stages e args colmap images out_root w = (r, w')"
  shows "\<exists>k. execs (trace w') = execs (trace w) @ map (Pair None) (take k (stage_cmds colmap args images out_root))
           \<and> k \<le> 4 \<and> (r = Inr 0 \<longrightarrow> 3 \<le> k) \<and> (k = 4 \<longrightarrow> r = Inr 0) \<and> r \<noteq> Inr 1"
proof -
  let ?cs = "stage_cmds colmap args images out_root"
  let ?md = "out_root @ [''sparse'', ''0'']"
  have cs: "?cs ! 0 = feat_cmd colmap (out_root @ [''database.db'']) images (rc_single_camera args)"
    "?cs ! 1 = match_cmd colmap (out_root @ [''database.db'']) (rc_matcher args)"
    "?cs ! 2 = mapper_cmd colmap (out_root @ [''database.db'']) images (out_root @ [''sparse'']) (rc_threads args)"
    "?cs ! 3 = converter_cmd colmap ?md" "length ?cs = 4"
    by (simp_all add: stage_cmds_def)
  have e0: "execs (trace w) = execs (trace w) @ map (Pair None) (take 0 ?cs)" by simp
  obtain r1 w1 where s1: "run_cmd e (?cs ! 0) None w = (r1, w1)" by fastforce
  obtain r2 w2 where s2: "run_cmd e (?cs ! 1) None w1 = (r2, w2)" by fastforce
  obtain r3 w3 where s3: "run_cmd e (?cs ! 2) None w2 = (r3, w3)" by fastforce
  show ?thesis
  proof (cases r1)
    case (Inl x)
    with s1 res cs have "r = Inl x" "w' = w1" by (simp_all add: rc_stages_def)
    with stage_fail_outcome [OF e0 _ cs(5) s1 [unfolded Inl]] show ?thesis by simp
  next
    case r1: (Inr u1)
    have e1: "execs (trace w1) = execs (trace w) @ map (Pair None) (take 1 ?cs)"
      using stage_ok_execs [OF e0 _ s1 [unfolded r1]] cs by simp
    show ?thesis
    proof (cases r2)
      case (Inl x)
      with s1 s2 r1 res cs have "r = Inl x" "w' = w2" by (simp_all add: rc_stages_def)
      with stage_fail_outcome [OF e1 _ cs(5) s2 [unfolded Inl]] show ?thesis by simp
    next
      case r2: (Inr u2)
      have e2: "execs (trace w2) = execs (trace w) @ map (Pair None) (take 2 ?cs)"
        using stage_ok_execs [OF e1 _ s2 [unfolded r2]] cs by (simp add: numeral_2_eq_2)
      show ?thesis
      proof (cases r3)
        case (Inl x)
        with s1 s2 s3 r1 r2 res cs have "r = Inl x" "w' = w3" by (simp_all add: rc_stages_def)
        with stage_fail_outcome [OF e2 _ cs(5) s3 [unfolded Inl]] show ?thesis by simp
      next
        case (Inr u3)
        have e3: "execs (trace w3) = execs (trace w) @ map (Pair None) (take 3 ?cs)"
          using stage_ok_execs [OF e2 _ s3 [unfolded Inr]] cs by (simp add: numeral_3_eq_3)
        from s1 s2 s3 r1 r2 Inr res cs
        have "r = Inr 0" and "w' = emit Stdout (Done ?md) (convert_stage e colmap ?md w3)"
          by (simp_all add: rc_stages_def Let_def)
        with conversion_outcome [OF e3 cs(5,4)] show ?thesis by auto
      qed
    qed
  qed
qed

lemma run_cmd_ok:
  "run e cwd cmd (files w) = Inr (p, fs') \<Longrightarrow> returncode p = 0 \<Longrightarrow>
   run_cmd e cmd cwd w = (Inr (), w\<lparr>files := fs', trace := trace w @ [Print Stdout (Running cmd), Exec cwd cmd]\<rparr>)"
  by (simp add: run_cmd_def py_run_def emit_def)

lemma run_cmd_nonzero:
  "run e cwd cmd (files w) = Inr (p, fs') \<Longrightarrow> returncode p \<noteq> 0 \<Longrightarrow>
   run_cmd e cmd cwd w = (Inl (RuntimeError (returncode p)),
     emit_nonempty Stderr (err_text p) (emit_nonempty Stdout (out_text p)
       (w\<lparr>files := fs', trace := trace w @ [Print Stdout (Running cmd), Exec cwd cmd]\<rparr>)))"
  by (simp add: run_cmd_def py_run_def emit_def)

lemma run_cmd_spawn_error:
  "run e cwd cmd (files w) = Inl x \<Longrightarrow> run_cmd e cmd cwd w = (Inl x, emit Stdout (Running cmd) w)"
  by (simp add: run_cmd_def py_run_def)

lemma rc_stages_after_mapping:
  assumes "run e None (feat_cmd c (out_root @ [''database.db'']) images (rc_single_camera args)) (files w) = Inr (p1, fs1)"
      and "returncode p1 = 0"
      and "run e None (match_cmd c (out_root @ [''database.db'']) (rc_matcher args)) fs1 = Inr (p2, fs2)"
      and "returncode p2 = 0"
      and "run e None (mapper_cmd c (out_root @ [''database.db'']) images (out_root @ [''sparse'']) (rc_threads args)) fs2
           = Inr (p3, fs3)"
      and "returncode p3 = 0"
  shows "rc_stages e args c images out_root w =
           (Inr 0, emit Stdout (Done (out_root @ [''sparse'', ''0'']))
                     (convert_stage e c (out_root @ [''sparse'', ''0''])
                        (w\<lparr>files := fs3, trace := trace w @
                           concat (map (\<lambda>cmd. [Print Stdout (Running cmd), Exec None cmd])
                             (take 3 (stage_cmds c args images out_root)))\<rparr>)))"
  using assms
  by (simp add: rc_stages_def run_cmd_ok stage_cmds_def Let_def)

lemma convert_stage_ok:
  assumes "exists (files w) m" and "run e None (converter_cmd c m) (files w) = Inr (p, f)"
    and "returncode p = 0"
  shows "convert_stage e c m w =
           w\<lparr>files := f, trace := trace w @ [Print Stdout (Running (converter_cmd c m)), Exec None (converter_cmd c m)]\<rparr>"
  using assms by (simp add: convert_stage_def run_cmd_ok)

lemma ensure_colmap_world: "ensure_colmap e w = (r, w') \<Longrightarrow> w' = w"
  by (auto simp: ensure_colmap_def split: sum.splits option.splits)

lemma rc_main_early:
  assumes "rc_main e args w = (r, w')"
  shows "(execs (trace w') = execs (trace w) \<and> r \<noteq> Inr 0)
    \<or> (\<exists>colmap fs2. ensure_colmap e w = (Inr colmap, w)
         \<and> rc_stages e args colmap (resolve e (rc_images args)) (resolve e (rc_out args)) (w\<lparr>files := fs2\<rparr>) = (r, w'))"
  using assms ensure_colmap_world [of e w]
  by (auto simp: rc_main_def Let_def split: prod.splits sum.splits if_splits)

lemma rc_main_Inr: "rc_main e args w = (Inr n, w') \<Longrightarrow> n = 0 \<or> n = 1"
  by (auto simp: rc_main_def rc_stages_def Let_def split: prod.splits sum.splits if_splits)

lemma rc_entry_range: "fst (rc_entry e args w) \<in> {0, 1}"
proof (cases "rc_main e args w")
  case (Pair r w')
  then show ?thesis
    by (cases r) (auto simp: rc_entry_def py_exit_def dest: rc_main_Inr)
qed

lemma ensure_colmap_grows:
  assumes g: "grows (files w) (files w')" and tool: "ensure_colmap e w = (Inr c, w)"
  shows "\<exists>c'. ensure_colmap e w' = (Inr c', w')"
proof (cases "parents1 (script_file e)")
  case (Inl x)
  with tool show ?thesis by (simp add: ensure_colmap_def)
next
  case (Inr here)
  show ?thesis
  proof (cases "find (exists (files w')) (colmap_candidates here)")
    case None
    then have "find (exists (files w)) (colmap_candidates here) = None"
      using exists_grows [OF g] by (auto simp: find_None_iff)
    with tool Inr have "which (exec_path e) ''colmap'' (files w) \<noteq> None"
      by (auto simp: ensure_colmap_def split: option.splits)
    with which_grows [OF g] obtain p where "which (exec_path e) ''colmap'' (files w') = Some p"
      by blast
    with Inr None show ?thesis by (simp add: ensure_colmap_def)
  qed (simp add: ensure_colmap_def Inr)
qed

lemma rc_main_Inr0_steps:
  assumes "rc_main e args w = (Inr 0, w1)"
  shows "\<exists>c fs1 fs2. ensure_colmap e w = (Inr c, w) \<and> exists (files w) (resolve e (rc_images args))
           \<and> py_mkdir True True (resolve e (rc_out args)) (files w) = Inr fs1
           \<and> py_mkdir False True (resolve e (rc_out args) @ [''sparse'']) fs1 = Inr fs2
           \<and> rc_stages e args c (resolve e (rc_images args)) (resolve e (rc_out args)) (w\<lparr>files := fs2\<rparr>) = (Inr 0, w1)"
  using assms ensure_colmap_world [of e w]
  by (auto simp: rc_main_def Let_def split: prod.splits sum.splits if_splits)

lemma rc_main_launch_prefix:
  assumes "rc_main e args w = (r, w')"
  shows "\<exists>colmap k. execs (trace w') = execs (trace w) @
              map (Pair None) (take k (stage_cmds colmap args (resolve e (rc_images args)) (resolve e (rc_out args))))
           \<and> k \<le> 4 \<and> (r = Inr 0 \<longrightarrow> 3 \<le> k) \<and> (k = 4 \<longrightarrow> r = Inr 0)"
  using rc_main_early [OF assms]
proof
  assume "execs (trace w') = execs (trace w) \<and> r \<noteq> Inr 0"
  then show ?thesis by (intro exI [of _ "[]"] exI [of _ 0]) simp
next
  assume "\<exists>colmap fs2. ensure_colmap e w = (Inr colmap, w)
         \<and> rc_stages e args colmap (resolve e (rc_images args)) (resolve e (rc_out args)) (w\<lparr>files := fs2\<rparr>) = (r, w')"
  then obtain colmap fs2 where
    "rc_stages e args colmap (resolve e (rc_images args)) (resolve e (rc_out args)) (w\<lparr>files := fs2\<rparr>) = (r, w')"
    by blast
  from rc_stages_execs [OF this] show ?thesis by auto
qed

text \<open>
  C3. Whatever the tools do, the children \<open>main\<close> launches are a prefix of
  feature extraction, matching, mapping, conversion, in that order; a successful
  run launched at least the first three, and the converter is launched only on a
  run that succeeds.
\<close>

theorem rc_main_stage_order:
  assumes "rc_main e args w = (r, w')"
  shows "\<exists>colmap k. execs (trace w') = execs (trace w) @
              map (Pair None) (take k (stage_cmds colmap args (resolve e (rc_images args)) (resolve e (rc_out args))))
           \<and> k \<le> 4 \<and> (r = Inr 0 \<longrightarrow> 3 \<le> k) \<and> (k = 4 \<longrightarrow> r = Inr 0)"
  using rc_main_launch_prefix [OF assms] .

theorem rc_main_stage_order_witness:
  "fst (rc_main (ex_rc_env (ex_colmap ''none'')) ex_rc_args ex_rc_world) = Inr 0
   \<and> (\<exists>colmap k. execs (trace (snd (rc_main (ex_rc_env (ex_colmap ''none'')) ex_rc_args ex_rc_world))) =
          execs (trace ex_rc_world) @ map (Pair None) (take k (stage_cmds colmap ex_rc_args
             (resolve (ex_rc_env (ex_colmap ''none'')) (rc_images ex_rc_args))
             (resolve (ex_rc_env (ex_colmap ''none'')) (rc_out ex_rc_args))))
        \<and> k \<le> 4 \<and> (fst (rc_main (ex_rc_env (ex_colmap ''none'')) ex_rc_args ex_rc_world) = Inr 0 \<longrightarrow> 3 \<le> k)
        \<and> (k = 4 \<longrightarrow> fst (rc_main (ex_rc_env (ex_colmap ''none'')) ex_rc_args ex_rc_world) = Inr 0))"
proof -
  have run: "fst (rc_main (ex_rc_env (ex_colmap ''none'')) ex_rc_args ex_rc_world) = Inr 0"
    by code_simp
  have "rc_main (ex_rc_env (ex_colmap ''none'')) ex_rc_args ex_rc_world =
        (fst (rc_main (ex_rc_env (ex_colmap ''none'')) ex_rc_args ex_rc_world),
         snd (rc_main (ex_rc_env (ex_colmap ''none'')) ex_rc_args ex_rc_world))"
    by simp
  from run rc_main_stage_order [OF this] show ?thesis by blast
qed

text \<open>
  C1. If the mapper fails (non-zero exit), the pipeline raises the
  \<open>RuntimeError\<close> carrying the mapper's code and never launches the model
  converter: exactly the three fatal stages were launched.
\<close>

theorem rc_stages_mapping_failure:
  assumes "run e None (feat_cmd c (out_root @ [''database.db'']) images (rc_single_camera args)) (files w) = Inr (p1, fs1)"
      and "returncode p1 = 0"
      and "run e None (match_cmd c (out_root @ [''database.db'']) (rc_matcher args)) fs1 = Inr (p2, fs2)"
      and "returncode p2 = 0"
      and "run e None (mapper_cmd c (out_root @ [''database.db'']) images (out_root @ [''sparse'']) (rc_threads args)) fs2
           = Inr (p3, fs3)"
      and "returncode p3 \<noteq> 0"
  shows "fst (rc_stages e args c images out_root w) = Inl (RuntimeError (returncode p3))
    \<and> execs (trace (snd (rc_stages e args c images out_root w)))
        = execs (trace w) @ map (Pair None) (take 3 (stage_cmds c args images out_root))"
  using assms
  by (simp add: rc_stages_def run_cmd_ok run_cmd_nonzero stage_cmds_def Let_def emit_nonempty_trace)

theorem rc_stages_mapping_failure_witness:
  "fst (rc_stages (ex_rc_env (ex_colmap ''mapper'')) ex_rc_args ex_colmap_exe [''job'', ''images''] [''job''] ex_rc_world)
     = Inl (RuntimeError 1)
   \<and> execs (trace (snd (rc_stages (ex_rc_env (ex_colmap ''mapper'')) ex_rc_args ex_colmap_exe [''job'', ''images'']
                          [''job''] ex_rc_world)))
     = execs (trace ex_rc_world) @ map (Pair None) (take 3 (stage_cmds ex_colmap_exe ex_rc_args [''job'', ''images''] [''job'']))"
proof -
  let ?e = "ex_rc_env (ex_colmap ''mapper'')"
  let ?fs1 = "put_node [''job'', ''database.db''] (File False) ex_rc_fs"
  let ?ok = "\<lparr>returncode = 0, out_text = [], err_text = []\<rparr> :: completed"
  let ?bad = "\<lparr>returncode = 1, out_text = [], err_text = ''error''\<rparr> :: completed"
  have h1: "run ?e None (feat_cmd ex_colmap_exe ([''job''] @ [''database.db'']) [''job'', ''images''] (rc_single_camera ex_rc_args))
              (files ex_rc_world) = Inr (?ok, ?fs1)"
    by (simp add: ex_rc_env_def ex_colmap_def feat_cmd_def ex_rc_world_def)
  have h2: "returncode ?ok = 0" by simp
  have h3: "run ?e None (match_cmd ex_colmap_exe ([''job''] @ [''database.db'']) (rc_matcher ex_rc_args)) ?fs1 = Inr (?ok, ?fs1)"
    by (simp add: ex_rc_env_def ex_colmap_def match_cmd_def ex_rc_args_def)
  have h5: "run ?e None (mapper_cmd ex_colmap_exe ([''job''] @ [''database.db'']) [''job'', ''images''] ([''job''] @ [''sparse''])
              (rc_threads ex_rc_args)) ?fs1 = Inr (?bad, ?fs1)"
    by (simp add: ex_rc_env_def ex_colmap_def mapper_cmd_def)
  have h6: "returncode ?bad \<noteq> 0" by simp
  from rc_stages_mapping_failure [OF h1 h2 h3 h2 h5 h6] show ?thesis by simp
qed

text \<open>
  C2. If the first three stages succeed, the model directory exists and the
  converter fails (it cannot be started, or exits non-zero), the failure is
  reported on stderr and the pipeline still returns 0 after announcing the
  model directory.
\<close>

theorem rc_stages_conversion_failure_absorbed:
  assumes "run e None (feat_cmd c (out_root @ [''database.db'']) images (rc_single_camera args)) (files w) = Inr (p1, fs1)"
      and "returncode p1 = 0"
      and "run e None (match_cmd c (out_root @ [''database.db'']) (rc_matcher args)) fs1 = Inr (p2, fs2)"
      and "returncode p2 = 0"
      and "run e None (mapper_cmd c (out_root @ [''database.db'']) images (out_root @ [''sparse'']) (rc_threads args)) fs2
           = Inr (p3, fs3)"
      and "returncode p3 = 0"
      and "exists fs3 (out_root @ [''sparse'', ''0''])"
      and "(\<exists>x. run e None (converter_cmd c (out_root @ [''sparse'', ''0''])) fs3 = Inl x)
           \<or> (\<exists>p4 fs4. run e None (converter_cmd c (out_root @ [''sparse'', ''0''])) fs3 = Inr (p4, fs4)
                       \<and> returncode p4 \<noteq> 0)"
  shows "\<exists>x w4. rc_stages e args c images out_root w =
           (Inr 0, emit Stdout (Done (out_root @ [''sparse'', ''0''])) (emit Stderr (Converter_failed x) w4))"
  using assms(8)
proof
  assume "\<exists>x. run e None (converter_cmd c (out_root @ [''sparse'', ''0''])) fs3 = Inl x"
  then obtain x where "run e None (converter_cmd c (out_root @ [''sparse'', ''0''])) fs3 = Inl x" by blast
  with rc_stages_after_mapping [OF assms(1-6)] assms(7) show ?thesis
    by (simp add: convert_stage_def run_cmd_spawn_error) (rule exI, rule exI, rule refl)
next
  assume "\<exists>p4 fs4. run e None (converter_cmd c (out_root @ [''sparse'', ''0''])) fs3 = Inr (p4, fs4)
                       \<and> returncode p4 \<noteq> 0"
  then obtain p4 fs4 where "run e None (converter_cmd c (out_root @ [''sparse'', ''0''])) fs3 = Inr (p4, fs4)"
    and "returncode p4 \<noteq> 0" by blast
  with rc_stages_after_mapping [OF assms(1-6)] assms(7) show ?thesis
    by (simp add: convert_stage_def run_cmd_nonzero) (rule exI, rule exI, rule refl)
qed

theorem rc_stages_conversion_failure_absorbed_witness:
  "\<exists>x w4. rc_stages (ex_rc_env (ex_colmap ''model_converter'')) ex_rc_args ex_colmap_exe [''job'', ''images''] [''job''] ex_rc_world =
           (Inr 0, emit Stdout (Done ([''job''] @ [''sparse'', ''0''])) (emit Stderr (Converter_failed x) w4))"
proof -
  let ?e = "ex_rc_env (ex_colmap ''model_converter'')"
  let ?fs1 = "put_node [''job'', ''database.db''] (File False) ex_rc_fs"
  let ?fs3 = "put_node [''job'', ''sparse'', ''0''] Dir ?fs1"
  let ?ok = "\<lparr>returncode = 0, out_text = [], err_text = []\<rparr> :: completed"
  let ?bad = "\<lparr>returncode = 1, out_text = [], err_text = ''error''\<rparr> :: completed"
  have h1: "run ?e None (feat_cmd ex_colmap_exe ([''job''] @ [''database.db'']) [''job'', ''images''] (rc_single_camera ex_rc_args))
              (files ex_rc_world) = Inr (?ok, ?fs1)"
    by (simp add: ex_rc_env_def ex_colmap_def feat_cmd_def ex_rc_world_def)
  have h2: "returncode ?ok = 0" by simp
  have h3: "run ?e None (match_cmd ex_colmap_exe ([''job''] @ [''database.db'']) (rc_matcher ex_rc_args)) ?fs1 = Inr (?ok, ?fs1)"
    by (simp add: ex_rc_env_def ex_colmap_def match_cmd_def ex_rc_args_def)
  have h5: "run ?e None (mapper_cmd ex_colmap_exe ([''job''] @ [''database.db'']) [''job'', ''images''] ([''job''] @ [''sparse''])
              (rc_threads ex_rc_args)) ?fs1 = Inr (?ok, ?fs3)"
    by (simp add: ex_rc_env_def ex_colmap_def mapper_cmd_def)
  have h7: "exists ?fs3 ([''job''] @ [''sparse'', ''0''])"
    by (simp add: exists_def lookup_def put_node_def ex_rc_fs_def)
  have h8: "(\<exists>x. run ?e None (converter_cmd ex_colmap_exe ([''job''] @ [''sparse'', ''0''])) ?fs3 = Inl x)
           \<or> (\<exists>p4 fs4. run ?e None (converter_cmd ex_colmap_exe ([''job''] @ [''sparse'', ''0''])) ?fs3 = Inr (p4, fs4)
                       \<and> returncode p4 \<noteq> 0)"
    by (simp add: ex_rc_env_def ex_colmap_def converter_cmd_def)
  show ?thesis by (rule rc_stages_conversion_failure_absorbed [OF h1 h2 h3 h2 h5 h2 h7 h8])
qed

text \<open>
  C11. The 8-bit exit status of \<open>run_colmap.py\<close> is 0 exactly when \<open>main\<close>
  returned 0: every other outcome (return 1, uncaught exception) gives a non-zero
  status.
\<close>

theorem rc_entry_status:
  "fst (rc_entry e args w) = 0 \<longleftrightarrow> fst (rc_main e args w) = Inr 0"
proof (cases "rc_main e args w")
  case (Pair r w')
  show ?thesis
  proof (cases r)
    case (Inl x)
    with Pair show ?thesis by (simp add: rc_entry_def py_exit_def)
  next
    case (Inr n)
    with Pair rc_main_Inr have "n = 0 \<or> n = 1" by blast
    with Pair Inr show ?thesis by (auto simp: rc_entry_def py_exit_def)
  qed
qed

section \<open>Resolution of the executable\<close>



section \<open>Every launch is logged first\<close>

lemma logged_execs_snoc_print [simp]: "logged_execs (t @ [Print s m]) \<longleftrightarrow> logged_execs t"
  by (auto simp: logged_execs_def nth_append less_Suc_eq)

lemma logged_execs_snoc_run [simp]:
  "logged_execs t \<Longrightarrow> logged_execs (t @ [Print Stdout (Running c), Exec cwd c])"
  by (auto simp: logged_execs_def nth_append less_Suc_eq)

lemma logged_emit: "logged_execs (trace (emit s m w)) \<longleftrightarrow> logged_execs (trace w)"
  by simp

lemma logged_emit_nonempty: "logged_execs (trace (emit_nonempty s t w)) \<longleftrightarrow> logged_execs (trace w)"
  by (simp add: emit_nonempty_def)

lemma logged_run_step:
  "logged_execs (trace w) \<Longrightarrow>
   logged_execs (trace (w\<lparr>files := fs', trace := trace w @ [Print Stdout (Running c), Exec cwd c]\<rparr>))"
  by simp

lemma run_cmd_logged:
  assumes "run_cmd e c cwd w = (r, w')" and "logged_execs (trace w)"
  shows "logged_execs (trace w')"
  using run_cmd_cases [OF assms(1)] assms(2)
  by (elim disjE exE conjE) (simp_all only: logged_emit logged_emit_nonempty logged_run_step)

lemma convert_stage_logged:
  "logged_execs (trace w) \<Longrightarrow> logged_execs (trace (convert_stage e c m w))"
  by (auto simp: convert_stage_def dest: run_cmd_logged split: prod.splits sum.splits)

lemma rc_stages_logged:
  "rc_stages e args c i ro w = (r, w') \<Longrightarrow> logged_execs (trace w) \<Longrightarrow> logged_execs (trace w')"
  by (auto simp: rc_stages_def Let_def split: prod.splits sum.splits)
     (blast intro: run_cmd_logged convert_stage_logged)+

lemma rc_main_logged:
  "rc_main e args w = (r, w') \<Longrightarrow> logged_execs (trace w) \<Longrightarrow> logged_execs (trace w')"
  using ensure_colmap_world [of e w]
  by (auto simp: rc_main_def Let_def dest: rc_stages_logged
           split: prod.splits sum.splits if_splits)

text \<open>
  C8. Every child the script launches is preceded, immediately, by its
  \<open>Running:\<close> line on stdout: the invariant holds of every trace the script
  extends.
\<close>

theorem rc_entry_logs_before_launch:
  "logged_execs (trace w) \<Longrightarrow> rc_entry e args w = (s, w') \<Longrightarrow> logged_execs (trace w')"
  by (auto simp: rc_entry_def py_exit_def dest: rc_main_logged split: prod.splits sum.splits)

theorem rc_entry_logs_before_launch_witness:
  "logged_execs (trace ex_rc_world)
   \<and> logged_execs (trace (snd (rc_entry (ex_rc_env (ex_colmap ''none'')) ex_rc_args ex_rc_world)))"
proof -
  have h: "logged_execs (trace ex_rc_world)" by (simp add: logged_execs_def ex_rc_world_def)
  have "rc_entry (ex_rc_env (ex_colmap ''none'')) ex_rc_args ex_rc_world =
        (fst (rc_entry (ex_rc_env (ex_colmap ''none'')) ex_rc_args ex_rc_world),
         snd (rc_entry (ex_rc_env (ex_colmap ''none'')) ex_rc_args ex_rc_world))"
    by simp
  from h rc_entry_logs_before_launch [OF h this] show ?thesis by blast
qed

section \<open>Error paths before any stage\<close>

text \<open>
  C15. When no colmap is bundled and none is on \<open>PATH\<close>, the script stops
  with the uncaught \<open>FileNotFoundError\<close> (status 1) before touching anything.
\<close>

theorem rc_entry_tool_missing:
  assumes "parents1 (script_file e) = Inr here"
    and "\<forall>c \<in> set (colmap_candidates here). \<not> exists (files w) c"
    and "which (exec_path e) ''colmap'' (files w) = None"
  shows "rc_entry e args w = (1, emit Stderr (Traceback (ToolNotFound ''colmap'')) w)"
proof -
  from assms(2) have "find (exists (files w)) (colmap_candidates here) = None"
    by (simp add: find_None_iff)
  with assms(1,3) show ?thesis
    by (simp add: rc_entry_def rc_main_def ensure_colmap_def py_exit_def)
qed

theorem rc_entry_tool_missing_witness:
  "rc_entry (ex_rc_env (ex_colmap ''none'')) ex_rc_args \<lparr>files = [([''job''], Dir)], trace = []\<rparr>
   = (1, emit Stderr (Traceback (ToolNotFound ''colmap'')) \<lparr>files = [([''job''], Dir)], trace = []\<rparr>)"
proof -
  let ?e = "ex_rc_env (ex_colmap ''none'')" and ?w = "\<lparr>files = [([''job''], Dir)], trace = []\<rparr>"
  have h1: "parents1 (script_file ?e) = Inr [''opt'', ''litegs'']"
    by (simp add: parents1_def ex_rc_env_def)
  have h2: "\<forall>c \<in> set (colmap_candidates [''opt'', ''litegs'']). \<not> exists (files ?w) c"
    by (simp add: colmap_candidates_def exists_def lookup_def)
  have h3: "which (exec_path ?e) ''colmap'' (files ?w) = None"
    by (simp add: which_def ex_rc_env_def lookup_def)
  show ?thesis by (rule rc_entry_tool_missing [OF h1 h2 h3])
qed

text \<open>
  C16. A missing images folder: \<open>main\<close> returns 1 after one line on stderr,
  creates no directory and launches nothing.
\<close>

theorem rc_main_images_missing:
  assumes "ensure_colmap e w = (Inr c, w)"
    and "\<not> exists (files w) (resolve e (rc_images args))"
  shows "rc_main e args w = (Inr 1, emit Stderr (Images_missing (resolve e (rc_images args))) w)"
  using assms by (simp add: rc_main_def)

theorem rc_main_images_missing_witness:
  "rc_main (ex_rc_env (ex_colmap ''none'')) ex_rc_args (ex_rc_world\<lparr>files := take 6 ex_rc_fs\<rparr>)
   = (Inr 1, emit Stderr (Images_missing [''job'', ''images'']) (ex_rc_world\<lparr>files := take 6 ex_rc_fs\<rparr>))"
proof -
  let ?e = "ex_rc_env (ex_colmap ''none'')" and ?w = "ex_rc_world\<lparr>files := take 6 ex_rc_fs\<rparr>"
  have h1: "ensure_colmap ?e ?w = (Inr ex_colmap_exe, ?w)"
    by (simp add: ensure_colmap_def parents1_def ex_rc_env_def colmap_candidates_def exists_def lookup_def
                  ex_rc_fs_def ex_colmap_exe_def path_str_def)
  have h2: "\<not> exists (files ?w) (resolve ?e (rc_images ex_rc_args))"
    by (simp add: exists_def lookup_def ex_rc_fs_def ex_rc_env_def ex_rc_args_def)
  from rc_main_images_missing [OF h1 h2] show ?thesis by (simp add: ex_rc_env_def ex_rc_args_def)
qed

section \<open>The file system across a run\<close>

text \<open>
  A relation between file systems that every child process respects and that is
  reflexive and transitive (the invariant, or \<open>grows\<close>) is respected by each
  stage and by the whole pipeline.
\<close>

lemma run_cmd_files:
  "run_cmd e cmd None w = (r, w') \<Longrightarrow>
   files w' = files w \<or> (\<exists>proc. run e None cmd (files w) = Inr (proc, files w'))"
  by (drule run_cmd_cases) auto

lemma convert_stage_files:
  "files (convert_stage e c m w) = files w
   \<or> (\<exists>proc. run e None (converter_cmd c m) (files w) = Inr (proc, files (convert_stage e c m w)))"
proof -
  obtain r w' where s: "run_cmd e (converter_cmd c m) None w = (r, w')" by fastforce
  from run_cmd_files [OF s] show ?thesis
    by (auto simp: convert_stage_def s split: sum.splits)
qed

lemma rc_stages_rel:
  assumes step: "\<And>fs cmd proc fs'. run e None cmd fs = Inr (proc, fs') \<Longrightarrow> R fs fs'"
    and rrefl: "\<And>fs. R fs fs" and rtrans: "\<And>a b c. R a b \<Longrightarrow> R b c \<Longrightarrow> R a c"
  shows "R (files w) (files (snd (rc_stages e args c i ro w)))"
proof -
  have st: "R (files v) (files v')" if "run_cmd e cmd None v = (r, v')" for cmd v r v'
    using run_cmd_files [OF that] step rrefl by metis
  have cv: "R (files v) (files (convert_stage e c m v))" for m v
    using convert_stage_files [of e c m v] step rrefl by metis
  obtain r1 w1 where s1: "run_cmd e (feat_cmd c (ro @ [''database.db'']) i (rc_single_camera args)) None w = (r1, w1)"
    by fastforce
  obtain r2 w2 where s2: "run_cmd e (match_cmd c (ro @ [''database.db'']) (rc_matcher args)) None w1 = (r2, w2)"
    by fastforce
  obtain r3 w3 where s3: "run_cmd e (mapper_cmd c (ro @ [''database.db'']) i (ro @ [''sparse'']) (rc_threads args)) None w2
                          = (r3, w3)"
    by fastforce
  have "R (files w) (files w1)" "R (files w) (files w2)" "R (files w) (files w3)"
    using st [OF s1] st [OF s2] st [OF s3] by (blast intro: rtrans)+
  moreover have "R (files w) (files (convert_stage e c (ro @ [''sparse'', ''0'']) w3))"
    using \<open>R (files w) (files w3)\<close> cv by (blast intro: rtrans)
  ultimately show ?thesis
    using s1 s2 s3 by (simp add: rc_stages_def Let_def split: sum.splits)
qed

lemma rc_main_files:
  assumes "rc_main e args w = (r, w')"
  shows "(files w' = files w \<and> r \<noteq> Inr 0)
    \<or> (\<exists>fs1. py_mkdir True True (resolve e (rc_out args)) (files w) = Inr fs1 \<and> files w' = fs1 \<and> r \<noteq> Inr 0)
    \<or> (\<exists>c fs1 fs2. py_mkdir True True (resolve e (rc_out args)) (files w) = Inr fs1
        \<and> py_mkdir False True (resolve e (rc_out args) @ [''sparse'']) fs1 = Inr fs2
        \<and> rc_stages e args c (resolve e (rc_images args)) (resolve e (rc_out args)) (w\<lparr>files := fs2\<rparr>) = (r, w'))"
  using assms ensure_colmap_world [of e w]
  by (auto simp: rc_main_def Let_def split: prod.splits sum.splits if_splits)

lemma rc_main_mkdirs:
  assumes "wf_fs fs" and "py_mkdir True True ro fs = Inr fs1" and "py_mkdir False True (ro @ [''sparse'']) fs1 = Inr fs2"
  shows "wf_fs fs2 \<and> is_dir fs2 ro \<and> is_dir fs2 (ro @ [''sparse''])"
proof -
  from mkdir_parents_Inr [OF assms(1)] assms(2) have "wf_fs fs1" "is_dir fs1 ro"
    by (auto simp: py_mkdir_def)
  with mkdir_flat_Inr [of fs1 True "ro @ [''sparse'']" fs2] assms(3) show ?thesis
    by (auto simp: py_mkdir_def intro: grows_is_dir)
qed

lemma ex_colmap_grows: "ex_colmap bad cwd cmd fs = Inr (proc, fs') \<Longrightarrow> grows fs fs'"
  by (auto simp: ex_colmap_def put_node_grows split: if_splits)

text \<open>
  C20. A successful run leaves the job layout in place: the output root and its
  \<open>sparse\<close> subdirectory are directories, provided colmap deletes nothing.
\<close>

theorem rc_main_creates_layout:
  assumes wf: "wf_fs (files w)"
    and keeps: "\<forall>cwd cmd fs proc fs'. run e cwd cmd fs = Inr (proc, fs') \<longrightarrow> grows fs fs'"
    and res: "rc_main e args w = (Inr 0, w')"
  shows "is_dir (files w') (resolve e (rc_out args)) \<and> is_dir (files w') (resolve e (rc_out args) @ [''sparse''])"
proof -
  let ?ro = "resolve e (rc_out args)"
  from rc_main_files [OF res] obtain c fs1 fs2 where
    m1: "py_mkdir True True ?ro (files w) = Inr fs1" and
    m2: "py_mkdir False True (?ro @ [''sparse'']) fs1 = Inr fs2" and
    st: "rc_stages e args c (resolve e (rc_images args)) ?ro (w\<lparr>files := fs2\<rparr>) = (Inr 0, w')"
    by auto
  have "grows fs2 (files w')"
    using rc_stages_rel [of e grows "w\<lparr>files := fs2\<rparr>" args c "resolve e (rc_images args)" ?ro] keeps st
    by (simp add: grows_trans)
  with rc_main_mkdirs [OF wf m1 m2] show ?thesis by (blast intro: grows_is_dir)
qed

theorem rc_main_creates_layout_witness:
  "rc_main (ex_rc_env (ex_colmap ''none'')) ex_rc_args ex_rc_world
     = (Inr 0, snd (rc_main (ex_rc_env (ex_colmap ''none'')) ex_rc_args ex_rc_world))
   \<and> is_dir (files (snd (rc_main (ex_rc_env (ex_colmap ''none'')) ex_rc_args ex_rc_world))) [''job'']
   \<and> is_dir (files (snd (rc_main (ex_rc_env (ex_colmap ''none'')) ex_rc_args ex_rc_world))) [''job'', ''sparse'']"
proof -
  let ?e = "ex_rc_env (ex_colmap ''none'')"
  have h1: "wf_fs (files ex_rc_world)"
    by (simp add: ex_rc_world_def ex_rc_fs_def wf_fs_def is_dir_def lookup_def)
  have h2: "\<forall>cwd cmd fs proc fs'. run ?e cwd cmd fs = Inr (proc, fs') \<longrightarrow> grows fs fs'"
    by (auto simp: ex_rc_env_def intro: ex_colmap_grows)
  have "fst (rc_main ?e ex_rc_args ex_rc_world) = Inr 0" by code_simp
  then have h3: "rc_main ?e ex_rc_args ex_rc_world = (Inr 0, snd (rc_main ?e ex_rc_args ex_rc_world))"
    by (metis prod.collapse)
  from rc_main_creates_layout [OF h1 h2 h3] h3 show ?thesis by (simp add: ex_rc_env_def ex_rc_args_def)
qed

text \<open>
  C10. The runner can be run again on its own output, as the design expects
  (stage outputs are overwritten on a rerun): after a successful run, with a
  colmap that deletes nothing and keeps the tree well formed, a second \<open>main\<close>
  with the same arguments still resolves a colmap and passes the input check.
  Both \<open>mkdir\<close> calls (\<open>exist_ok=True\<close>, lines 80 and 82) succeed and change
  nothing, so it goes straight to the stages on the world the first run left.
\<close>

theorem rc_main_rerun:
  assumes wf: "wf_fs (files w)"
    and keeps: "\<forall>cwd cmd fs proc fs'. run e cwd cmd fs = Inr (proc, fs') \<longrightarrow> grows fs fs' \<and> (wf_fs fs \<longrightarrow> wf_fs fs')"
    and first: "rc_main e args w = (Inr 0, w1)"
  shows "\<exists>c. ensure_colmap e w1 = (Inr c, w1)
           \<and> rc_main e args w1 = rc_stages e args c (resolve e (rc_images args)) (resolve e (rc_out args)) w1"
proof -
  let ?i = "resolve e (rc_images args)" and ?ro = "resolve e (rc_out args)"
  from rc_main_Inr0_steps [OF first] obtain c fs1 fs2 where
    tool: "ensure_colmap e w = (Inr c, w)" and imgs: "exists (files w) ?i" and
    m1: "py_mkdir True True ?ro (files w) = Inr fs1" and
    m2: "py_mkdir False True (?ro @ [''sparse'']) fs1 = Inr fs2" and
    st: "rc_stages e args c ?i ?ro (w\<lparr>files := fs2\<rparr>) = (Inr 0, w1)"
    by blast
  from rc_main_mkdirs [OF wf m1 m2] have wf2: "wf_fs fs2" and
    d1: "is_dir fs2 ?ro" and d2: "is_dir fs2 (?ro @ [''sparse''])" by auto
  from mkdir_parents_Inr [OF wf] m1 mkdir_flat_Inr [of fs1 True "?ro @ [''sparse'']" fs2] m2
  have g1: "grows (files w) fs2"
    by (auto simp: py_mkdir_def intro: grows_trans)
  have "grows fs2 (files w1) \<and> (wf_fs fs2 \<longrightarrow> wf_fs (files w1))"
    using rc_stages_rel [of e "\<lambda>a b. grows a b \<and> (wf_fs a \<longrightarrow> wf_fs b)" "w\<lparr>files := fs2\<rparr>" args c ?i ?ro]
      keeps st by (auto intro: grows_trans)
  with wf2 have g2: "grows fs2 (files w1)" and wf1: "wf_fs (files w1)" by auto
  from g1 g2 have g: "grows (files w) (files w1)" by (rule grows_trans)
  obtain c' where tool1: "ensure_colmap e w1 = (Inr c', w1)"
    using ensure_colmap_grows [OF g tool] by blast
  have mk1: "py_mkdir True True ?ro (files w1) = Inr (files w1)"
    using mkdir_parents_existing_dir [OF wf1 grows_is_dir [OF g2 d1]] by (simp add: py_mkdir_def)
  have mk2: "py_mkdir False True (?ro @ [''sparse'']) (files w1) = Inr (files w1)"
    using mkdir_flat_existing_dir [OF wf1 grows_is_dir [OF g2 d2]] by (simp add: py_mkdir_def)
  have "rc_main e args w1 = rc_stages e args c' ?i ?ro w1"
    using tool1 exists_grows [OF g imgs] mk1 mk2 by (simp add: rc_main_def Let_def)
  with tool1 show ?thesis by blast
qed

theorem rc_main_rerun_witness:
  "\<exists>c. ensure_colmap (ex_rc_env (\<lambda>cwd cmd fs. Inr (\<lparr>returncode = 0, out_text = [], err_text = []\<rparr>, fs)))
          (snd (rc_main (ex_rc_env (\<lambda>cwd cmd fs. Inr (\<lparr>returncode = 0, out_text = [], err_text = []\<rparr>, fs)))
                 ex_rc_args ex_rc_world))
        = (Inr c, snd (rc_main (ex_rc_env (\<lambda>cwd cmd fs. Inr (\<lparr>returncode = 0, out_text = [], err_text = []\<rparr>, fs)))
                 ex_rc_args ex_rc_world))
      \<and> rc_main (ex_rc_env (\<lambda>cwd cmd fs. Inr (\<lparr>returncode = 0, out_text = [], err_text = []\<rparr>, fs))) ex_rc_args
          (snd (rc_main (ex_rc_env (\<lambda>cwd cmd fs. Inr (\<lparr>returncode = 0, out_text = [], err_text = []\<rparr>, fs)))
                 ex_rc_args ex_rc_world))
        = rc_stages (ex_rc_env (\<lambda>cwd cmd fs. Inr (\<lparr>returncode = 0, out_text = [], err_text = []\<rparr>, fs))) ex_rc_args c
            [''job'', ''images''] [''job'']
            (snd (rc_main (ex_rc_env (\<lambda>cwd cmd fs. Inr (\<lparr>returncode = 0, out_text = [], err_text = []\<rparr>, fs)))
                   ex_rc_args ex_rc_world))"
proof -
  let ?e = "ex_rc_env (\<lambda>cwd cmd fs. Inr (\<lparr>returncode = 0, out_text = [], err_text = []\<rparr>, fs))"
  have h1: "wf_fs (files ex_rc_world)"
    by (simp add: ex_rc_world_def ex_rc_fs_def wf_fs_def is_dir_def lookup_def)
  have h2: "\<forall>cwd cmd fs proc fs'. run ?e cwd cmd fs = Inr (proc, fs') \<longrightarrow> grows fs fs' \<and> (wf_fs fs \<longrightarrow> wf_fs fs')"
    by (simp add: ex_rc_env_def)
  have "fst (rc_main ?e ex_rc_args ex_rc_world) = Inr 0" by code_simp
  then have h3: "rc_main ?e ex_rc_args ex_rc_world = (Inr 0, snd (rc_main ?e ex_rc_args ex_rc_world))"
    by (metis prod.collapse)
  from rc_main_rerun [OF h1 h2 h3] show ?thesis by (simp add: ex_rc_env_def ex_rc_args_def)
qed

text \<open>
  C21. A failing stage surfaces the tool's output and the failure: when feature
  extraction exits with a non-zero code, the script logged and launched it,
  printed colmap's captured stdout and stderr (each when non-empty), and exits with
  status 1 after the traceback of the \<open>RuntimeError\<close> carrying colmap's code.
  Nothing else is launched.
\<close>

theorem rc_entry_stage_failure_output:
  assumes tool: "ensure_colmap e w = (Inr c, w)"
    and imgs: "exists (files w) (resolve e (rc_images args))"
    and mk1: "py_mkdir True True (resolve e (rc_out args)) (files w) = Inr fs1"
    and mk2: "py_mkdir False True (resolve e (rc_out args) @ [''sparse'']) fs1 = Inr fs2"
    and ran: "run e None (feat_cmd c (resolve e (rc_out args) @ [''database.db'']) (resolve e (rc_images args))
                (rc_single_camera args)) fs2 = Inr (proc, fs3)"
    and rc: "returncode proc \<noteq> 0"
  shows "rc_entry e args w =
    (1, w\<lparr>files := fs3,
          trace := trace w
            @ [Print Stdout (Running (feat_cmd c (resolve e (rc_out args) @ [''database.db'']) (resolve e (rc_images args))
                                       (rc_single_camera args))),
               Exec None (feat_cmd c (resolve e (rc_out args) @ [''database.db'']) (resolve e (rc_images args))
                            (rc_single_camera args))]
            @ (if out_text proc = [] then [] else [Print Stdout (Text (out_text proc))])
            @ (if err_text proc = [] then [] else [Print Stderr (Text (err_text proc))])
            @ [Print Stderr (Traceback (RuntimeError (returncode proc)))]\<rparr>)"
proof -
  have "run_cmd e (feat_cmd c (resolve e (rc_out args) @ [''database.db'']) (resolve e (rc_images args))
          (rc_single_camera args)) None (w\<lparr>files := fs2\<rparr>) =
        (Inl (RuntimeError (returncode proc)),
         emit_nonempty Stderr (err_text proc) (emit_nonempty Stdout (out_text proc)
           (w\<lparr>files := fs3, trace := trace w @
              [Print Stdout (Running (feat_cmd c (resolve e (rc_out args) @ [''database.db''])
                                       (resolve e (rc_images args)) (rc_single_camera args))),
               Exec None (feat_cmd c (resolve e (rc_out args) @ [''database.db''])
                            (resolve e (rc_images args)) (rc_single_camera args))]\<rparr>)))"
    using run_cmd_nonzero [of e None _ "w\<lparr>files := fs2\<rparr>", OF _ rc] ran by simp
  with tool imgs mk1 mk2 show ?thesis
    by (simp add: rc_entry_def rc_main_def rc_stages_def py_exit_def Let_def emit_def emit_nonempty_def)
qed

theorem rc_entry_stage_failure_output_witness:
  "rc_entry (ex_rc_env (ex_colmap ''feature_extractor'')) ex_rc_args ex_rc_world =
    (1, ex_rc_world\<lparr>files := ([''job'', ''sparse''], Dir) # ex_rc_fs,
          trace := [Print Stdout (Running (feat_cmd ex_colmap_exe [''job'', ''database.db''] [''job'', ''images''] True)),
                    Exec None (feat_cmd ex_colmap_exe [''job'', ''database.db''] [''job'', ''images''] True),
                    Print Stderr (Text ''error''),
                    Print Stderr (Traceback (RuntimeError 1))]\<rparr>)"
proof -
  let ?e = "ex_rc_env (ex_colmap ''feature_extractor'')"
  have h1: "ensure_colmap ?e ex_rc_world = (Inr ex_colmap_exe, ex_rc_world)" by code_simp
  have h2: "exists (files ex_rc_world) (resolve ?e (rc_images ex_rc_args))" by code_simp
  have h3: "py_mkdir True True (resolve ?e (rc_out ex_rc_args)) (files ex_rc_world) = Inr ex_rc_fs" by code_simp
  have h4: "py_mkdir False True (resolve ?e (rc_out ex_rc_args) @ [''sparse'']) ex_rc_fs
            = Inr (([''job'', ''sparse''], Dir) # ex_rc_fs)" by code_simp
  have h5: "run ?e None (feat_cmd ex_colmap_exe (resolve ?e (rc_out ex_rc_args) @ [''database.db''])
              (resolve ?e (rc_images ex_rc_args)) (rc_single_camera ex_rc_args)) (([''job'', ''sparse''], Dir) # ex_rc_fs)
            = Inr (\<lparr>returncode = 1, out_text = [], err_text = ''error''\<rparr>, ([''job'', ''sparse''], Dir) # ex_rc_fs)"
    by code_simp
  have h6: "returncode \<lparr>returncode = 1, out_text = [], err_text = ''error''\<rparr> \<noteq> 0" by simp
  from rc_entry_stage_failure_output [OF h1 h2 h3 h4 h5 h6] show ?thesis
    by (simp add: ex_rc_env_def ex_rc_args_def ex_rc_world_def)
qed

text \<open>
  C29. Progress: when colmap starts and exits with 0 on each of the four stage
  commands and the mapper leaves the model directory \<open>sparse/0\<close>, a run whose
  tool, input and directories are in place reaches the end: \<open>main\<close> returns 0,
  the last line is the Done line, and the children launched are exactly the four
  stage commands in pipeline order, the model conversion included.
\<close>

theorem rc_main_all_stages_succeed:
  assumes tool: "ensure_colmap e w = (Inr c, w)"
    and imgs: "exists (files w) (resolve e (rc_images args))"
    and mk1: "py_mkdir True True (resolve e (rc_out args)) (files w) = Inr fs1"
    and mk2: "py_mkdir False True (resolve e (rc_out args) @ [''sparse'']) fs1 = Inr fs2"
    and ok: "\<forall>cmd \<in> set (stage_cmds c args (resolve e (rc_images args)) (resolve e (rc_out args))).
               \<forall>fs. \<exists>proc fs'. run e None cmd fs = Inr (proc, fs') \<and> returncode proc = 0"
    and model: "\<forall>fs proc fs'. run e None (mapper_cmd c (resolve e (rc_out args) @ [''database.db''])
                   (resolve e (rc_images args)) (resolve e (rc_out args) @ [''sparse'']) (rc_threads args)) fs
                 = Inr (proc, fs') \<longrightarrow> exists fs' (resolve e (rc_out args) @ [''sparse'', ''0''])"
  shows "fst (rc_main e args w) = Inr 0
    \<and> last (trace (snd (rc_main e args w))) = Print Stdout (Done (resolve e (rc_out args) @ [''sparse'', ''0'']))
    \<and> execs (trace (snd (rc_main e args w))) = execs (trace w) @
          map (Pair None) (stage_cmds c args (resolve e (rc_images args)) (resolve e (rc_out args)))"
proof -
  let ?i = "resolve e (rc_images args)" and ?ro = "resolve e (rc_out args)"
  let ?w2 = "w\<lparr>files := fs2\<rparr>" and ?m = "resolve e (rc_out args) @ [''sparse'', ''0'']"
  have main: "rc_main e args w = rc_stages e args c ?i ?ro ?w2"
    using tool imgs mk1 mk2 by (simp add: rc_main_def Let_def)
  have okc: "\<exists>proc fs'. run e None cmd fs = Inr (proc, fs') \<and> returncode proc = 0"
    if "cmd \<in> set (stage_cmds c args ?i ?ro)" for cmd fs
    using ok that by blast
  obtain p1 f1 where r1: "run e None (feat_cmd c (?ro @ [''database.db'']) ?i (rc_single_camera args)) fs2 = Inr (p1, f1)"
    and z1: "returncode p1 = 0"
    using okc [of "feat_cmd c (?ro @ [''database.db'']) ?i (rc_single_camera args)" fs2] by (auto simp: stage_cmds_def)
  obtain p2 f2 where r2: "run e None (match_cmd c (?ro @ [''database.db'']) (rc_matcher args)) f1 = Inr (p2, f2)"
    and z2: "returncode p2 = 0"
    using okc [of "match_cmd c (?ro @ [''database.db'']) (rc_matcher args)" f1] by (auto simp: stage_cmds_def)
  obtain p3 f3 where r3: "run e None (mapper_cmd c (?ro @ [''database.db'']) ?i (?ro @ [''sparse'']) (rc_threads args)) f2
                          = Inr (p3, f3)"
    and z3: "returncode p3 = 0"
    using okc [of "mapper_cmd c (?ro @ [''database.db'']) ?i (?ro @ [''sparse'']) (rc_threads args)" f2]
    by (auto simp: stage_cmds_def)
  obtain p4 f4 where r4: "run e None (converter_cmd c ?m) f3 = Inr (p4, f4)"
    and z4: "returncode p4 = 0"
    using okc [of "converter_cmd c ?m" f3] by (auto simp: stage_cmds_def)
  from model r3 have m3: "exists f3 ?m" by blast
  let ?t3 = "trace w @ concat (map (\<lambda>cmd. [Print Stdout (Running cmd), Exec None cmd]) (take 3 (stage_cmds c args ?i ?ro)))"
  have conv: "convert_stage e c ?m (?w2\<lparr>files := f3, trace := ?t3\<rparr>) =
      ?w2\<lparr>files := f4, trace := ?t3 @ [Print Stdout (Running (converter_cmd c ?m)), Exec None (converter_cmd c ?m)]\<rparr>"
    using convert_stage_ok [of "?w2\<lparr>files := f3, trace := ?t3\<rparr>" ?m e c p4 f4] m3 r4 z4 by simp
  have "rc_stages e args c ?i ?ro ?w2 =
          (Inr 0, emit Stdout (Done ?m)
             (?w2\<lparr>files := f4, trace := ?t3 @ [Print Stdout (Running (converter_cmd c ?m)), Exec None (converter_cmd c ?m)]\<rparr>))"
    using rc_stages_after_mapping [of e c ?ro ?i args ?w2, OF _ z1 _ z2 _ z3] r1 r2 r3 conv by simp
  with main show ?thesis by (simp add: emit_def stage_cmds_def)
qed

theorem rc_main_all_stages_succeed_witness:
  "fst (rc_main (ex_rc_env (ex_colmap ''none'')) ex_rc_args ex_rc_world) = Inr 0
   \<and> last (trace (snd (rc_main (ex_rc_env (ex_colmap ''none'')) ex_rc_args ex_rc_world)))
       = Print Stdout (Done [''job'', ''sparse'', ''0''])
   \<and> execs (trace (snd (rc_main (ex_rc_env (ex_colmap ''none'')) ex_rc_args ex_rc_world)))
       = map (Pair None) (stage_cmds ex_colmap_exe ex_rc_args [''job'', ''images''] [''job''])"
proof -
  let ?e = "ex_rc_env (ex_colmap ''none'')"
  have h1: "ensure_colmap ?e ex_rc_world = (Inr ex_colmap_exe, ex_rc_world)" by code_simp
  have h2: "exists (files ex_rc_world) (resolve ?e (rc_images ex_rc_args))" by code_simp
  have h3: "py_mkdir True True (resolve ?e (rc_out ex_rc_args)) (files ex_rc_world) = Inr ex_rc_fs" by code_simp
  have h4: "py_mkdir False True (resolve ?e (rc_out ex_rc_args) @ [''sparse'']) ex_rc_fs
            = Inr (([''job'', ''sparse''], Dir) # ex_rc_fs)" by code_simp
  have h5: "\<forall>cmd \<in> set (stage_cmds ex_colmap_exe ex_rc_args (resolve ?e (rc_images ex_rc_args)) (resolve ?e (rc_out ex_rc_args))).
               \<forall>fs. \<exists>proc fs'. run ?e None cmd fs = Inr (proc, fs') \<and> returncode proc = 0"
    by (simp add: ex_rc_env_def ex_colmap_def stage_cmds_def feat_cmd_def match_cmd_def mapper_cmd_def
                  converter_cmd_def ex_rc_args_def)
  have h6: "\<forall>fs proc fs'. run ?e None (mapper_cmd ex_colmap_exe (resolve ?e (rc_out ex_rc_args) @ [''database.db''])
                   (resolve ?e (rc_images ex_rc_args)) (resolve ?e (rc_out ex_rc_args) @ [''sparse''])
                   (rc_threads ex_rc_args)) fs
                 = Inr (proc, fs') \<longrightarrow> exists fs' (resolve ?e (rc_out ex_rc_args) @ [''sparse'', ''0''])"
    by (simp add: ex_rc_env_def ex_colmap_def mapper_cmd_def ex_rc_args_def)
  from rc_main_all_stages_succeed [OF h1 h2 h3 h4 h5 h6] show ?thesis
    by (simp add: ex_rc_env_def ex_rc_args_def ex_rc_world_def)
qed

end
