(* ===== verification/Run_Colmap_CLI.thy ===== *)
theory Run_Colmap_CLI
  imports Run_Colmap Argparse
begin

text \<open>
  The command line of \<open>src/scripts/run_colmap.py\<close>: \<open>parse_args\<close> as the
  argument specifications \<open>rc_parser\<close> run through the \<open>argparse\<close> model,
  \<open>main\<close>'s first statement (\<open>rc_main_argv\<close>), and the script run from its
  command line (\<open>rc_cli\<close>).  The lemmas give its defaults, the choices of
  \<open>--matcher\<close>, the round trip of a record of arguments, and the exit statuses.
\<close>

text \<open>
  \<open>parse_args\<close> (lines 61-68): the five \<open>add_argument\<close> calls as argument
  specifications, after the automatic \<open>-h\<close>/\<open>--help\<close>, and the namespace read
  back as the record of parsed arguments.
\<close>

definition rc_parser :: "arg_spec list" where
  "rc_parser =
     [help_spec,
      \<lparr>a_flags = [''--images''], a_dest = ''images'', a_action = Store, a_type = T_str, a_choices = None,
       a_required = True, a_default = V_none\<rparr>,
      \<lparr>a_flags = [''--out''], a_dest = ''out'', a_action = Store, a_type = T_str, a_choices = None,
       a_required = True, a_default = V_none\<rparr>,
      \<lparr>a_flags = [''--matcher''], a_dest = ''matcher'', a_action = Store, a_type = T_str,
       a_choices = Some [V_str ''exhaustive'', V_str ''sequential''], a_required = False,
       a_default = V_str ''sequential''\<rparr>,
      \<lparr>a_flags = [''--single_camera''], a_dest = ''single_camera'', a_action = Store_true, a_type = T_str,
       a_choices = None, a_required = False, a_default = V_bool False\<rparr>,
      \<lparr>a_flags = [''--threads''], a_dest = ''threads'', a_action = Store, a_type = T_int, a_choices = None,
       a_required = False, a_default = V_int 8\<rparr>]"

definition rc_parse_args :: "string list \<Rightarrow> outcome" where
  "rc_parse_args argv = parse_args rc_parser argv"

definition rc_args_of :: "(string \<Rightarrow> argval) \<Rightarrow> rc_args" where
  "rc_args_of ns =
     \<lparr>rc_images = str_val (ns ''images''), rc_out = str_val (ns ''out''), rc_matcher = str_val (ns ''matcher''),
      rc_single_camera = bool_val (ns ''single_camera''), rc_threads = int_val (ns ''threads'')\<rparr>"

text \<open>
  \<open>main\<close>'s first statement, \<open>args = parse_args()\<close> (lines 71-72).  On a
  usage error \<open>parser.error\<close> prints the usage and the message on stderr and raises
  \<open>SystemExit(2)\<close>; \<open>-h\<close> prints the help and raises \<open>SystemExit(0)\<close>.  Neither is
  caught, so \<open>main\<close> is left at once (\<open>Inl\<close>, the status the exception carries);
  otherwise the rest of \<open>main\<close> runs on the parsed arguments (\<open>Inr\<close>, its outcome).
\<close>

definition rc_main_argv :: "env \<Rightarrow> string list \<Rightarrow> world \<Rightarrow> (8 word + (exc + int)) \<times> world" where
  "rc_main_argv e argv w =
     (case rc_parse_args argv of
        Arg_error err \<Rightarrow> (Inl 2, emit Stderr (Usage_error err) w)
      | Help_exit \<Rightarrow> (Inl 0, emit Stdout Help_text w)
      | Parsed ns \<Rightarrow> apfst Inr (rc_main e (rc_args_of ns) w))"

text \<open>\<open>sys.exit(main())\<close> from the command line (lines 139-140).\<close>

definition rc_cli :: "env \<Rightarrow> string list \<Rightarrow> world \<Rightarrow> 8 word \<times> world" where
  "rc_cli e argv w = sys_exit (rc_main_argv e argv w)"

text \<open>The command line that spells out a record of arguments.\<close>

definition rc_render :: "rc_args \<Rightarrow> string list" where
  "rc_render a =
     [''--images'', rc_images a, ''--out'', rc_out a, ''--matcher'', rc_matcher a,
      ''--threads'', int_str (rc_threads a)]
     @ (if rc_single_camera a then [''--single_camera''] else [])"

section \<open>The command line\<close>

text \<open>The script from its command line, by the outcome of \<open>parse_args\<close>.\<close>

lemma rc_cli_cases:
  "rc_cli e argv w =
     (case rc_parse_args argv of
        Arg_error err \<Rightarrow> (2, emit Stderr (Usage_error err) w)
      | Help_exit \<Rightarrow> (0, emit Stdout Help_text w)
      | Parsed ns \<Rightarrow> rc_entry e (rc_args_of ns) w)"
  by (simp add: rc_cli_def rc_main_argv_def rc_entry_def split: outcome.split)

lemma rc_parser_flags:
  "\<forall>(f, sp) \<in> set (flag_table rc_parser). 2 \<le> length f \<and> \<not> is_digit (f ! 1)"
  by (simp add: rc_parser_def help_spec_def flag_table_def is_digit_def)

lemma rc_parser_classify:
  "classify rc_parser ''--images'' = Inr (Tok_opt (rc_parser ! 1) ''--images'' None)"
  "classify rc_parser ''--out'' = Inr (Tok_opt (rc_parser ! 2) ''--out'' None)"
  "classify rc_parser ''--matcher'' = Inr (Tok_opt (rc_parser ! 3) ''--matcher'' None)"
  "classify rc_parser ''--single_camera'' = Inr (Tok_opt (rc_parser ! 4) ''--single_camera'' None)"
  "classify rc_parser ''--threads'' = Inr (Tok_opt (rc_parser ! 5) ''--threads'' None)"
  by (rule classify_exact; simp add: rc_parser_def help_spec_def flag_table_def)+

text \<open>
  C26. The defaults of \<open>parse_args\<close>: with only \<open>--images\<close> and \<open>--out\<close> given,
  the matcher is sequential, \<open>--single_camera\<close> is off and the mapper gets 8 threads.
\<close>

theorem rc_parse_args_defaults:
  assumes "take 1 i \<noteq> ''-''" and "take 1 ro \<noteq> ''-''"
  shows "\<exists>ns. rc_parse_args [''--images'', i, ''--out'', ro] = Parsed ns
           \<and> rc_args_of ns = \<lparr>rc_images = i, rc_out = ro, rc_matcher = ''sequential'',
                              rc_single_camera = False, rc_threads = 8\<rparr>"
  using assms
  by (simp add: rc_parse_args_def parse_args_def classify_plain rc_parser_classify plain_not_dashdash)
     (simp add: rc_parser_def help_spec_def convert_def finish_def initial_ns_def rc_args_of_def)

theorem rc_parse_args_defaults_witness:
  "take 1 ''frames'' \<noteq> ''-'' \<and> take 1 ''job'' \<noteq> ''-''
   \<and> (\<exists>ns. rc_parse_args [''--images'', ''frames'', ''--out'', ''job''] = Parsed ns
       \<and> rc_args_of ns = \<lparr>rc_images = ''frames'', rc_out = ''job'', rc_matcher = ''sequential'',
                          rc_single_camera = False, rc_threads = 8\<rparr>)"
  using rc_parse_args_defaults [of "''frames''" "''job''"] by simp

text \<open>
  C27. The matcher is always one of the two choices: whatever the command line,
  a namespace \<open>parse_args\<close> returns names \<open>exhaustive\<close> or \<open>sequential\<close>, so the
  \<open>else\<close> branch of lines 98-101 runs exactly for \<open>exhaustive\<close>.
\<close>

theorem rc_parse_args_matcher_choice:
  assumes "rc_parse_args argv = Parsed ns"
  shows "rc_matcher (rc_args_of ns) \<in> {''exhaustive'', ''sequential''}"
proof -
  let ?cs = "[V_str ''exhaustive'', V_str ''sequential'']"
  from assms obtain ts where cl: "classify_all rc_parser argv = Inr ts"
    and c: "consume rc_parser ts (initial_ns rc_parser) [] [] = Parsed ns"
    by (auto simp: rc_parse_args_def parse_args_def split: sum.splits)
  have only: "\<forall>sp \<in> set rc_parser. a_dest sp = ''matcher'' \<longrightarrow> a_action sp = Store \<and> a_choices sp = Some ?cs"
    by (simp add: rc_parser_def help_spec_def)
  have "initial_ns rc_parser ''matcher'' \<in> set ?cs"
    by (simp add: initial_ns_def rc_parser_def help_spec_def)
  with consume_choice [OF only c] classify_all_spec [OF cl] have "ns ''matcher'' \<in> set ?cs" by blast
  then show ?thesis by (auto simp: rc_args_of_def)
qed

theorem rc_parse_args_matcher_choice_witness:
  "\<exists>ns. rc_parse_args [''--images'', ''frames'', ''--out'', ''job'', ''--matcher'', ''exhaustive''] = Parsed ns
       \<and> rc_matcher (rc_args_of ns) = ''exhaustive''
       \<and> rc_matcher (rc_args_of ns) \<in> {''exhaustive'', ''sequential''}"
proof -
  let ?argv = "[''--images'', ''frames'', ''--out'', ''job'', ''--matcher'', ''exhaustive'']"
  let ?ns = "case rc_parse_args ?argv of Parsed ns \<Rightarrow> ns"
  have p: "rc_parse_args ?argv = Parsed ?ns"
    by (simp add: rc_parse_args_def parse_args_def classify_plain rc_parser_classify)
       (simp add: rc_parser_def help_spec_def convert_def finish_def)
  have m: "rc_matcher (rc_args_of ?ns) = ''exhaustive''"
    by (simp add: rc_parse_args_def parse_args_def classify_plain rc_parser_classify)
       (simp add: rc_parser_def help_spec_def convert_def finish_def rc_args_of_def)
  from p m rc_parse_args_matcher_choice [OF p] show ?thesis by blast
qed

text \<open>
  C28. Round trip: every record of arguments whose paths are not option-like and
  whose matcher is one of the choices is what \<open>parse_args\<close> returns for the
  command line that spells it out.
\<close>

theorem rc_parse_args_render:
  assumes "take 1 (rc_images a) \<noteq> ''-''" and "take 1 (rc_out a) \<noteq> ''-''"
    and "rc_matcher a \<in> {''exhaustive'', ''sequential''}"
  shows "\<exists>ns. rc_parse_args (rc_render a) = Parsed ns \<and> rc_args_of ns = a"
proof -
  have i: "classify rc_parser (int_str (rc_threads a)) = Inr Tok_arg"
    by (rule classify_int_str [OF rc_parser_flags])
  have m: "take 1 (rc_matcher a) \<noteq> ''-''" using assms(3) by auto
  show ?thesis
    using assms(1,2) m i assms(3)
    by (simp add: rc_parse_args_def parse_args_def rc_render_def classify_plain rc_parser_classify
                  plain_not_dashdash int_str_not_dashdash)
       (auto simp: rc_parser_def help_spec_def convert_def finish_def initial_ns_def rc_args_of_def
                   py_int_int_str)
qed

theorem rc_parse_args_render_witness:
  "take 1 ''frames'' \<noteq> ''-'' \<and> take 1 ''job'' \<noteq> ''-'' \<and> ''sequential'' \<in> {''exhaustive'', ''sequential''}
   \<and> rc_render ex_rc_args = [''--images'', ''images'', ''--out'', ''job'', ''--matcher'', ''sequential'',
                             ''--threads'', ''4'', ''--single_camera'']
   \<and> (\<exists>ns. rc_parse_args (rc_render ex_rc_args) = Parsed ns \<and> rc_args_of ns = ex_rc_args)"
proof -
  have r: "rc_render ex_rc_args = [''--images'', ''images'', ''--out'', ''job'', ''--matcher'', ''sequential'',
                             ''--threads'', ''4'', ''--single_camera'']"
    by (simp add: rc_render_def ex_rc_args_def int_str_def nat_str_def digits10.simps digit_char_def)
  have "take 1 (rc_images ex_rc_args) \<noteq> ''-''" "take 1 (rc_out ex_rc_args) \<noteq> ''-''"
    "rc_matcher ex_rc_args \<in> {''exhaustive'', ''sequential''}"
    by (simp_all add: ex_rc_args_def)
  from rc_parse_args_render [OF this] r show ?thesis by simp
qed

text \<open>
  C30. The script's exit status is 0, 1 or 2 whatever the command line and
  whatever the tools do: 2 exactly when \<open>parse_args\<close> rejects the command
  line, never a code passed through from COLMAP.
\<close>

theorem rc_cli_exit_status:
  "fst (rc_cli e argv w) \<in> {0, 1, 2}
   \<and> (fst (rc_cli e argv w) = 2 \<longleftrightarrow> (\<exists>err. rc_parse_args argv = Arg_error err))"
proof (cases "rc_parse_args argv")
  case (Parsed ns)
  with rc_entry_range [of e "rc_args_of ns" w] show ?thesis
    by (auto simp: rc_cli_cases)
qed (auto simp: rc_cli_cases)

theorem rc_cli_exit_status_witness:
  "fst (rc_cli (ex_rc_env (ex_colmap ''none'')) [] ex_rc_world) = 2"
proof -
  have "rc_parse_args [] = Arg_error (Required_missing [[''--images''], [''--out'']])"
    by (simp add: rc_parse_args_def parse_args_def classify_all_plain consume_plain finish_def)
       (simp add: rc_parser_def help_spec_def)
  with rc_cli_exit_status [of "ex_rc_env (ex_colmap ''none'')" "[]" ex_rc_world] show ?thesis
    by auto
qed

end
