(* ===== verification/Spec2Isabelle.thy ===== *)
theory Spec2Isabelle
  imports Prepare_Video_CLI Run_Colmap_CLI
begin

text \<open>
  \<^bold>\<open>A verification development for the LiteGS data-preparation scripts.\<close>

  \<^medskip>
  \<^bold>\<open>The program.\<close> The repository's code under \<open>src/\<close> is two command-line
  scripts that run one after the other:
  \<^item> \<open>src/scripts/prepare_video.py\<close> (the frame extractor) finds ffmpeg on \<open>PATH\<close>
    (\<open>ensure_ffmpeg\<close>), checks the input video, creates \<open><out>/images\<close>, refuses to
    overwrite existing \<open>frame_*.png\<close> files unless given \<open>--overwrite\<close>, runs
    ffmpeg with the output pattern \<open>frame_%05d.png\<close>, and counts the frames it finds.
  \<^item> \<open>src/scripts/run_colmap.py\<close> (the reconstruction runner) resolves a colmap
    executable (\<open>ensure_colmap\<close>: three bundled candidates, then \<open>PATH\<close>), checks
    the images folder, creates \<open><out>\<close> and \<open><out>/sparse\<close>, and runs feature
    extraction, matching and mapping through \<open>run_cmd\<close>, with each stage fatal when it fails.
    It then runs the model conversion as a best-effort stage, whose failure is reported
    and absorbed.
  The scripts interact through the file system: the runner's \<open>--images\<close> is the
  extractor's \<open><out>/images\<close>.  Both read their command line with \<open>argparse\<close>
  (\<open>parse_args\<close>, the first statement of \<open>main\<close>) and end in \<open>sys.exit(main())\<close>.

  \<^medskip>
  \<^bold>\<open>Theories.\<close>
  \<^item> \<open>Prelude\<close>: paths, nodes and the file system as an association list; the
    exceptions (\<open>exc\<close>), printed lines (\<open>msg\<close>) and the trace of prints and
    process launches (\<open>event\<close>); the \<open>world\<close> record (files and trace); the
    operation type \<open>'a py\<close>, where \<open>world \<Rightarrow> (exc + 'a) \<times> world\<close> and \<open>Inl\<close> is a raise.
    It also holds the environment \<open>env\<close> (path resolution, \<open>PATH\<close>, the child-process
    runner, \<open>__file__\<close>) and \<open>py_exit\<close>, the 8-bit exit status of
    \<open>sys.exit\<close>, as an \<open>8 word\<close>; \<open>sys_exit\<close> adds a \<open>SystemExit\<close> that leaves
    \<open>main\<close> early with its own status.
  \<^item> \<open>Filesystem\<close>: the library calls the scripts make.  \<open>exists\<close>/\<open>is_dir\<close>;
    \<open>os_mkdir\<close>, \<open>mkdir_flat\<close> and \<open>mkdir_parents\<close>, with \<open>py_mkdir\<close> giving the exact
    \<open>Path.mkdir(parents, exist_ok)\<close> semantics and errors; \<open>which\<close>, that is,
    \<open>shutil.which\<close>; \<open>py_run\<close>, that is, \<open>subprocess.run\<close>, recording the launch.  It also
    holds the invariant \<open>wf_fs\<close> (distinct entries, every parent a directory), which
    \<open>mkdir\<close> preserves, and \<open>grows\<close>, which says a run deletes nothing.
  \<^item> \<open>Glob\<close>: \<open>Path.glob\<close> with an fnmatch pattern (\<open>glob_match\<close>, \<open>children\<close>,
    \<open>glob\<close>).
  \<^item> \<open>Decimal\<close>: \<open>str(int)\<close> (\<open>nat_str\<close>, \<open>int_str\<close>), zero padding, the reader
    \<open>parse_nat\<close> of non-negative renderings, and Python's \<open>int(s)\<close> (\<open>py_int\<close>:
    whitespace, sign, underscores), which reads every \<open>str\<close> rendering back.
  \<^item> \<open>Argparse\<close>: the part of \<open>argparse\<close> the scripts use (CPython 3.12):
    argument specifications (\<open>arg_spec\<close>), the classification of argument
    strings (\<open>classify\<close>: exact option strings, \<open>--opt=value\<close>, unique prefixes,
    negative numbers, \<open>--\<close>), the consuming loop (\<open>consume\<close>: \<open>store\<close> with
    \<open>type\<close> and \<open>choices\<close>, \<open>store_true\<close>, \<open>-h\<close>), and the final checks of required
    and unrecognised arguments (\<open>finish\<close>).  Its lemmas: plain arguments and
    \<open>str\<close>-rendered numbers are values, and a destination written only by
    choice-checked actions always holds a choice (\<open>consume_choice\<close>).
  \<^item> \<open>Frame_Names\<close>: the pattern \<open>frame_%05d.png\<close> as ffmpeg expands it
    (\<open>frame_filename\<close>) and the glob \<open>frame_*.png\<close>.  It also holds \<open>frames_written\<close>,
    what an extraction of \<open>k\<close> frames leaves in a directory.  Claim C7.
  \<^item> \<open>Prepare_Video\<close>: \<open>prepare_video.py\<close>, split as follows:
    \<^item> \<open>ensure_ffmpeg\<close>, lines 23-28;
    \<^item> \<open>pv_main\<close>, \<open>main\<close> lines 40-57;
    \<^item> \<open>extract_cmd\<close> and \<open>pv_extract\<close>, lines 59-83;
    \<^item> \<open>pv_verify\<close>, lines 85-91;
    \<^item> \<open>pv_entry\<close>, line 95 on parsed arguments.
    Claims C4 to C6, C12 to C14, C18, C19 and C31.
  \<^item> \<open>Prepare_Video_CLI\<close>: the command line of \<open>prepare_video.py\<close>:
    \<^item> \<open>pv_parser\<close> and \<open>pv_parse_args\<close>, \<open>parse_args\<close> lines 31-37;
    \<^item> \<open>pv_main_argv\<close>, \<open>main\<close>'s first statement \<open>args = parse_args()\<close> (lines
      40-41): a usage error raises \<open>SystemExit(2)\<close>, \<open>-h\<close> \<open>SystemExit(0)\<close>, and
      otherwise \<open>pv_main\<close> runs on the parsed arguments;
    \<^item> \<open>pv_cli\<close>, \<open>sys.exit(main())\<close> (lines 94-95) through \<open>sys_exit\<close>.
    Claims C22 to C25.
  \<^item> \<open>Run_Colmap\<close>: \<open>run_colmap.py\<close>:
    \<^item> \<open>ensure_colmap\<close>, lines 27-47;
    \<^item> \<open>run_cmd\<close>, lines 50-58;
    \<^item> the four command builders;
    \<^item> \<open>rc_stages\<close>, lines 84-136;
    \<^item> \<open>convert_stage\<close>, lines 118-133;
    \<^item> \<open>rc_main\<close>, lines 71-136;
    \<^item> \<open>rc_entry\<close>, line 140 on parsed arguments.
    Claims C1 to C3, C8 to C11, C15, C16, C20, C21 and C29.
  \<^item> \<open>Run_Colmap_CLI\<close>: the command line of \<open>run_colmap.py\<close>: \<open>rc_parser\<close> and
    \<open>rc_parse_args\<close> (\<open>parse_args\<close> lines 61-68), \<open>rc_main_argv\<close> (lines 71-72) and
    \<open>rc_cli\<close> (lines 139-140), as for the extractor.  Claims C26 to C28 and C30.
  \<^item> This theory holds claim C17, which spans both scripts: a successful extraction leaves a
    directory the runner accepts.

  \<^medskip>
  \<^bold>\<open>What the lemmas show.\<close>
  \<^item> Each operation's result on every branch, errors included.
  \<^item> Preservation of \<open>wf_fs\<close> by \<open>mkdir\<close>.  The stage lemmas are stated once for
    any reflexive, transitive relation the child processes respect
    (\<open>rc_stages_rel\<close>), and used for \<open>grows\<close> and \<open>wf_fs\<close> across a run.
  \<^item> The exact frame count and names of an extraction into an empty directory.
  \<^item> The exact sequence of child processes, and that each launch is logged first.
  \<^item> The resolution of colmap against the design's ordered lookup chain, with the
    candidates spelled out (C9).
  \<^item> That every name the output pattern produces is found by the frame glob.
  \<^item> The exit status as an 8-bit word; \<open>run_colmap.py\<close> exits only with 0, 1
    or 2, and with 2 exactly on a usage error.
  \<^item> Error paths the spec leaves out: a tool found but impossible to start ends
    \<open>prepare_video.py\<close> with a traceback and status 1.
  \<^item> Command-line round trips: a record of arguments is what \<open>parse_args\<close>
    returns for the command line spelling it out.
  \<^item> The command line's defaults, its exit status 2 on errors, the ambiguity of
    abbreviations, and that \<open>--matcher\<close> always holds one of its choices.
  \<^item> Progress: when every stage succeeds and the mapper leaves its model, the
    runner launches exactly the four stages and reaches its Done line (C29).
  \<^item> Composition of runs: a second run of the runner on the world a successful
    run left goes straight to its stages, since resolution, validation and the two
    \<open>mkdir(exist_ok=True)\<close> calls succeed and change nothing (C10).

  \<^medskip>
  \<^bold>\<open>Termination and fuel.\<close> Every definition of the scripts is total.  No fuel is
  needed.
  \<^item> The scripts contain no unbounded loops.  The one loop, over the three colmap candidates,
    is \<open>find\<close>.
  \<^item> \<open>mkdir_parents\<close> and \<open>frame_filename\<close> are \<open>function\<close>s, with measures on the
    path and on the pattern length.
  \<^item> The argument loop \<open>consume\<close> is a \<open>fun\<close> whose recursion drops one or two
    argument strings, and \<open>classify_all\<close> is structural.
  \<^item> The other definitions are structural.

  \<^medskip>
  \<^bold>\<open>Not modelled.\<close>
  \<^item> Of \<open>argparse\<close>, what the two parsers do not use: positional arguments,
    other actions and \<open>nargs\<close>, short options other than \<open>-h\<close>, the \<open>prog\<close> name and
    the text of usage and help.  The reading of \<open>--\<close> follows CPython 3.12, and
    earlier or later versions differ in corner cases.  Non-ASCII digits and spaces
    accepted by \<open>int()\<close> are not modelled.
  \<^item> \<open>expanduser().resolve()\<close>: the function \<open>resolve\<close> of \<open>env\<close>, so the
    model works on resolved absolute paths, with no symlinks.
  \<^item> The internals of ffmpeg and colmap: an opaque \<open>runner\<close>, constrained only
    where a theorem says so.  For example, \<open>grows\<close> says ffmpeg deletes nothing.
  \<^item> The text of printed lines: a \<open>msg\<close> constructor keeps the data.
  \<^item> Windows path syntax, permissions other than the executable bit, and
    concurrent changes to the file system.
  \<^item> The module docstrings and the \<open>import\<close> lines of both scripts: every other
    statement is translated by a definition named above.
\<close>

text \<open>
  C17. The two tools compose: after a successful \<open>prepare_video.py\<close> run (with an
  ffmpeg that deletes nothing), the images directory it reports is a directory in
  the resulting file system, and \<open>run_colmap.py\<close> pointed at it with
  \<open>--images\<close> passes its input validation: it never returns the
  "images folder not found" code 1.
\<close>

theorem frames_dir_accepted_by_runner:
  assumes wf: "wf_fs (files w)"
    and keeps: "\<forall>cwd cmd fs proc fs'. run e cwd cmd fs = Inr (proc, fs') \<longrightarrow> grows fs fs'"
    and pv: "pv_main e args w = (Inr 0, w')"
    and images: "resolve e' (rc_images rargs) = pv_images_dir e args"
    and tool: "ensure_colmap e' w' = (Inr c, w')"
  shows "is_dir (files w') (pv_images_dir e args) \<and> fst (rc_main e' rargs w') \<noteq> Inr 1"
proof -
  let ?v = "resolve e (pv_video args)" and ?d = "pv_images_dir e args"
  from pv_main_Inr0 [OF pv] obtain ffmpeg fs1 where
    mk: "py_mkdir True True ?d (files w) = Inr fs1" and
    ext: "pv_extract e args ffmpeg ?v ?d (w\<lparr>files := fs1\<rparr>) = (Inr 0, w')"
    by blast
  from mkdir_parents_Inr [OF wf] mk have dir1: "is_dir fs1 ?d"
    by (auto simp: py_mkdir_def)
  from pv_extract_Inr0 [OF ext] obtain proc fs' where
    ran: "run e None (extract_cmd ffmpeg ?v (pv_fps args) (pv_overwrite args) ?d) fs1 = Inr (proc, fs')" and
    ver: "pv_verify ?d (w\<lparr>files := fs', trace := trace w @
            [Print Stdout (Extract_cmd (extract_cmd ffmpeg ?v (pv_fps args) (pv_overwrite args) ?d)),
             Exec None (extract_cmd ffmpeg ?v (pv_fps args) (pv_overwrite args) ?d)]\<rparr>) = (Inr 0, w')"
    by auto
  from keeps ran have "grows fs1 fs'" by blast
  with dir1 have "is_dir fs' ?d" by (rule grows_is_dir [rotated])
  moreover from pv_verify_cases [OF ver] have "files w' = fs'" by auto
  ultimately have dir: "is_dir (files w') ?d" by simp
  then have ex: "exists (files w') (resolve e' (rc_images rargs))"
    by (simp add: images exists_def is_dir_def)
  have "fst (rc_main e' rargs w') \<noteq> Inr 1"
  proof
    assume one: "fst (rc_main e' rargs w') = Inr 1"
    obtain r w'' where res: "rc_main e' rargs w' = (r, w'')" by fastforce
    with one have "r = Inr 1" by simp
    with res tool ex show False
      by (auto simp: rc_main_def Let_def dest: rc_stages_execs split: sum.splits)
  qed
  with dir show ?thesis by blast
qed

theorem frames_dir_accepted_by_runner_witness:
  "is_dir (files (snd (pv_main (ex_env (ex_writes_frames 1)) (ex_args True) ex_world))) [''job'', ''images'']
   \<and> fst (rc_main (ex_rc_env (ex_colmap ''none'')) ex_rc_args
           (snd (pv_main (ex_env (ex_writes_frames 1)) (ex_args True) ex_world))) \<noteq> Inr 1"
proof -
  let ?w' = "\<lparr>files = ex_fs, trace = [Print Stdout (Extract_cmd ex_cmd), Exec None ex_cmd,
                                      Print Stdout (Frames_done 3 [''job'', ''images''])]\<rparr>"
  have wf: "wf_fs (files ex_world)" by (simp add: ex_world_def wf_ex_fs)
  have keeps: "\<forall>cwd cmd fs proc fs'. run (ex_env (ex_writes_frames 1)) cwd cmd fs = Inr (proc, fs') \<longrightarrow> grows fs fs'"
    using ex_writes_frames_grows [of 1] by (simp add: ex_env_def)
  have imgs: "resolve (ex_rc_env (ex_colmap ''none'')) (rc_images ex_rc_args)
              = pv_images_dir (ex_env (ex_writes_frames 1)) (ex_args True)"
    by (simp add: ex_rc_env_def ex_rc_args_def ex_env_def ex_args_def)
  have tool: "ensure_colmap (ex_rc_env (ex_colmap ''none'')) ?w' = (Inr ''/usr/bin/colmap'', ?w')"
    by (simp add: ensure_colmap_def parents1_def ex_rc_env_def colmap_candidates_def exists_def lookup_def
                  ex_fs_def which_def path_str_def)
  from frames_dir_accepted_by_runner [OF wf keeps ex_stale_run imgs tool] ex_stale_run show ?thesis
    by (simp add: ex_env_def ex_args_def)
qed

end
